(* ===== verification/Prelude.thy ===== *)
theory Prelude
  imports Main "HOL-Library.Product_Lexorder"
begin

text \<open>
  Shared vocabulary of the model of \<^verbatim>\<open>src/generar_recibi.py\<close>: Python strings as lists
  of Unicode code points, the few string builtins the program calls (\<^verbatim>\<open>str.upper\<close>,
  \<^verbatim>\<open>str.strip\<close>, \<^verbatim>\<open>str.replace\<close>, \<^verbatim>\<open>str(int)\<close>, slicing), dictionary
  literals with Python's "last key wins" rule, the Python exceptions the program can raise,
  and the generic lemmas on them that the component theories use.
\<close>

named_theorems py_simps "evaluation equations of the modelled Python builtins"

section \<open>Strings\<close>

text \<open>
  A Python \<^verbatim>\<open>str\<close> is a sequence of code points; slicing and \<^verbatim>\<open>len\<close> count code
  points, not bytes. \<open>u\<close> reads an ASCII literal as such a sequence; non-ASCII code
  points are written as numbers (\<open>243\<close> is \<open>\<acute>o\<close>, \<open>241\<close> is \<open>\<tilde>n\<close>, \<open>8364\<close> is
  the euro sign).
\<close>

type_synonym ustr = "nat list"

definition u :: "string \<Rightarrow> ustr" where
  "u s = map of_char s"

subsection \<open>str.upper\<close>

text \<open>
  Python's full Unicode upper-casing restricted to Latin-1, the range of Spanish names:
  ASCII and Latin-1 lower-case letters move down by 32, \<open>\<mu>\<close> (181) becomes Greek
  capital Mu (924), \<open>\<yuml>\<close> (255) becomes 376, and the sharp s (223) becomes the two
  letters \<^verbatim>\<open>SS\<close>, so that \<^verbatim>\<open>upper\<close> can make a string longer. Code points above
  255 are left as they are.
\<close>

definition upper_cp :: "nat \<Rightarrow> ustr" where
  "upper_cp c =
     (if 97 \<le> c \<and> c \<le> 122 then [c - 32]
      else if c = 181 then [924]
      else if c = 223 then [83, 83]
      else if 224 \<le> c \<and> c \<le> 254 \<and> c \<noteq> 247 then [c - 32]
      else if c = 255 then [376]
      else [c])"

definition py_upper :: "ustr \<Rightarrow> ustr" where
  "py_upper s = concat (map upper_cp s)"

subsection \<open>str.strip and str.replace\<close>

text \<open>The code points Python's \<^verbatim>\<open>str.isspace\<close> accepts; \<^verbatim>\<open>strip()\<close> and
  \<^verbatim>\<open>float()\<close> remove them at both ends.\<close>

definition py_isspace :: "nat \<Rightarrow> bool" where
  "py_isspace c \<longleftrightarrow>
     (9 \<le> c \<and> c \<le> 13) \<or> (28 \<le> c \<and> c \<le> 32) \<or> c = 133 \<or> c = 160 \<or> c = 5760 \<or>
     (8192 \<le> c \<and> c \<le> 8202) \<or> c = 8232 \<or> c = 8233 \<or> c = 8239 \<or> c = 8287 \<or> c = 12288"

definition py_strip :: "ustr \<Rightarrow> ustr" where
  "py_strip s = rev (dropWhile py_isspace (rev (dropWhile py_isspace s)))"

text \<open>\<^verbatim>\<open>s.replace(a, b)\<close> for one-character \<open>a\<close> and \<open>b\<close>, the only form the program uses.\<close>

definition py_replace1 :: "nat \<Rightarrow> nat \<Rightarrow> ustr \<Rightarrow> ustr" where
  "py_replace1 a b s = map (\<lambda>c. if c = a then b else c) s"

text \<open>\<^verbatim>\<open>s.replace(" ", "")\<close>: deleting a character.\<close>

definition py_delete1 :: "nat \<Rightarrow> ustr \<Rightarrow> ustr" where
  "py_delete1 a s = filter (\<lambda>c. c \<noteq> a) s"

subsection \<open>str(int)\<close>

text \<open>Decimal digits of a natural number, most significant first, and Python's
  \<^verbatim>\<open>str\<close> on integers: a minus sign for negative values, no leading zeros.\<close>

fun nat_digits :: "nat \<Rightarrow> nat list" where
  "nat_digits n = (if n < 10 then [n] else nat_digits (n div 10) @ [n mod 10])"

declare nat_digits.simps [simp del]

definition nat_str :: "nat \<Rightarrow> ustr" where
  "nat_str n = map (\<lambda>d. 48 + d) (nat_digits n)"

definition int_str :: "int \<Rightarrow> ustr" where
  "int_str i = (if i < 0 then 45 # nat_str (nat (- i)) else nat_str (nat i))"

text \<open>\<^verbatim>\<open>'%02d'\<close>-style zero padding to a minimum width, as \<^verbatim>\<open>strftime\<close> pads
  day and month.\<close>

definition zpad :: "nat \<Rightarrow> nat \<Rightarrow> ustr" where
  "zpad w n = replicate (w - length (nat_str n)) 48 @ nat_str n"

text \<open>Position of the first occurrence of an element, as pandas locates a column
  label (the length of the list when absent).\<close>

fun idx_of :: "'a list \<Rightarrow> 'a \<Rightarrow> nat" where
  "idx_of [] x = 0"
| "idx_of (y # ys) x = (if y = x then 0 else Suc (idx_of ys x))"

section \<open>Dictionaries\<close>

text \<open>
  A Python dict literal \<^verbatim>\<open>{k1: v1, k2: v2, ...}\<close> keeps the insertion order of its
  keys and, for a repeated key, the last value. It is kept as its association list; the
  lookup \<^verbatim>\<open>d[k]\<close> / \<^verbatim>\<open>d.get(k)\<close> / \<^verbatim>\<open>k in d\<close> is \<open>py_dict\<close>, which
  reads the list from the end.
\<close>

definition py_dict :: "('k \<times> 'v) list \<Rightarrow> 'k \<rightharpoonup> 'v" where
  "py_dict kvs = map_of (rev kvs)"

definition py_keys :: "('k \<times> 'v) list \<Rightarrow> 'k list" where
  "py_keys kvs = remdups (map fst kvs)"

section \<open>Exceptions\<close>

text \<open>The Python exceptions that escape a handler of the program uncaught (Tk prints the
  traceback and the action ends with nothing produced); \<^verbatim>\<open>TclError\<close> is raised by
  Tk itself, and escapes the constructor.\<close>

datatype py_exc = KeyError | TypeError | ValueError | IndexError | TclError

text \<open>Sequencing of code that may raise: the first exception propagates.\<close>

definition exc_bind :: "'e + 'a \<Rightarrow> ('a \<Rightarrow> 'e + 'b) \<Rightarrow> 'e + 'b" where
  "exc_bind x f = (case x of Inl e \<Rightarrow> Inl e | Inr a \<Rightarrow> f a)"

text \<open>Evaluating a list of expressions left to right, as a dict or list display does.\<close>

fun exc_list :: "('e + 'a) list \<Rightarrow> 'e + 'a list" where
  "exc_list [] = Inr []"
| "exc_list (x # xs) = exc_bind x (\<lambda>a. exc_bind (exc_list xs) (\<lambda>as. Inr (a # as)))"

lemma u_Nil [simp, py_simps]: "u [] = []"
  and u_Cons [simp, py_simps]: "u (c # s) = of_char c # u s"
  and u_append [simp, py_simps]: "u (s @ t) = u s @ u t"
  by (simp_all add: u_def)

lemma u_inj: "u s = u t \<longleftrightarrow> s = t"
  by (simp add: u_def inj_map_eq_map inj_on_def)

lemma u_ascii: "c \<in> set (u s) \<Longrightarrow> c < 256"
  by (auto simp: u_def)

lemma py_upper_Nil [simp, py_simps]: "py_upper [] = []"
  and py_upper_Cons [simp, py_simps]: "py_upper (c # s) = upper_cp c @ py_upper s"
  by (simp_all add: py_upper_def)

lemma py_upper_append [simp]: "py_upper (s @ t) = py_upper s @ py_upper t"
  by (simp add: py_upper_def)

lemma upper_cp_ne: "upper_cp c \<noteq> []"
  by (simp add: upper_cp_def)

lemma length_py_upper_ge: "length s \<le> length (py_upper s)"
proof (induction s)
  case (Cons c s)
  have "1 \<le> length (upper_cp c)" using upper_cp_ne [of c] by (cases "upper_cp c") auto
  with Cons show ?case by simp
qed simp

lemma py_replace1_length [simp]: "length (py_replace1 a b s) = length s"
  by (simp add: py_replace1_def)

lemma py_replace1_notin: "a \<noteq> b \<Longrightarrow> a \<notin> set (py_replace1 a b s)"
  by (auto simp: py_replace1_def)

lemma py_replace1_id: "a \<notin> set s \<Longrightarrow> py_replace1 a b s = s"
  by (induction s) (auto simp: py_replace1_def)

lemma py_delete1_notin: "a \<notin> set (py_delete1 a s)"
  by (simp add: py_delete1_def)

lemma nat_digits_small: "d \<in> set (nat_digits n) \<Longrightarrow> d < 10"
proof (induction n rule: nat_digits.induct)
  case (1 n)
  then show ?case
    by (cases "n < 10") (auto simp: nat_digits.simps [of n])
qed

lemma nat_digits_ne [simp]: "nat_digits n \<noteq> []"
  by (subst nat_digits.simps) simp

lemma nat_str_ne [simp]: "nat_str n \<noteq> []"
  by (simp add: nat_str_def)

lemma nat_str_digit: "c \<in> set (nat_str n) \<Longrightarrow> 48 \<le> c \<and> c \<le> 57"
  by (auto simp: nat_str_def dest: nat_digits_small)

lemma length_zpad: "w \<le> length (zpad w n) \<and> length (nat_str n) \<le> length (zpad w n)"
  by (simp add: zpad_def)

lemma dom_py_dict: "dom (py_dict kvs) = set (map fst kvs)"
  by (simp add: py_dict_def dom_map_of_conv_image_fst)

lemma set_py_keys [simp]: "set (py_keys kvs) = set (map fst kvs)"
  by (simp add: py_keys_def)

text \<open>Without repeated keys the literal is the association list read from the front.\<close>

lemma py_dict_distinct: "distinct (map fst kvs) \<Longrightarrow> py_dict kvs = map_of kvs"
proof
  fix k
  assume d: "distinct (map fst kvs)"
  show "py_dict kvs k = map_of kvs k"
  proof (cases "map_of kvs k")
    case None
    then show ?thesis by (metis map_of_eq_None_iff py_dict_def set_rev)
  next
    case (Some v)
    then have "(k, v) \<in> set kvs" by (rule map_of_SomeD)
    moreover have "distinct (map fst (rev kvs))" using d by (simp add: rev_map [symmetric])
    ultimately have "map_of (rev kvs) k = Some v" by (simp add: map_of_is_SomeI)
    then show ?thesis using Some by (simp add: py_dict_def)
  qed
qed

lemma py_keys_distinct: "distinct (map fst kvs) \<Longrightarrow> py_keys kvs = map fst kvs"
  by (simp add: py_keys_def)

lemma exc_bind_simps [simp, py_simps]:
  "exc_bind (Inl e) f = Inl e" "exc_bind (Inr a) f = f a"
  by (simp_all add: exc_bind_def)

lemma exc_bind_Inr_iff: "exc_bind x f = Inr b \<longleftrightarrow> (\<exists>a. x = Inr a \<and> f a = Inr b)"
  by (cases x) simp_all

lemma exc_list_Inr: "exc_list (map Inr xs) = Inr xs"
  by (induction xs) simp_all

lemma exc_list_length: "exc_list xs = Inr ys \<Longrightarrow> length ys = length xs"
  by (induction xs arbitrary: ys) (auto simp: exc_bind_Inr_iff)

lemma idx_of_bound: "x \<in> set xs \<Longrightarrow> idx_of xs x < length xs"
  by (induction xs) auto

lemma nth_idx_of: "x \<in> set xs \<Longrightarrow> xs ! idx_of xs x = x"
  by (induction xs) auto

lemma exc_list_map_all2: "exc_list (map g xs) = Inr vs \<Longrightarrow> list_all2 (\<lambda>x v. g x = Inr v) xs vs"
  by (induction xs arbitrary: vs) (auto simp: exc_bind_Inr_iff)

lemma map_of_zip_all2:
  assumes "inj_on h (set xs)" "list_all2 P xs vs" "x \<in> set xs"
  shows "\<exists>v. map_of (zip (map h xs) vs) (h x) = Some v \<and> P x v"
  using assms
proof (induction xs arbitrary: vs)
  case (Cons y ys)
  then obtain w ws where vs: "vs = w # ws" "P y w" "list_all2 P ys ws" by (cases vs) auto
  show ?case
  proof (cases "x = y")
    case True
    then show ?thesis using vs by simp
  next
    case False
    then have "h x \<noteq> h y" using inj_onD [OF Cons.prems(1), of x y] Cons.prems(3) by auto
    then show ?thesis using Cons.IH [of ws] Cons.prems(1,3) False vs by auto
  qed
qed simp

lemma py_dict_mid: "k \<notin> set (map fst ys) \<Longrightarrow> py_dict (xs @ [(k, v)] @ ys) k = Some v"
proof -
  assume "k \<notin> set (map fst ys)"
  then have "map_of (rev ys) k = None" by (simp add: map_of_eq_None_iff)
  then show ?thesis by (simp add: py_dict_def map_add_def)
qed

end
