(* ===== verification/Catalog.thy ===== *)
theory Catalog
  imports Prelude
begin

text \<open>
  The aid catalog of \<^verbatim>\<open>DocumentGenerator.setup_constants\<close>
  (\<^verbatim>\<open>src/generar_recibi.py\<close>, lines 38--207): the majority age, the three dict
  literals keyed by aid code (description, predefined amount, maximum amount), and the
  two-code copayment list that \<^verbatim>\<open>generate_document\<close> and \<^verbatim>\<open>calculate_copago\<close>
  both spell out. Codes are ASCII and kept as \<open>string\<close>; descriptions are Python
  strings (\<open>ustr\<close>). The lemmas show the literals have no repeated key, so that the
  dict lookup is the association list read from the front, and relate the tables.
\<close>

definition EDAD_MAYORIA :: int where
  "EDAD_MAYORIA = 18"

definition codigos_ayuda_descripcion :: "(string \<times> ustr) list" where
  "codigos_ayuda_descripcion = [
     (''1FGBI'', u ''Gastos de bolsillo''),
     (''1FGBM'', u ''Gastos de bolsillo menores 18 a'' @ [241] @ u ''os''),
     (''1FMI'', u ''Manutenci'' @ [243] @ u ''n UC 1''),
     (''1FMUC2'', u ''Manutenci'' @ [243] @ u ''n UC 2''),
     (''1FMUC3'', u ''Manutenci'' @ [243] @ u ''n UC 3''),
     (''1FMUC4'', u ''Manutenci'' @ [243] @ u ''n UC 4''),
     (''1FMUC5'', u ''Manutenci'' @ [243] @ u ''n UC 5''),
     (''1FMUC6'', u ''Manutenci'' @ [243] @ u ''n UC 6''),
     (''1FMUC7'', u ''Manutenci'' @ [243] @ u ''n UC 7''),
     (''1FMUC8'', u ''Manutenci'' @ [243] @ u ''n UC 8''),
     (''1FMUC9'', u ''Manutenci'' @ [243] @ u ''n UC 9 o m'' @ [225] @ u ''s''),
     (''ATNH'', u ''Nacimiento hijos/as''),
     (''ATSANMED'', u ''Medicamentos''),
     (''ATSANGA'', u ''Gafas''),
     (''ATSANMO'', u ''Material ortoprot'' @ [233] @ u ''sico''),
     (''ATSANTDE'', u ''Tratamientos dentales''),
     (''ATSANPR'', u ''Pr'' @ [243] @ u ''tesis dentales removibles''),
     (''ATVES'', u ''Adquisici'' @ [243] @ u ''n vestuario''),
     (''ATTPINCO'', u ''Transporte Incorporaci'' @ [243] @ u ''n dispositivo''),
     (''ATTPTIN'', u ''Transporte Intraprovincial''),
     (''ATTPTEXT'', u ''Transporte Intraprovincial''),
     (''ATTPTEXA'', u ''Transporte Intraprovincial''),
     (''ATTPTEXM'', u ''Transporte Intraprovincial''),
     (''ATEDUGUME'', u ''Guarder'' @ [237] @ u ''a Mensualidad''),
     (''ATEDUGUMA'', u ''Guarder'' @ [237] @ u ''a Matr'' @ [237] @ u ''cula''),
     (''ATEDURMA'', u ''Educaci'' @ [243] @ u ''n reglada Matr'' @ [237] @ u ''cula''),
     (''ATEDURMATE'', u ''Educaci'' @ [243] @ u ''n reglada Material escolar''),
     (''ATEDURUNI'', u ''Educaci'' @ [243] @ u ''n reglada Uniformes escolares''),
     (''ATEDURCOM'', u ''Educaci'' @ [243] @ u ''n reglada Comedor escolar''),
     (''ATEDUREXTR'', u ''Educaci'' @ [243] @ u ''n reglada Actividades extraescolares''),
     (''ATEDURTPT'', u ''Educaci'' @ [243] @ u ''n reglada Transporte escolar''),
     (''ATEDURSEO'', u ''Educaci'' @ [243] @ u ''n reglada Seguro escolar obligatorio''),
     (''ATEDURAMPA'', u ''Educaci'' @ [243] @ u ''n reglada AMPA''),
     (''ATCONMM'', u ''Contextualiz y habilidades sociales Matr'' @ [237] @ u ''cula y/o mensualidades''),
     (''ATCONMAT'', u ''Contextualiz y habilidades sociales Material did'' @ [225] @ u ''ctico''),
     (''ATOCCAMP'', u ''Campamentos de verano infantil y juvenil''),
     (''ATDOCU'', u ''Obtenci'' @ [243] @ u ''n de documentos''),
     (''ATREADOCU'', u ''Reagrupaci'' @ [243] @ u ''n familiar Obtenci'' @ [243] @ u ''n de documentos''),
     (''ATREALLEG'', u ''Reagrupaci'' @ [243] @ u ''n familiar Viajes, traslados, estancias para llegar a Espa'' @ [241] @ u ''a''),
     (''ATREAESTA'', u ''Reagrupaci'' @ [243] @ u ''n familiar Viajes, traslados, estancias en Espa'' @ [241] @ u ''a''),
     (''ATEMPEDUGUME'', u ''Empleo Facilitar formaci'' @ [243] @ u ''n Mensualidad guarder'' @ [237] @ u ''a''),
     (''ATEMPEDUGUMA'', u ''Empleo Facilitar formaci'' @ [243] @ u ''n Matr'' @ [237] @ u ''cula de guarder'' @ [237] @ u ''a''),
     (''ATEMPEDUCOM'', u ''Empleo Facilitar formaci'' @ [243] @ u ''n Comedor escolar''),
     (''ATPREMAME'', u ''Empleo Preformaci'' @ [243] @ u ''n Matr'' @ [237] @ u ''cula y/o mensualidades''),
     (''ATPREMAT'', u ''Empleo Preformaci'' @ [243] @ u ''n Material did'' @ [225] @ u ''ctico''),
     (''ATFORMAME'', u ''Empleo Formaci'' @ [243] @ u ''n ocupacional Matr'' @ [237] @ u ''cula y/o mensualidades''),
     (''ATFORMAT'', u ''Empleo Formaci'' @ [243] @ u ''n ocupacional Material did'' @ [225] @ u ''ctico para la formaci'' @ [243] @ u ''n''),
     (''ATTPT'', u ''Empleo Transporte asistencia cursos o b'' @ [250] @ u ''squeda empleo''),
     (''ATEHT'', u ''Empleo Obtenci'' @ [243] @ u ''n documentos (expedici'' @ [243] @ u ''n, homologaci'' @ [243] @ u ''n, tramitaci'' @ [243] @ u ''n'' @ [8230] @ u '')''),
     (''2FNB1'', u ''Necesidades b'' @ [225] @ u ''sicas UC1''),
     (''2FNB2'', u ''Necesidades b'' @ [225] @ u ''sicas UC2''),
     (''2FNB3'', u ''Necesidades b'' @ [225] @ u ''sicas UC3''),
     (''2FNB4'', u ''Necesidades b'' @ [225] @ u ''sicas UC4''),
     (''2FNB5'', u ''Necesidades b'' @ [225] @ u ''sicas UC5''),
     (''2FNB6'', u ''Necesidades b'' @ [225] @ u ''sicas UC6''),
     (''2FNB7'', u ''Necesidades b'' @ [225] @ u ''sicas UC7''),
     (''2FNB8'', u ''Necesidades b'' @ [225] @ u ''sicas UC8''),
     (''2FNB9'', u ''Necesidades b'' @ [225] @ u ''sicas UC9 o m'' @ [225] @ u ''s''),
     (''2FAV1'', u ''Alquiler UC1''),
     (''2FAV2'', u ''Alquiler UC2''),
     (''2FAV3'', u ''Alquiler UC3''),
     (''2FAV4'', u ''Alquiler UC4''),
     (''2FAV5'', u ''Alquiler UC5''),
     (''2FAV6'', u ''Alquiler UC6''),
     (''2FAV7'', u ''Alquiler UC7''),
     (''2FAV8'', u ''Alquiler UC8''),
     (''2FAV9'', u ''Alquiler UC9 o m'' @ [225] @ u ''s'')]"

definition cuantias_predefinidas :: "(string \<times> int) list" where
  "cuantias_predefinidas = [
     (''1FGBI'', 56),
     (''1FGBM'', 22),
     (''1FMI'', 226),
     (''1FMUC2'', 338),
     (''1FMUC3'', 362),
     (''1FMUC4'', 386),
     (''1FMUC5'', 454),
     (''1FMUC6'', 504),
     (''1FMUC7'', 555),
     (''1FMUC8'', 604),
     (''1FMUC9'', 654),
     (''ATNH'', 201),
     (''ATSANGA'', 200),
     (''ATVES'', 100),
     (''ATSANTDE'', 400),
     (''ATEDURMATE'', 279),
     (''ATEDUREXTR'', 33),
     (''ATCONMM'', 600),
     (''ATCONMAT'', 100),
     (''ATOCCAMP'', 223),
     (''ATPREMAME'', 1364),
     (''ATPREMAT'', 250),
     (''ATFORMAME'', 1364),
     (''ATFORMAT'', 250),
     (''2FNB1'', 466),
     (''2FNB2'', 692),
     (''2FNB3'', 758),
     (''2FNB4'', 825),
     (''2FNB5'', 891),
     (''2FNB6'', 958),
     (''2FNB7'', 1024),
     (''2FNB8'', 1091),
     (''2FNB9'', 1157),
     (''2FAV1'', 445),
     (''2FAV2'', 578),
     (''2FAV3'', 668),
     (''2FAV4'', 758),
     (''2FAV5'', 848),
     (''2FAV6'', 848),
     (''2FAV7'', 848),
     (''2FAV8'', 923),
     (''2FAV9'', 923)]"

definition maximos_ayuda :: "(string \<times> int) list" where
  "maximos_ayuda = [
     (''1FGBI'', 56),
     (''1FGBM'', 22),
     (''1FMI'', 226),
     (''1FMUC2'', 338),
     (''1FMUC3'', 362),
     (''1FMUC4'', 386),
     (''1FMUC5'', 454),
     (''1FMUC6'', 504),
     (''1FMUC7'', 555),
     (''1FMUC8'', 604),
     (''1FMUC9'', 654),
     (''ATNH'', 201),
     (''ATSANGA'', 200),
     (''ATVES'', 100),
     (''ATSANTDE'', 400),
     (''ATEDURMATE'', 279),
     (''ATEDUREXTR'', 33),
     (''ATCONMM'', 600),
     (''ATCONMAT'', 100),
     (''ATOCCAMP'', 223),
     (''ATPREMAME'', 1364),
     (''ATPREMAT'', 250),
     (''ATFORMAME'', 1364),
     (''ATFORMAT'', 250),
     (''2FNB1'', 466),
     (''2FNB2'', 692),
     (''2FNB3'', 758),
     (''2FNB4'', 825),
     (''2FNB5'', 891),
     (''2FNB6'', 958),
     (''2FNB7'', 1024),
     (''2FNB8'', 1091),
     (''2FNB9'', 1157),
     (''2FAV1'', 445),
     (''2FAV2'', 578),
     (''2FAV3'', 668),
     (''2FAV4'', 758),
     (''2FAV5'', 848),
     (''2FAV6'', 848),
     (''2FAV7'', 848),
     (''2FAV8'', 923),
     (''2FAV9'', 923)]"

text \<open>The codes that carry a 15\% copayment, \<^verbatim>\<open>["ATSANGA", "ATSANTDE"]\<close>.\<close>

definition copago_codes :: "string list" where
  "copago_codes = [''ATSANGA'', ''ATSANTDE'']"

text \<open>Lookups as the program writes them: \<^verbatim>\<open>self.codigos_ayuda_descripcion[c]\<close>,
  \<^verbatim>\<open>self.maximos_ayuda[c]\<close>, \<^verbatim>\<open>c in self.maximos_ayuda\<close>.\<close>

definition descripcion :: "string \<rightharpoonup> ustr" where
  "descripcion = py_dict codigos_ayuda_descripcion"

definition cuantia_predefinida :: "string \<rightharpoonup> int" where
  "cuantia_predefinida = py_dict cuantias_predefinidas"

definition maximo :: "string \<rightharpoonup> int" where
  "maximo = py_dict maximos_ayuda"

text \<open>The values of the aid-code combobox, \<^verbatim>\<open>list(self.codigos_ayuda_descripcion.keys())\<close>,
  and its initial selection \<^verbatim>\<open>current(0)\<close>.\<close>

definition codigo_values :: "string list" where
  "codigo_values = py_keys codigos_ayuda_descripcion"

definition codigo_default :: string where
  "codigo_default = hd codigo_values"

section \<open>Properties of the tables\<close>

lemma catalog_distinct:
  "distinct (map fst codigos_ayuda_descripcion)"
  "distinct (map fst cuantias_predefinidas)"
  "distinct (map fst maximos_ayuda)"
  by (simp_all add: codigos_ayuda_descripcion_def cuantias_predefinidas_def maximos_ayuda_def)

lemma catalog_map_of:
  "descripcion = map_of codigos_ayuda_descripcion"
  "cuantia_predefinida = map_of cuantias_predefinidas"
  "maximo = map_of maximos_ayuda"
  by (simp_all add: descripcion_def cuantia_predefinida_def maximo_def py_dict_distinct catalog_distinct)

lemma codigo_values_eq: "codigo_values = map fst codigos_ayuda_descripcion"
  by (simp add: codigo_values_def py_keys_distinct catalog_distinct)

lemma set_codigo_values: "set codigo_values = dom descripcion"
  by (simp add: codigo_values_def descripcion_def dom_py_dict)

lemma maximo_copago [simp]:
  "maximo ''ATSANGA'' = Some 200" "maximo ''ATSANTDE'' = Some 400"
  by (simp_all add: catalog_map_of maximos_ayuda_def)

lemma dom_maximo: "dom maximo = set (map fst maximos_ayuda)"
  by (simp add: maximo_def dom_py_dict)

lemma maximo_pos: "maximo c = Some m \<Longrightarrow> 0 < m"
  by (auto simp: catalog_map_of maximos_ayuda_def split: if_splits)

end
