(* ===== verification/Dates.thy ===== *)
theory Dates
  imports Prelude
begin

text \<open>
  Calendar arithmetic the program relies on through its libraries: the Gregorian calendar
  of Python's \<^verbatim>\<open>calendar\<close> module, the year/month difference that
  \<^verbatim>\<open>dateutil.relativedelta(dt1, dt2)\<close> computes (called by
  \<^verbatim>\<open>calculate_age\<close>, line 241), and the date formats \<^verbatim>\<open>strftime\<close> produces
  for the receipt. A date is \<open>(year, month, day)\<close>; a timestamp is a date with the
  time of day in nanoseconds (the resolution of \<^verbatim>\<open>pandas.Timestamp\<close>;
  \<^verbatim>\<open>datetime.now()\<close> has whole microseconds). The product order of
  HOL-Library.Product_Lexorder is exactly Python's chronological comparison.
\<close>

type_synonym date = "int \<times> nat \<times> nat"
type_synonym timestamp = "date \<times> nat"

section \<open>The calendar\<close>

definition is_leap :: "int \<Rightarrow> bool" where
  "is_leap y \<longleftrightarrow> y mod 4 = 0 \<and> (y mod 100 \<noteq> 0 \<or> y mod 400 = 0)"

text \<open>\<^verbatim>\<open>calendar.monthrange(y, m)[1]\<close>.\<close>

definition days_in_month :: "int \<Rightarrow> nat \<Rightarrow> nat" where
  "days_in_month y m =
     (if m = 2 then (if is_leap y then 29 else 28)
      else if m = 4 \<or> m = 6 \<or> m = 9 \<or> m = 11 then 30 else 31)"

definition valid_date :: "date \<Rightarrow> bool" where
  "valid_date d \<longleftrightarrow>
     (case d of (y, m, dd) \<Rightarrow> 1 \<le> y \<and> y \<le> 9999 \<and> 1 \<le> m \<and> m \<le> 12 \<and> 1 \<le> dd \<and> dd \<le> days_in_month y m)"

definition ns_per_day :: int where
  "ns_per_day = 86400000000000"

definition valid_ts :: "timestamp \<Rightarrow> bool" where
  "valid_ts ts \<longleftrightarrow> valid_date (fst ts) \<and> int (snd ts) < ns_per_day"

section \<open>relativedelta\<close>

text \<open>
  \<^verbatim>\<open>relativedelta._set_months(months)\<close>: a month count of absolute value above 11
  is split into signed whole years and the signed rest (Python's \<^verbatim>\<open>divmod\<close> on the
  absolute value); the pair is \<open>(years, months)\<close>.
\<close>

definition rd_set_months :: "int \<Rightarrow> int \<times> int" where
  "rd_set_months m =
     (if 11 < \<bar>m\<bar> then (sgn m * (\<bar>m\<bar> div 12), sgn m * (\<bar>m\<bar> mod 12)) else (0, m))"

text \<open>
  \<^verbatim>\<open>relativedelta.__add__(dt)\<close> for a delta with only years and months: add the
  years, add the months and bring the month back into 1..12 by one carry, clamp the day to
  the length of the resulting month, keep the time of day.
\<close>

definition rd_add :: "int \<times> int \<Rightarrow> timestamp \<Rightarrow> timestamp" where
  "rd_add ym ts =
     (case ts of ((y, mo, d), t) \<Rightarrow>
       (case ym of (yrs, mos) \<Rightarrow>
         let year = y + yrs;
             month = int mo + mos;
             (year', month') =
               (if 12 < month then (year + 1, month - 12)
                else if month < 1 then (year - 1, month + 12)
                else (year, month))
         in ((year', nat month', min (days_in_month year' (nat month')) d), t)))"

text \<open>
  The adjustment loop of \<^verbatim>\<open>relativedelta.__init__(dt1, dt2)\<close>: starting from the
  calendar month difference, step the month count towards \<open>dt2\<close> while
  \<open>dt2 + months\<close> overshoots \<open>dt1\<close>. The loop has no syntactic bound, so it is a
  \<^theory_text>\<open>partial_function\<close> in the option monad; \<open>rd_months_loop_returns\<close>
  below shows that it returns after at most one step.
\<close>

partial_function (option) rd_months_loop :: "timestamp \<Rightarrow> timestamp \<Rightarrow> int \<Rightarrow> int option" where
  "rd_months_loop dt1 dt2 months =
     (let dtm = rd_add (rd_set_months months) dt2 in
      if (if dt1 < dt2 then dtm < dt1 else dt1 < dtm)
      then rd_months_loop dt1 dt2 (months + (if dt1 < dt2 then 1 else - 1))
      else Some months)"

declare rd_months_loop.simps [code]

definition rd_months0 :: "timestamp \<Rightarrow> timestamp \<Rightarrow> int" where
  "rd_months0 dt1 dt2 =
     (fst (fst dt1) - fst (fst dt2)) * 12 + (int (fst (snd (fst dt1))) - int (fst (snd (fst dt2))))"

text \<open>\<^verbatim>\<open>relativedelta(dt1, dt2).years\<close>.\<close>

definition relativedelta_years :: "timestamp \<Rightarrow> timestamp \<Rightarrow> int option" where
  "relativedelta_years dt1 dt2 =
     map_option (\<lambda>m. fst (rd_set_months m)) (rd_months_loop dt1 dt2 (rd_months0 dt1 dt2))"

section \<open>Month arithmetic and the closed form of the loop\<close>

text \<open>
  Reference definitions: adding \<open>m\<close> months to a timestamp as one division of the
  month count (\<open>add_months\<close>), the value the adjustment loop ends with
  (\<open>rd_months_spec\<close>), and the calendar-aware whole years of the specification
  (\<open>age_years\<close>): the difference of the years, less one when the month and day of
  \<open>dt1\<close> come before those of \<open>dt2\<close>, a 29 February counting as the last day of
  February in a common year.
\<close>

definition add_months :: "int \<Rightarrow> timestamp \<Rightarrow> timestamp" where
  "add_months m ts =
     (case ts of ((y, mo, d), t) \<Rightarrow>
        let k = y * 12 + (int mo - 1) + m;
            y' = k div 12; mo' = nat (k mod 12 + 1)
        in ((y', mo', min (days_in_month y' mo') d), t))"

definition rd_months_spec :: "timestamp \<Rightarrow> timestamp \<Rightarrow> int" where
  "rd_months_spec dt1 dt2 =
     (let m0 = rd_months0 dt1 dt2; dtm = add_months m0 dt2 in
      if dt1 < dt2 then (if dtm < dt1 then m0 + 1 else m0)
      else (if dt1 < dtm then m0 - 1 else m0))"

definition age_years :: "timestamp \<Rightarrow> timestamp \<Rightarrow> int" where
  "age_years dt1 dt2 =
     (case (dt1, dt2) of (((y1, m1, d1), t1), ((y2, m2, d2), t2)) \<Rightarrow>
        y1 - y2 - (if (m1, d1, t1) < (m2, min (days_in_month y1 m2) d2, t2) then 1 else 0))"

section \<open>Numbers as timestamps\<close>

text \<open>
  \<^verbatim>\<open>pandas.to_datetime\<close> reads an integer or float cell as nanoseconds since
  1970-01-01 (its default \<^verbatim>\<open>unit='ns'\<close>); outside the 64-bit range it raises
  \<^verbatim>\<open>OutOfBoundsDatetime\<close>. \<open>civil_from_days\<close> is the proleptic Gregorian date of
  a day number counted from 1970-01-01, by 400-year eras (floor division throughout).
\<close>

definition civil_from_days :: "int \<Rightarrow> date" where
  "civil_from_days z =
     (let z' = z + 719468;
          era = z' div 146097;
          doe = z' - era * 146097;
          yoe = (doe - doe div 1460 + doe div 36524 - doe div 146096) div 365;
          y = yoe + era * 400;
          doy = doe - (365 * yoe + yoe div 4 - yoe div 100);
          mp = (5 * doy + 2) div 153;
          d = doy - (153 * mp + 2) div 5 + 1;
          m = (if mp < 10 then mp + 3 else mp - 9)
      in (if m \<le> 2 then y + 1 else y, nat m, nat d))"

definition ts_of_epoch_ns :: "int \<Rightarrow> timestamp option" where
  "ts_of_epoch_ns n =
     (if - 9223372036854775808 < n \<and> n < 9223372036854775808
      then Some (civil_from_days (n div ns_per_day), nat (n mod ns_per_day))
      else None)"

section \<open>strftime\<close>

text \<open>
  The three date formats of the program: \<^verbatim>\<open>'%d-%m-%Y'\<close> for birth dates in the
  receipt (line 405), \<^verbatim>\<open>'%Y.%m.%d'\<close> in the output file name (line 539), and
  \<^verbatim>\<open>'%d de %B de %Y'\<close> for the date of issue (line 522) under the \<^verbatim>\<open>es_ES\<close>
  locale set in \<^verbatim>\<open>__init__\<close>, whose full month names are lower case. The year is
  printed with four digits.
\<close>

definition year_str :: "int \<Rightarrow> ustr" where
  "year_str y = (if y < 0 then int_str y else zpad 4 (nat y))"

definition fmt_dmy :: "date \<Rightarrow> ustr" where
  "fmt_dmy d = (case d of (y, m, dd) \<Rightarrow> zpad 2 dd @ u ''-'' @ zpad 2 m @ u ''-'' @ year_str y)"

definition fmt_ymd_dots :: "date \<Rightarrow> ustr" where
  "fmt_ymd_dots d = (case d of (y, m, dd) \<Rightarrow> year_str y @ u ''.'' @ zpad 2 m @ u ''.'' @ zpad 2 dd)"

definition meses_es :: "string list" where
  "meses_es = [''enero'', ''febrero'', ''marzo'', ''abril'', ''mayo'', ''junio'', ''julio'',
               ''agosto'', ''septiembre'', ''octubre'', ''noviembre'', ''diciembre'']"

text \<open>
  The \<^verbatim>\<open>LC_TIME\<close> locale \<^verbatim>\<open>__init__\<close> leaves in force: \<^verbatim>\<open>es_ES.UTF-8\<close>,
  the Windows name \<^verbatim>\<open>spanish\<close>, or, when neither can be set, the C locale of the
  interpreter's start, whose \<^verbatim>\<open>%B\<close> is the English month name.
\<close>

datatype time_locale = LocaleEsUTF8 | LocaleSpanish | LocaleC

definition months_en :: "string list" where
  "months_en = [''January'', ''February'', ''March'', ''April'', ''May'', ''June'', ''July'',
                ''August'', ''September'', ''October'', ''November'', ''December'']"

definition month_name :: "time_locale \<Rightarrow> nat \<Rightarrow> ustr" where
  "month_name loc m =
     (if 1 \<le> m \<and> m \<le> 12 then u ((if loc = LocaleC then months_en else meses_es) ! (m - 1)) else [])"

text \<open>\<^verbatim>\<open>strftime("%d de %B de %Y")\<close> under a given locale.\<close>

definition fmt_long :: "time_locale \<Rightarrow> date \<Rightarrow> ustr" where
  "fmt_long loc d =
     (case d of (y, m, dd) \<Rightarrow> zpad 2 dd @ u '' de '' @ month_name loc m @ u '' de '' @ year_str y)"

lemma rd_set_months_split:
  "fst (rd_set_months m) * 12 + snd (rd_set_months m) = m \<and> \<bar>snd (rd_set_months m)\<bar> \<le> 11"
proof (cases "11 < \<bar>m\<bar>")
  case True
  show ?thesis
  proof (cases "0 \<le> m")
    case True
    with \<open>11 < \<bar>m\<bar>\<close> show ?thesis by (simp add: rd_set_months_def sgn_if)
  next
    case False
    with \<open>11 < \<bar>m\<bar>\<close> show ?thesis by (simp add: rd_set_months_def sgn_if) presburger
  qed
next
  case False
  then show ?thesis by (simp add: rd_set_months_def)
qed

lemma divmod12:
  fixes q r :: int
  assumes "0 \<le> r" "r < 12"
  shows "(q * 12 + r) div 12 = q" "(q * 12 + r) mod 12 = r"
  using assms by simp_all

lemma month_carry:
  fixes y mo mos :: int
  assumes "1 \<le> mo" "mo \<le> 12" "\<bar>mos\<bar> \<le> 11"
  shows "(if 12 < mo + mos then (y + 1, mo + mos - 12)
          else if mo + mos < 1 then (y - 1, mo + mos + 12) else (y, mo + mos)) =
         ((y * 12 + (mo - 1) + mos) div 12, (y * 12 + (mo - 1) + mos) mod 12 + 1)"
proof -
  consider "12 < mo + mos" | "mo + mos < 1" | "1 \<le> mo + mos \<and> mo + mos \<le> 12" by linarith
  then show ?thesis
  proof cases
    case 1
    have e: "y * 12 + (mo - 1) + mos = (y + 1) * 12 + (mo + mos - 13)" by (simp add: algebra_simps)
    have "(y * 12 + (mo - 1) + mos) div 12 = y + 1" "(y * 12 + (mo - 1) + mos) mod 12 = mo + mos - 13"
      unfolding e using 1 assms by (simp_all only: divmod12)
    with 1 show ?thesis by simp
  next
    case 2
    have e: "y * 12 + (mo - 1) + mos = (y - 1) * 12 + (mo + mos + 11)" by (simp add: algebra_simps)
    have "(y * 12 + (mo - 1) + mos) div 12 = y - 1" "(y * 12 + (mo - 1) + mos) mod 12 = mo + mos + 11"
      unfolding e using 2 assms by (simp_all only: divmod12)
    with 2 show ?thesis by simp
  next
    case 3
    have e: "y * 12 + (mo - 1) + mos = y * 12 + (mo + mos - 1)" by (simp add: algebra_simps)
    have "(y * 12 + (mo - 1) + mos) div 12 = y" "(y * 12 + (mo - 1) + mos) mod 12 = mo + mos - 1"
      unfolding e using 3 divmod12 [of "mo + mos - 1" y] by simp_all
    with 3 show ?thesis by simp
  qed
qed

lemma rd_add_set_months:
  assumes "1 \<le> mo" "mo \<le> 12"
  shows "rd_add (rd_set_months m) ((y, mo, d), t) = add_months m ((y, mo, d), t)"
proof -
  obtain yrs mos where ym: "rd_set_months m = (yrs, mos)" by fastforce
  with rd_set_months_split [of m] have sum: "yrs * 12 + mos = m" and b: "\<bar>mos\<bar> \<le> 11" by auto
  have k: "y * 12 + yrs * 12 + (int mo - 1) + mos = y * 12 + (int mo - 1) + m"
    using sum by (simp add: algebra_simps)
  have "1 \<le> int mo" "int mo \<le> 12" using assms by simp_all
  note c = month_carry [OF this b, of "y + yrs"]
  show ?thesis
    unfolding rd_add_def add_months_def ym Let_def
    using c by (simp add: k split: prod.split)
qed

lemma div12_lex:
  fixes k K :: int
  assumes "k < K"
  shows "k div 12 < K div 12 \<or> (k div 12 = K div 12 \<and> k mod 12 < K mod 12)"
proof (cases "k div 12 = K div 12")
  case True
  have "k = k div 12 * 12 + k mod 12" "K = K div 12 * 12 + K mod 12" by simp_all
  with True assms show ?thesis by linarith
next
  case False
  have "k div 12 \<le> K div 12" using assms by (simp add: zdiv_mono1)
  with False show ?thesis by simp
qed
lemma ts_less_month:
  fixes Y y :: int and M m D d :: nat and t t' :: nat
  shows "Y < y \<or> (Y = y \<and> M < m) \<Longrightarrow> ((Y, M, D), t) < ((y, m, d), t')"
  by (auto simp: less_prod_def)

lemma add_months_at:
  assumes "1 \<le> mo" "mo \<le> 12" "k = y * 12 + (int mo - 1) + m"
  shows "add_months m ((y, mo, d), t) = ((k div 12, nat (k mod 12 + 1), min (days_in_month (k div 12) (nat (k mod 12 + 1))) d), t)"
  using assms by (simp add: add_months_def Let_def)

lemma add_months_m0:
  assumes "1 \<le> m1" "m1 \<le> 12" "1 \<le> m2" "m2 \<le> 12"
  shows "add_months (rd_months0 ((y1, m1, d1), t1) ((y2, m2, d2), t2)) ((y2, m2, d2), t2) =
         ((y1, m1, min (days_in_month y1 m1) d2), t2)"
proof -
  let ?K = "y1 * 12 + (int m1 - 1)"
  have k: "?K = y2 * 12 + (int m2 - 1) + rd_months0 ((y1, m1, d1), t1) ((y2, m2, d2), t2)"
    by (simp add: rd_months0_def algebra_simps)
  have "?K div 12 = y1" "?K mod 12 = int m1 - 1" using assms divmod12 [of "int m1 - 1" y1] by simp_all
  with add_months_at [OF assms(3,4) k] assms show ?thesis by simp
qed

lemma add_months_before:
  assumes "1 \<le> m1" "m1 \<le> 12" "1 \<le> m2" "m2 \<le> 12"
    and "m < rd_months0 ((y1, m1, d1), t1) ((y2, m2, d2), t2)"
  shows "add_months m ((y2, m2, d2), t2) < ((y1, m1, d1), t1)"
proof -
  let ?K = "y1 * 12 + (int m1 - 1)" and ?k = "y2 * 12 + (int m2 - 1) + m"
  have "?k < ?K" using assms(5) by (simp add: rd_months0_def algebra_simps)
  then have lex: "?k div 12 < ?K div 12 \<or> (?k div 12 = ?K div 12 \<and> ?k mod 12 < ?K mod 12)"
    by (rule div12_lex)
  have K: "?K div 12 = y1" "?K mod 12 = int m1 - 1" using assms divmod12 [of "int m1 - 1" y1] by simp_all
  have "0 \<le> ?k mod 12" by simp
  with lex K have "?k div 12 < y1 \<or> (?k div 12 = y1 \<and> nat (?k mod 12 + 1) < m1)" by linarith
  then show ?thesis
    unfolding add_months_at [OF assms(3,4) refl, where m = m and d = d2 and t = t2 and y = y2]
    by (rule ts_less_month)
qed

lemma add_months_after:
  assumes "1 \<le> m1" "m1 \<le> 12" "1 \<le> m2" "m2 \<le> 12"
    and "rd_months0 ((y1, m1, d1), t1) ((y2, m2, d2), t2) < m"
  shows "((y1, m1, d1), t1) < add_months m ((y2, m2, d2), t2)"
proof -
  let ?K = "y1 * 12 + (int m1 - 1)" and ?k = "y2 * 12 + (int m2 - 1) + m"
  have "?K < ?k" using assms(5) by (simp add: rd_months0_def algebra_simps)
  then have lex: "?K div 12 < ?k div 12 \<or> (?K div 12 = ?k div 12 \<and> ?K mod 12 < ?k mod 12)"
    by (rule div12_lex)
  have K: "?K div 12 = y1" "?K mod 12 = int m1 - 1" using assms divmod12 [of "int m1 - 1" y1] by simp_all
  with lex assms(1) have "y1 < ?k div 12 \<or> (y1 = ?k div 12 \<and> m1 < nat (?k mod 12 + 1))" by linarith
  then show ?thesis
    unfolding add_months_at [OF assms(3,4) refl, where m = m and d = d2 and t = t2 and y = y2]
    by (rule ts_less_month)
qed

lemma rd_months_loop_step:
  assumes "1 \<le> mb" "mb \<le> 12"
  shows "rd_months_loop dt1 ((yb, mb, db), tb) m =
     (let dtm = add_months m ((yb, mb, db), tb) in
      if (if dt1 < ((yb, mb, db), tb) then dtm < dt1 else dt1 < dtm)
      then rd_months_loop dt1 ((yb, mb, db), tb) (m + (if dt1 < ((yb, mb, db), tb) then 1 else - 1))
      else Some m)"
  by (subst rd_months_loop.simps) (simp only: rd_add_set_months [OF assms])

theorem rd_months_loop_closed:
  assumes "1 \<le> m1" "m1 \<le> 12" "1 \<le> m2" "m2 \<le> 12"
  shows "rd_months_loop ((y1, m1, d1), t1) ((y2, m2, d2), t2) (rd_months0 ((y1, m1, d1), t1) ((y2, m2, d2), t2)) =
         Some (rd_months_spec ((y1, m1, d1), t1) ((y2, m2, d2), t2))"
proof -
  define dt1 where "dt1 = ((y1, m1, d1), t1)"
  define dt2 where "dt2 = ((y2, m2, d2), t2)"
  define m0 where "m0 = rd_months0 dt1 dt2"
  note step = rd_months_loop_step [OF assms(3,4), where yb = y2 and db = d2 and tb = t2, folded dt2_def]
  have bef: "add_months (m0 - 1) dt2 < dt1"
    unfolding dt1_def dt2_def m0_def by (rule add_months_before [OF assms]) simp
  have aft: "dt1 < add_months (m0 + 1) dt2"
    unfolding dt1_def dt2_def m0_def by (rule add_months_after [OF assms]) simp
  have "rd_months_loop dt1 dt2 m0 = Some (rd_months_spec dt1 dt2)"
  proof (cases "dt1 < dt2")
    case True
    show ?thesis
    proof (cases "add_months m0 dt2 < dt1")
      case True
      from aft have "rd_months_loop dt1 dt2 (m0 + 1) = Some (m0 + 1)"
        using \<open>dt1 < dt2\<close> by (subst step) (simp add: Let_def less_not_sym)
      with True \<open>dt1 < dt2\<close> show ?thesis
        by (subst step) (simp add: Let_def rd_months_spec_def m0_def)
    next
      case False
      with \<open>dt1 < dt2\<close> show ?thesis
        by (subst step) (simp add: Let_def rd_months_spec_def m0_def)
    qed
  next
    case False
    show ?thesis
    proof (cases "dt1 < add_months m0 dt2")
      case True
      from bef have "rd_months_loop dt1 dt2 (m0 - 1) = Some (m0 - 1)"
        using \<open>\<not> dt1 < dt2\<close> by (subst step) (simp add: Let_def less_not_sym)
      with True \<open>\<not> dt1 < dt2\<close> show ?thesis
        by (subst step) (simp add: Let_def rd_months_spec_def m0_def)
    next
      case False
      with \<open>\<not> dt1 < dt2\<close> show ?thesis
        by (subst step) (simp add: Let_def rd_months_spec_def m0_def)
    qed
  qed
  then show ?thesis by (simp add: dt1_def dt2_def m0_def)
qed

lemma rd_set_months_nonneg: "0 \<le> m \<Longrightarrow> fst (rd_set_months m) = m div 12"
  by (auto simp: rd_set_months_def)

lemma years_of_months:
  fixes q s :: int
  assumes "-12 \<le> s" "s < 12"
  shows "(12 * q + s) div 12 = q - (if s < 0 then 1 else 0)"
proof (cases "s < 0")
  case True
  have "12 * q + s = (q - 1) * 12 + (s + 12)" by (simp add: algebra_simps)
  with True assms divmod12 [of "s + 12" "q - 1"] show ?thesis by simp
next
  case False
  with assms divmod12 [of s q] show ?thesis by (simp add: mult.commute)
qed

lemma ts_less_same_month:
  fixes y :: int and m d d' t t' :: nat
  shows "(((y, m, d), t) < ((y, m, d'), t')) = ((d, t) < (d', t'))"
  by auto

lemma relativedelta_years_eq_age:
  assumes "1 \<le> m1" "m1 \<le> 12" "valid_date (y2, m2, d2)"
    and "\<not> ((y1, m1, d1), t1) < ((y2, m2, d2), t2)"
  shows "relativedelta_years ((y1, m1, d1), t1) ((y2, m2, d2), t2) =
         Some (age_years ((y1, m1, d1), t1) ((y2, m2, d2), t2))"
proof -
  define dt1 where "dt1 = ((y1, m1, d1), t1)"
  define dt2 where "dt2 = ((y2, m2, d2), t2)"
  have m2: "1 \<le> m2" "m2 \<le> 12" "d2 \<le> days_in_month y2 m2"
    using assms(3) by (simp_all add: valid_date_def)
  define a :: int where "a = (if (d1, t1) < (min (days_in_month y1 m1) d2, t2) then 1 else 0)"
  have m0: "rd_months0 dt1 dt2 = 12 * (y1 - y2) + (int m1 - int m2)"
    by (simp add: rd_months0_def dt1_def dt2_def algebra_simps)
  have spec: "rd_months_spec dt1 dt2 = rd_months0 dt1 dt2 - a"
    using assms(4) add_months_m0 [OF assms(1,2) m2(1,2), of y1 d1 t1 y2 d2 t2]
    by (simp del: less_prod_simp add: rd_months_spec_def dt1_def dt2_def a_def Let_def ts_less_same_month)
  have nonneg: "0 \<le> rd_months0 dt1 dt2 - a"
  proof (cases "y2 < y1")
    case True
    then show ?thesis using m2 assms(1,2) m0 by (simp add: a_def)
  next
    case False
    with assms(4) have "y1 = y2" "m2 \<le> m1" by (auto simp: less_prod_def)
    then show ?thesis
    proof (cases "m2 = m1")
      case True
      with \<open>y1 = y2\<close> assms(4) m2(3) have "a = 0" by (auto simp: a_def less_prod_def)
      then show ?thesis using m0 \<open>y1 = y2\<close> True by simp
    next
      case False
      with \<open>m2 \<le> m1\<close> m0 \<open>y1 = y2\<close> show ?thesis by (simp add: a_def)
    qed
  qed
  have e: "rd_months_spec dt1 dt2 = 12 * (y1 - y2) + (int m1 - int m2 - a)"
    by (simp add: spec m0)
  have "-12 \<le> int m1 - int m2 - a" "int m1 - int m2 - a < 12" using m2 assms(1,2) by (auto simp: a_def)
  then have yrs: "(12 * (y1 - y2) + (int m1 - int m2 - a)) div 12 =
             y1 - y2 - (if int m1 - int m2 - a < 0 then 1 else 0)"
    by (rule years_of_months)
  have cmp: "(int m1 - int m2 - a < 0) = ((m1, d1, t1) < (m2, min (days_in_month y1 m2) d2, t2))"
  proof (cases m1 m2 rule: linorder_cases)
    case equal
    then show ?thesis by (simp add: a_def)
  qed (auto simp: a_def)
  have age: "age_years dt1 dt2 = y1 - y2 - (if (m1, d1, t1) < (m2, min (days_in_month y1 m2) d2, t2) then 1 else 0)"
    by (simp del: less_prod_simp add: age_years_def dt1_def dt2_def)
  have nonneg': "0 \<le> 12 * (y1 - y2) + (int m1 - int m2 - a)" using nonneg m0 by simp
  have "fst (rd_set_months (rd_months_spec dt1 dt2)) = (12 * (y1 - y2) + (int m1 - int m2 - a)) div 12"
    unfolding e by (rule rd_set_months_nonneg [OF nonneg'])
  also have "\<dots> = age_years dt1 dt2"
    by (simp only: yrs age cmp)
  finally have "fst (rd_set_months (rd_months_spec dt1 dt2)) = age_years dt1 dt2" .
  then show ?thesis
    using rd_months_loop_closed [OF assms(1,2) m2(1,2), of y1 d1 t1 y2 d2 t2]
    by (simp add: relativedelta_years_def dt1_def dt2_def)
qed

text \<open>C3. On valid dates with the birth timestamp not after the current one,
  \<^verbatim>\<open>relativedelta(now, birth).years\<close> as dateutil computes it (month count, overshoot
  loop, split into years) equals the calendar-aware whole-year age \<open>age_years\<close>.\<close>

theorem relativedelta_years_age:
  assumes "1 \<le> m1" "m1 \<le> 12" "valid_date (y2, m2, d2)"
    and "\<not> ((y1, m1, d1), t1) < ((y2, m2, d2), t2)"
  shows "relativedelta_years ((y1, m1, d1), t1) ((y2, m2, d2), t2) =
         Some (age_years ((y1, m1, d1), t1) ((y2, m2, d2), t2))"
  using assms by (rule relativedelta_years_eq_age)

lemma rd_set_months_nonpos: "m \<le> 0 \<Longrightarrow> fst (rd_set_months m) = - ((- m) div 12)"
  by (auto simp: rd_set_months_def sgn_if)

lemma relativedelta_years_eq_future:
  assumes "1 \<le> m1" "m1 \<le> 12" "valid_date (y2, m2, d2)"
    and "((y1, m1, d1), t1) < ((y2, m2, d2), t2)"
  shows "relativedelta_years ((y1, m1, d1), t1) ((y2, m2, d2), t2) =
         Some (y1 - y2 + (if (m2, min (days_in_month y1 m2) d2, t2) < (m1, d1, t1) then 1 else 0))"
proof -
  define dt1 where "dt1 = ((y1, m1, d1), t1)"
  define dt2 where "dt2 = ((y2, m2, d2), t2)"
  have m2: "1 \<le> m2" "m2 \<le> 12" "d2 \<le> days_in_month y2 m2"
    using assms(3) by (simp_all add: valid_date_def)
  define b :: int where "b = (if (min (days_in_month y1 m1) d2, t2) < (d1, t1) then 1 else 0)"
  have m0: "rd_months0 dt1 dt2 = 12 * (y1 - y2) + (int m1 - int m2)"
    by (simp add: rd_months0_def dt1_def dt2_def algebra_simps)
  have spec: "rd_months_spec dt1 dt2 = rd_months0 dt1 dt2 + b"
    using assms(4) add_months_m0 [OF assms(1,2) m2(1,2), of y1 d1 t1 y2 d2 t2]
    by (simp del: less_prod_simp add: rd_months_spec_def dt1_def dt2_def b_def Let_def ts_less_same_month)
  have nonpos: "rd_months0 dt1 dt2 + b \<le> 0"
  proof (cases "y1 < y2")
    case True
    then show ?thesis using m2 assms(1,2) m0 by (simp add: b_def)
  next
    case False
    with assms(4) have "y1 = y2" "m1 \<le> m2" by (auto simp: less_prod_def)
    then show ?thesis
    proof (cases "m1 = m2")
      case True
      with \<open>y1 = y2\<close> assms(4) m2(3) have "b = 0" by (auto simp: b_def less_prod_def)
      then show ?thesis using m0 \<open>y1 = y2\<close> True by simp
    next
      case False
      with \<open>m1 \<le> m2\<close> m0 \<open>y1 = y2\<close> show ?thesis by (simp add: b_def)
    qed
  qed
  have e: "- rd_months_spec dt1 dt2 = 12 * (y2 - y1) + (int m2 - int m1 - b)"
    by (simp add: spec m0 algebra_simps)
  have "-12 \<le> int m2 - int m1 - b" "int m2 - int m1 - b < 12" using m2 assms(1,2) by (auto simp: b_def)
  then have yrs: "(12 * (y2 - y1) + (int m2 - int m1 - b)) div 12 =
             y2 - y1 - (if int m2 - int m1 - b < 0 then 1 else 0)"
    by (rule years_of_months)
  have cmp: "(int m2 - int m1 - b < 0) = ((m2, min (days_in_month y1 m2) d2, t2) < (m1, d1, t1))"
  proof (cases m1 m2 rule: linorder_cases)
    case equal
    then show ?thesis by (simp add: b_def)
  qed (auto simp: b_def)
  have "fst (rd_set_months (rd_months_spec dt1 dt2)) = - ((- rd_months_spec dt1 dt2) div 12)"
    using nonpos spec by (simp add: rd_set_months_nonpos)
  also have "\<dots> = y1 - y2 + (if (m2, min (days_in_month y1 m2) d2, t2) < (m1, d1, t1) then 1 else 0)"
    by (simp only: e yrs cmp)
  finally have "fst (rd_set_months (rd_months_spec dt1 dt2)) =
      y1 - y2 + (if (m2, min (days_in_month y1 m2) d2, t2) < (m1, d1, t1) then 1 else 0)" .
  then show ?thesis
    using rd_months_loop_closed [OF assms(1,2) m2(1,2), of y1 d1 t1 y2 d2 t2]
    by (simp add: relativedelta_years_def dt1_def dt2_def)
qed

text \<open>C27. The overshoot loop of \<^verbatim>\<open>relativedelta\<close> terminates: for any two
  timestamps with months in 1..12 the years are computed.\<close>

theorem relativedelta_years_total:
  assumes "1 \<le> m1" "m1 \<le> 12" "1 \<le> m2" "m2 \<le> 12"
  shows "\<exists>y. relativedelta_years ((y1, m1, d1), t1) ((y2, m2, d2), t2) = Some y"
  using rd_months_loop_closed [OF assms, of y1 d1 t1 y2 d2 t2]
  by (simp add: relativedelta_years_def)

text \<open>C28. For a birth date after the current date, \<^verbatim>\<open>relativedelta(now, birth).years\<close>
  is minus the whole years from now until the birth date: the difference of the years,
  less one when the birth month and day (a 29 February clipped to the current year) come
  before the current ones, as the overshoot loop counts it from the birth date backwards.\<close>

theorem relativedelta_years_future:
  assumes "1 \<le> m1" "m1 \<le> 12" "valid_date (y2, m2, d2)"
    and "((y1, m1, d1), t1) < ((y2, m2, d2), t2)"
  shows "relativedelta_years ((y1, m1, d1), t1) ((y2, m2, d2), t2) =
         Some (y1 - y2 + (if (m2, min (days_in_month y1 m2) d2, t2) < (m1, d1, t1) then 1 else 0))"
  using assms by (rule relativedelta_years_eq_future)

theorem relativedelta_years_age_witness:
  "valid_date (2004, 2, 29) \<and>
   relativedelta_years ((2022, 2, 28), 100) ((2004, 2, 29), 0) = Some 18 \<and>
   relativedelta_years ((2022, 2, 27), 100) ((2004, 2, 29), 0) = Some 17"
proof -
  have v: "valid_date (2004, 2, 29)" by (simp add: valid_date_def days_in_month_def is_leap_def)
  have a: "relativedelta_years ((2022, 2, 28), 100) ((2004, 2, 29), 0) = Some 18"
    using relativedelta_years_age [of 2 2004 2 29 2022 28 100 0] v
    by (simp add: age_years_def days_in_month_def is_leap_def)
  have b: "relativedelta_years ((2022, 2, 27), 100) ((2004, 2, 29), 0) = Some 17"
    using relativedelta_years_age [of 2 2004 2 29 2022 27 100 0] v
    by (simp add: age_years_def days_in_month_def is_leap_def)
  from v a b show ?thesis by blast
qed

theorem relativedelta_years_total_witness:
  "\<exists>y. relativedelta_years ((2025, 11, 9), 0) ((2007, 11, 10), 0) = Some y"
  using relativedelta_years_total [of 11 11 2025 9 0 2007 10 0] by simp

theorem relativedelta_years_future_witness:
  "relativedelta_years ((2025, 1, 28), 0) ((2026, 1, 1), 0) = Some 0 \<and>
   relativedelta_years ((2025, 1, 1), 0) ((2027, 6, 1), 0) = Some (- 2)"
proof -
  have v: "valid_date (2026, 1, 1)" "valid_date (2027, 6, 1)" by (simp_all add: valid_date_def days_in_month_def)
  have a: "relativedelta_years ((2025, 1, 28), 0) ((2026, 1, 1), 0) = Some 0"
    using relativedelta_years_future [of 1 2026 1 1 2025 28 0 0] v(1) by (simp add: days_in_month_def)
  have b: "relativedelta_years ((2025, 1, 1), 0) ((2027, 6, 1), 0) = Some (- 2)"
    using relativedelta_years_future [of 1 2027 6 1 2025 1 0 0] v(2) by (simp add: days_in_month_def)
  from a b show ?thesis ..
qed

lemma ts_of_epoch_ns_first_day:
  assumes "0 \<le> k" "k < ns_per_day"
  shows "ts_of_epoch_ns k = Some ((1970, 1, 1), nat k)"
proof -
  have "k div ns_per_day = 0" "k mod ns_per_day = k" using assms by simp_all
  moreover have "civil_from_days 0 = (1970, 1, 1)" by code_simp
  ultimately show ?thesis using assms by (simp add: ts_of_epoch_ns_def ns_per_day_def)
qed

end
