(* ===== verification/Repository.thy ===== *)
theory Repository
  imports Catalog Dates
begin

text \<open>
  The beneficiary repository: the spreadsheet as pandas presents it to the program
  (a data frame of cells under column labels), its loading in
  \<^verbatim>\<open>load_excel_file\<close> and \<^verbatim>\<open>load_professional_values\<close> (lines 209--234), and the
  three queries on it, \<^verbatim>\<open>calculate_age\<close>, \<^verbatim>\<open>is_minor\<close> and \<^verbatim>\<open>get_person_data\<close>
  (lines 236--258 and 393--438). Reading the .xlsx file itself is outside the model: the
  frames \<^verbatim>\<open>pd.read_excel\<close> returns are inputs. Each query returns
  \<open>py_exc + _\<close>: an uncaught exception is a value.
\<close>

section \<open>Cells and columns\<close>

text \<open>
  A cell of a frame read by \<^verbatim>\<open>pd.read_excel\<close>: text, an integer, an integer-valued
  float (pandas stores an integer column with empty cells as \<^verbatim>\<open>float64\<close>), a missing
  value (\<^verbatim>\<open>NaN\<close>/\<^verbatim>\<open>NaT\<close>) or a date-time (a \<^verbatim>\<open>Timestamp\<close>).
\<close>

datatype cell = CStr ustr | CInt int | CFloat int | CNaN | CDate timestamp

text \<open>The columns the program reads, by their header text in the sheet, and any other.\<close>

datatype column =
    SIRIA_BENEFICIARIA      \<comment> \<open>\<^verbatim>\<open>'N\<ordmasculine> SIRIA BENEFICIARIA/O'\<close>\<close>
  | NOMBRE                  \<comment> \<open>\<^verbatim>\<open>'NOMBRE'\<close>\<close>
  | APELLIDOS               \<comment> \<open>\<^verbatim>\<open>'APELLIDOS'\<close>\<close>
  | NUMERO_NIE              \<comment> \<open>\<^verbatim>\<open>'N\<acute>UMERO NIE'\<close>\<close>
  | CADUCIDAD_NIE           \<comment> \<open>\<^verbatim>\<open>'CADUCIDAD NIE '\<close>, with its trailing blank\<close>
  | SIRIA_UC                \<comment> \<open>\<^verbatim>\<open>'N\<ordmasculine> SIRIA  UNIDAD CONVIVENCIAL (SI APLICA)'\<close>\<close>
  | SIRIA_TITULAR_UF        \<comment> \<open>\<^verbatim>\<open>'N\<ordmasculine> DE SIRIA TITULAR UNIDAD FAMILIAR'\<close>\<close>
  | EXPEDIENTE_OAR          \<comment> \<open>\<^verbatim>\<open>'N\<ordmasculine> EXPEDIENTE OAR'\<close>\<close>
  | FECHA_NACIMIENTO        \<comment> \<open>\<^verbatim>\<open>'FECHA NACIMIENTO'\<close>\<close>
  | SITUACION_LEGAL         \<comment> \<open>\<^verbatim>\<open>'SITUACI\<acute>ON LEGAL/ADMINISTRATIVA ACTUAL'\<close>\<close>
  | OtherColumn ustr

record dataframe =
  df_columns :: "column list"
  df_rows :: "cell list list"

text \<open>A frame as pandas builds it: distinct labels, every row as wide as the header.\<close>

definition wf_df :: "dataframe \<Rightarrow> bool" where
  "wf_df df \<longleftrightarrow> distinct (df_columns df) \<and> (\<forall>r \<in> set (df_rows df). length r = length (df_columns df))"

section \<open>pandas and Python on cells\<close>

text \<open>\<^verbatim>\<open>pd.isna\<close>.\<close>

definition pd_isna :: "cell \<Rightarrow> bool" where
  "pd_isna c \<longleftrightarrow> c = CNaN"

text \<open>\<^verbatim>\<open>str(ts)\<close> of a \<^verbatim>\<open>Timestamp\<close>: \<^verbatim>\<open>YYYY-MM-DD HH:MM:SS\<close>, then six digits of
  microseconds or nine of nanoseconds when the fraction is not zero.\<close>

definition ts_str :: "timestamp \<Rightarrow> ustr" where
  "ts_str ts =
     (case ts of ((y, m, d), t) \<Rightarrow>
        let s = t div 1000000000; f = t mod 1000000000 in
        year_str y @ u ''-'' @ zpad 2 m @ u ''-'' @ zpad 2 d @ u '' '' @
        zpad 2 (s div 3600) @ u '':'' @ zpad 2 (s mod 3600 div 60) @ u '':'' @ zpad 2 (s mod 60) @
        (if f = 0 then [] else if f mod 1000 = 0 then u ''.'' @ zpad 6 (f div 1000) else u ''.'' @ zpad 9 f))"

text \<open>\<^verbatim>\<open>str(x)\<close> of a cell (\<^verbatim>\<open>astype(str)\<close>, \<^verbatim>\<open>str(siria_titular)\<close>): an
  integer-valued float prints with \<^verbatim>\<open>.0\<close>, a missing value as \<^verbatim>\<open>nan\<close>.\<close>

definition py_str :: "cell \<Rightarrow> ustr" where
  "py_str c = (case c of
      CStr s \<Rightarrow> s
    | CInt i \<Rightarrow> int_str i
    | CFloat i \<Rightarrow> int_str i @ u ''.0''
    | CNaN \<Rightarrow> u ''nan''
    | CDate ts \<Rightarrow> ts_str ts)"

text \<open>\<^verbatim>\<open>cell == s\<close> for a Python string \<open>s\<close>: only a string cell can be equal.\<close>

definition cell_eq_str :: "cell \<Rightarrow> ustr \<Rightarrow> bool" where
  "cell_eq_str c s \<longleftrightarrow> c = CStr s"

text \<open>
  \<^verbatim>\<open>pd.to_datetime(c)\<close> for a present cell; \<open>None\<close> is the exception it raises.
  Text is parsed by the library's date parser, which the model takes as the parameter
  \<open>parse\<close>; numbers count nanoseconds from the epoch.
\<close>

definition to_datetime :: "(ustr \<Rightarrow> timestamp option) \<Rightarrow> cell \<Rightarrow> timestamp option" where
  "to_datetime parse c = (case c of
      CStr s \<Rightarrow> parse s
    | CInt n \<Rightarrow> ts_of_epoch_ns n
    | CFloat n \<Rightarrow> ts_of_epoch_ns n
    | CNaN \<Rightarrow> None
    | CDate ts \<Rightarrow> Some ts)"

section \<open>Frame access\<close>

text \<open>\<^verbatim>\<open>row[col]\<close> on a row of the frame: \<^verbatim>\<open>KeyError\<close> for a label the frame lacks.\<close>

definition df_get :: "dataframe \<Rightarrow> cell list \<Rightarrow> column \<Rightarrow> py_exc + cell" where
  "df_get df r col =
     (if col \<in> set (df_columns df) \<and> idx_of (df_columns df) col < length r
      then Inr (r ! idx_of (df_columns df) col) else Inl KeyError)"

text \<open>
  \<^verbatim>\<open>df[df['N\<ordmasculine> SIRIA BENEFICIARIA/O'] == n].iloc[0]\<close>: the first row whose
  identifier cell equals \<open>n\<close>, \<open>None\<close> when the filtered frame is empty.
\<close>

definition df_find :: "dataframe \<Rightarrow> ustr \<Rightarrow> py_exc + cell list option" where
  "df_find df n =
     (if SIRIA_BENEFICIARIA \<in> set (df_columns df)
      then Inr (find (\<lambda>r. df_get df r SIRIA_BENEFICIARIA = Inr (CStr n)) (df_rows df))
      else Inl KeyError)"

section \<open>Loading\<close>

text \<open>
  \<^verbatim>\<open>self.df['N\<ordmasculine> SIRIA BENEFICIARIA/O'].astype(str)\<close>: every identifier cell
  becomes its Python string; \<^verbatim>\<open>KeyError\<close> when the column is missing.
\<close>

definition astype_str_col :: "column \<Rightarrow> dataframe \<Rightarrow> py_exc + dataframe" where
  "astype_str_col col df =
     (if col \<in> set (df_columns df)
      then (let i = idx_of (df_columns df) col in
            Inr (df\<lparr>df_rows := map (\<lambda>r. if i < length r then r[i := CStr (py_str (r ! i))] else r) (df_rows df)\<rparr>))
      else Inl KeyError)"

text \<open>
  \<^verbatim>\<open>df_oculta.iloc[3:7, c].dropna().tolist()\<close> on the hidden sheet read without
  header: rows 3 to 6 of column \<open>c\<close>, missing values dropped; an \<^verbatim>\<open>IndexError\<close> when
  the sheet is narrower than \<open>c + 1\<close> columns (pandas pads short rows with \<^verbatim>\<open>NaN\<close>).
\<close>

definition iloc_col :: "cell list list \<Rightarrow> nat \<Rightarrow> nat \<Rightarrow> nat \<Rightarrow> py_exc + cell list" where
  "iloc_col sheet lo hi c =
     (if c < Max (insert 0 (set (map length sheet)))
      then Inr (map (\<lambda>r. if c < length r then r ! c else CNaN) (take (hi - lo) (drop lo sheet)))
      else Inl IndexError)"

definition dropna :: "cell list \<Rightarrow> cell list" where
  "dropna cs = filter (\<lambda>c. \<not> pd_isna c) cs"

record session =
  ses_df :: dataframe
  valores_combined :: "cell list"

text \<open>
  \<^verbatim>\<open>load_excel_file\<close> after the file dialog: \<open>archivo\<close> is the chosen path (empty when
  the dialog was cancelled); \<open>read\<close> is what the two \<^verbatim>\<open>pd.read_excel\<close> calls return,
  \<open>None\<close> when either raises. Every exception inside the \<^verbatim>\<open>try\<close> becomes the
  \<^verbatim>\<open>"No se pudo cargar"\<close> error.
\<close>

datatype load_error = NoFileSelected | LoadFailed

definition load_professional_values :: "cell list list \<Rightarrow> py_exc + cell list" where
  "load_professional_values oculta =
     exc_bind (iloc_col oculta 3 7 1) (\<lambda>b.
     exc_bind (iloc_col oculta 3 7 2) (\<lambda>c. Inr (dropna b @ dropna c)))"

definition load_excel_file ::
  "ustr \<Rightarrow> (dataframe \<times> cell list list) option \<Rightarrow> load_error + session" where
  "load_excel_file archivo read =
     (if archivo = [] then Inl NoFileSelected
      else case read of
        None \<Rightarrow> Inl LoadFailed
      | Some (df0, oculta) \<Rightarrow>
          (case astype_str_col SIRIA_BENEFICIARIA df0 of
             Inl _ \<Rightarrow> Inl LoadFailed
           | Inr df \<Rightarrow>
               (case load_professional_values oculta of
                  Inl _ \<Rightarrow> Inl LoadFailed
                | Inr vs \<Rightarrow> Inr \<lparr>ses_df = df, valores_combined = vs\<rparr>)))"

section \<open>Queries\<close>

text \<open>
  \<^verbatim>\<open>calculate_age(birthdate)\<close>: \<open>None\<close> for a missing cell or when parsing or
  \<^verbatim>\<open>relativedelta\<close> raises (the bare \<^verbatim>\<open>except\<close>), else the whole years from the
  birth date to \<open>now\<close>.
\<close>

definition calculate_age :: "timestamp \<Rightarrow> (ustr \<Rightarrow> timestamp option) \<Rightarrow> cell \<Rightarrow> int option" where
  "calculate_age now parse c =
     (if pd_isna c then None
      else case to_datetime parse c of
        None \<Rightarrow> None
      | Some b \<Rightarrow> relativedelta_years now b)"

text \<open>
  \<^verbatim>\<open>is_minor(numero_siria)\<close>: \<open>(False, None, None)\<close> when no row matches or the
  birth date is missing; otherwise whether the age is known and below
  \<^verbatim>\<open>EDAD_MAYORIA\<close>, with the birth-date and holder cells. Reading a column the frame
  lacks raises \<^verbatim>\<open>KeyError\<close>, which \<^verbatim>\<open>is_minor\<close> does not catch.
\<close>

definition is_minor ::
  "timestamp \<Rightarrow> (ustr \<Rightarrow> timestamp option) \<Rightarrow> dataframe \<Rightarrow> ustr \<Rightarrow>
   py_exc + (bool \<times> cell option \<times> cell option)" where
  "is_minor now parse df n =
     exc_bind (df_find df n) (\<lambda>p. case p of
       None \<Rightarrow> Inr (False, None, None)
     | Some r \<Rightarrow>
         exc_bind (df_get df r FECHA_NACIMIENTO) (\<lambda>fecha.
         exc_bind (df_get df r SIRIA_TITULAR_UF) (\<lambda>titular.
           if pd_isna fecha then Inr (False, None, None)
           else let age = calculate_age now parse fecha in
             Inr (age \<noteq> None \<and> the age < EDAD_MAYORIA, Some fecha, Some titular))))"

text \<open>The six protection-status marker keys and the category strings that set each
  (\<^verbatim>\<open>sol_ben_pt\<close> is set by two categories).\<close>

definition tipos_proteccion :: "(string \<times> ustr list) list" where
  "tipos_proteccion = [
     (''sol_pi'', [u ''Solicitante Protecci'' @ [243] @ u ''n Internacional'']),
     (''ben_pi'', [u ''Beneficiario/a Estatuto Refugiado/a'']),
     (''ben_ps'', [u ''Beneficiario/a Protecci'' @ [243] @ u ''n Subsidiaria'']),
     (''sol_ap'', [u ''Solicitante Estatuto de Ap'' @ [225] @ u ''trida'']),
     (''apatrida'', [u ''Ap'' @ [225] @ u ''trida'']),
     (''sol_ben_pt'', [u ''Solicitante Protecci'' @ [243] @ u ''n Temporal'',
                       u ''Beneficiario/a Protecci'' @ [243] @ u ''n Temporal''])]"

definition marcador :: "cell \<Rightarrow> ustr list \<Rightarrow> cell" where
  "marcador tipo cats = CStr (if \<exists>s \<in> set cats. cell_eq_str tipo s then u ''X'' else [])"

type_synonym receipt_ctx = "string \<rightharpoonup> cell"

text \<open>
  \<^verbatim>\<open>get_person_data(numero_siria, is_titular)\<close>: \<open>None\<close> when no row matches; else
  the role-prefixed fields of the row, the birth date as \<^verbatim>\<open>dd-mm-YYYY\<close> (a date
  that does not parse raises), the six markers, and \<^verbatim>\<open>relacion_familiar\<close> for a minor.
  The cells are read in the order of the source: birth date, category, then the dict.
\<close>

definition person_columns :: "(string \<times> column) list" where
  "person_columns = [
     (''nombre'', NOMBRE), (''apellidos'', APELLIDOS), (''nie'', NUMERO_NIE),
     (''caducidad_nie'', CADUCIDAD_NIE), (''numero_siria_beneficiaria'', SIRIA_BENEFICIARIA),
     (''numero_siria_uc'', SIRIA_UC), (''numero_siria_uf'', SIRIA_TITULAR_UF),
     (''oar'', EXPEDIENTE_OAR)]"

definition get_person_data ::
  "(ustr \<Rightarrow> timestamp option) \<Rightarrow> dataframe \<Rightarrow> ustr \<Rightarrow> bool \<Rightarrow> py_exc + receipt_ctx option" where
  "get_person_data parse df n is_titular =
     exc_bind (df_find df n) (\<lambda>p. case p of
       None \<Rightarrow> Inr None
     | Some r \<Rightarrow>
         (let prefix = (if is_titular then ''titular_'' else ''menor_'') in
          exc_bind (df_get df r FECHA_NACIMIENTO) (\<lambda>fecha0.
          exc_bind (if pd_isna fecha0 then Inr fecha0
                    else case to_datetime parse fecha0 of
                      None \<Rightarrow> Inl ValueError
                    | Some ts \<Rightarrow> Inr (CStr (fmt_dmy (fst ts)))) (\<lambda>fecha.
          exc_bind (df_get df r SITUACION_LEGAL) (\<lambda>tipo.
          exc_bind (exc_list (map (\<lambda>(k, col). df_get df r col) person_columns)) (\<lambda>vals.
            Inr (Some (py_dict
              (zip (map (\<lambda>(k, col). prefix @ k) person_columns) vals @
               [(prefix @ ''fecha_nacimiento'', fecha)] @
               map (\<lambda>(k, cats). (k, marcador tipo cats)) tipos_proteccion @
               (if is_titular then [] else [(''relacion_familiar'', CStr (u ''Hijo/a''))]))))))))))"

section \<open>Example data\<close>

text \<open>A two-row frame (a holder and a minor in her family unit) and a hidden sheet,
  used to instantiate the theorems below.\<close>

definition example_columns :: "column list" where
  "example_columns = [SIRIA_BENEFICIARIA, NOMBRE, APELLIDOS, NUMERO_NIE, CADUCIDAD_NIE, SIRIA_UC,
     SIRIA_TITULAR_UF, EXPEDIENTE_OAR, FECHA_NACIMIENTO, SITUACION_LEGAL]"

definition example_frame :: dataframe where
  "example_frame = \<lparr>df_columns = example_columns, df_rows = [
     [CStr (u ''1001''), CStr (u ''Ana''), CStr (u ''Perez''), CStr (u ''X1''), CDate ((2030, 1, 1), 0),
      CStr (u ''77''), CNaN, CStr (u ''OAR1''), CDate ((1990, 5, 10), 0), CStr (u ''Ap'' @ [225] @ u ''trida'')],
     [CStr (u ''2002''), CStr (u ''Luis''), CStr (u ''Perez''), CStr (u ''X2''), CNaN,
      CStr (u ''77''), CStr (u ''1001''), CStr (u ''OAR2''), CDate ((2015, 3, 4), 0),
      CStr (u ''Beneficiario/a Estatuto Refugiado/a'')]]\<rparr>"

definition example_oculta :: "cell list list" where
  "example_oculta = replicate 3 [CNaN, CNaN, CNaN] @ [[CNaN, CStr (u ''Marta''), CNaN], [CNaN, CNaN, CStr (u ''Jose'')]]"
text \<open>The frame with the minor's birth date stored as the spreadsheet serial number 45000
  (15 March 2023) instead of a date cell.\<close>

definition example_frame_serial_birth :: dataframe where
  "example_frame_serial_birth = example_frame\<lparr>df_rows :=
     [df_rows example_frame ! 0, (df_rows example_frame ! 1)[8 := CInt 45000]]\<rparr>"

text \<open>The frame with the holder's identifier stored as the integer 1001, as
  \<^verbatim>\<open>read_excel\<close> returns a column of numbers.\<close>

definition example_frame_int_id :: dataframe where
  "example_frame_int_id = example_frame\<lparr>df_rows :=
     [(df_rows example_frame ! 0)[0 := CInt 1001], df_rows example_frame ! 1]\<rparr>"

section \<open>Properties\<close>

lemma is_minor_found:
  assumes "df_find df n = Inr (Some r)"
    and "df_get df r FECHA_NACIMIENTO = Inr fecha" "df_get df r SIRIA_TITULAR_UF = Inr tit"
    and "\<not> pd_isna fecha"
  shows "is_minor now parse df n =
         Inr (calculate_age now parse fecha \<noteq> None \<and> the (calculate_age now parse fecha) < EDAD_MAYORIA,
              Some fecha, Some tit)"
  using assms by (simp add: is_minor_def Let_def)

lemma calculate_age_date:
  assumes "valid_ts now" "valid_date (fst b)" "\<not> now < b"
  shows "calculate_age now parse (CDate b) = Some (age_years now b)"
proof -
  obtain y1 m1 d1 t1 where n: "now = ((y1, m1, d1), t1)" by (metis prod.exhaust)
  obtain y2 m2 d2 t2 where bb: "b = ((y2, m2, d2), t2)" by (metis prod.exhaust)
  have m: "1 \<le> m1" "m1 \<le> 12" using assms(1) by (simp_all add: n valid_ts_def valid_date_def)
  have v: "valid_date (y2, m2, d2)" using assms(2) by (simp add: bb)
  have "relativedelta_years now b = Some (age_years now b)"
    unfolding n bb by (rule relativedelta_years_eq_age [OF m v assms(3) [unfolded n bb]])
  then show ?thesis by (simp add: calculate_age_def to_datetime_def pd_isna_def)
qed

text \<open>C22. For a row found by its identifier whose birth-date cell is a valid date not
  after now, \<^verbatim>\<open>is_minor\<close> reports minority exactly when the calendar-aware age is
  below 18, and returns the birth-date and holder cells.\<close>

theorem is_minor_age:
  assumes "df_find df n = Inr (Some r)"
    and "df_get df r FECHA_NACIMIENTO = Inr (CDate b)" "df_get df r SIRIA_TITULAR_UF = Inr tit"
    and "valid_ts now" "valid_date (fst b)" "\<not> now < b"
  shows "is_minor now parse df n = Inr (age_years now b < 18, Some (CDate b), Some tit)"
  using is_minor_found [OF assms(1-3)] calculate_age_date [OF assms(4-6)]
  by (simp add: pd_isna_def EDAD_MAYORIA_def)

lemma age_years_anniversary:
  assumes "valid_date (y, m, d)"
  shows "age_years ((y, m, d), t) ((y - 18, m, d), 0) = 18"
  using assms by (simp add: age_years_def valid_date_def)

lemma age_years_eve:
  assumes "valid_date (y, m, d)" "2 \<le> d"
  shows "age_years ((y, m, d - 1), t) ((y - 18, m, d), 0) = 17"
  using assms by (auto simp: age_years_def valid_date_def)

lemma py_dict_append: "py_dict (xs @ ys) k = (case py_dict ys k of None \<Rightarrow> py_dict xs k | Some v \<Rightarrow> Some v)"
  by (simp add: py_dict_def map_add_def split: option.split)

lemma py_dict_notin: "k \<notin> set (map fst xs) \<Longrightarrow> py_dict xs k = None"
  by (simp add: py_dict_def map_of_eq_None_iff)

lemma marcador_cases: "marcador tipo cats = CStr (u ''X'') \<or> marcador tipo cats = CStr []"
  by (simp add: marcador_def)

lemma marcadores_exactly_one:
  "length (filter (\<lambda>(k, cats). marcador tipo cats = CStr (u ''X'')) tipos_proteccion) =
   (if \<exists>(k, cats) \<in> set tipos_proteccion. \<exists>s \<in> set cats. tipo = CStr s then 1 else 0)"
proof (cases tipo)
  case (CStr s)
  then show ?thesis
    by (auto simp: tipos_proteccion_def marcador_def cell_eq_str_def)
qed (simp_all add: tipos_proteccion_def marcador_def cell_eq_str_def)

lemma get_person_data_Some:
  assumes "get_person_data parse df n is_tit = Inr (Some ctx)"
  obtains r fecha tipo vals where "df_find df n = Inr (Some r)"
    "df_get df r SITUACION_LEGAL = Inr tipo"
    "exc_list (map (\<lambda>(k, col). df_get df r col) person_columns) = Inr vals"
    "ctx = py_dict
       (zip (map (\<lambda>(k, col). (if is_tit then ''titular_'' else ''menor_'') @ k) person_columns) vals @
        [((if is_tit then ''titular_'' else ''menor_'') @ ''fecha_nacimiento'', fecha)] @
        map (\<lambda>(k, cats). (k, marcador tipo cats)) tipos_proteccion @
        (if is_tit then [] else [(''relacion_familiar'', CStr (u ''Hijo/a''))]))"
  using assms
  by (auto simp: get_person_data_def Let_def exc_bind_Inr_iff split: option.splits if_splits)

lemma py_dict_map_snd:
  assumes "distinct (map fst kvs)" "(k, v) \<in> set kvs"
  shows "py_dict (map (\<lambda>(k, v). (k, f v)) kvs) k = Some (f v)"
proof -
  have d: "distinct (map fst (map (\<lambda>(k, v). (k, f v)) kvs))"
    using assms(1) by (simp add: case_prod_beta comp_def)
  have "(k, f v) \<in> set (map (\<lambda>(k, v). (k, f v)) kvs)" using assms(2) by force
  with d show ?thesis by (simp add: py_dict_distinct map_of_is_SomeI)
qed

lemma tipos_keys:
  "distinct (map fst tipos_proteccion)"
  "set (map fst tipos_proteccion) = {''sol_pi'', ''ben_pi'', ''ben_ps'', ''sol_ap'', ''apatrida'', ''sol_ben_pt''}"
  by (simp_all add: tipos_proteccion_def)

lemma marker_key_not_field:
  assumes "k \<in> set (map fst tipos_proteccion)"
  shows "k \<notin> set (map (\<lambda>(k, col). (if is_tit then ''titular_'' else ''menor_'') @ k) person_columns)"
    "k \<noteq> (if is_tit then ''titular_'' else ''menor_'') @ ''fecha_nacimiento''"
    "k \<noteq> ''relacion_familiar''"
  using assms unfolding tipos_keys(2) by (auto simp: person_columns_def)

lemma get_person_data_marker:
  assumes "get_person_data parse df n is_tit = Inr (Some ctx)" "df_find df n = Inr (Some r)"
    "df_get df r SITUACION_LEGAL = Inr tipo" "(k, cats) \<in> set tipos_proteccion"
  shows "ctx k = Some (marcador tipo cats)"
proof -
  let ?p = "if is_tit then ''titular_'' else ''menor_''"
  obtain r' fecha tipo' vals where f: "df_find df n = Inr (Some r')"
    and t: "df_get df r' SITUACION_LEGAL = Inr tipo'"
    and ctx: "ctx = py_dict
       (zip (map (\<lambda>(k, col). ?p @ k) person_columns) vals @
        [(?p @ ''fecha_nacimiento'', fecha)] @
        map (\<lambda>(k, cats). (k, marcador tipo' cats)) tipos_proteccion @
        (if is_tit then [] else [(''relacion_familiar'', CStr (u ''Hijo/a''))]))"
    by (rule get_person_data_Some [OF assms(1)])
  from f t assms(2,3) have tt: "tipo' = tipo" by simp
  have kk: "k \<in> set (map fst tipos_proteccion)" using assms(4) by force
  note nk1 = marker_key_not_field(1) [OF kk, of is_tit]
  note nk3 = marker_key_not_field(3) [OF kk]
  have z: "py_dict (zip (map (\<lambda>(k, col). ?p @ k) person_columns) vals) k = None"
    by (rule py_dict_notin) (use nk1 in \<open>auto dest: set_zip_leftD\<close>)
  have m: "py_dict (map (\<lambda>(k, cats). (k, marcador tipo cats)) tipos_proteccion) k = Some (marcador tipo cats)"
    by (rule py_dict_map_snd [OF tipos_keys(1) assms(4)])
  have rr: "py_dict (if is_tit then [] else [(''relacion_familiar'', CStr (u ''Hijo/a''))]) k = None"
    using nk3 by (simp add: py_dict_def)
  show ?thesis
    unfolding ctx tt by (simp only: py_dict_append rr m option.case)
qed

lemma person_columns_prefix_inj: "inj_on (\<lambda>(k, col). p @ k) (set person_columns)"
  by (auto simp: person_columns_def inj_on_def)

lemma person_key_not_later:
  assumes "(k, col) \<in> set person_columns"
  shows "py_dict ([((if is_tit then ''titular_'' else ''menor_'') @ ''fecha_nacimiento'', fecha)] @
           map (\<lambda>(k, cats). (k, marcador tipo cats)) tipos_proteccion @
           (if is_tit then [] else [(''relacion_familiar'', CStr (u ''Hijo/a''))]))
           ((if is_tit then ''titular_'' else ''menor_'') @ k) = None"
proof (rule py_dict_notin)
  let ?p = "if is_tit then ''titular_'' else ''menor_''"
  have f: "?p @ k \<in> set (map (\<lambda>(k, col). ?p @ k) person_columns)" using assms by force
  have m: "?p @ k \<notin> set (map fst tipos_proteccion)"
    using marker_key_not_field(1) [of "?p @ k" is_tit] f by blast
  have k: "k \<noteq> ''fecha_nacimiento''" using assms by (auto simp: person_columns_def)
  have r: "?p @ k \<noteq> ''relacion_familiar''" by simp
  show "?p @ k \<notin> set (map fst ([(?p @ ''fecha_nacimiento'', fecha)] @
           map (\<lambda>(k, cats). (k, marcador tipo cats)) tipos_proteccion @
           (if is_tit then [] else [(''relacion_familiar'', CStr (u ''Hijo/a''))])))"
    using m k r by (auto simp: case_prod_beta)
qed

lemma get_person_data_fecha:
  assumes "get_person_data parse df n is_tit = Inr (Some ctx)" "df_find df n = Inr (Some r)"
    and "df_get df r FECHA_NACIMIENTO = Inr c" "\<not> pd_isna c" "to_datetime parse c = Some ts"
  shows "ctx ((if is_tit then ''titular_'' else ''menor_'') @ ''fecha_nacimiento'') = Some (CStr (fmt_dmy (fst ts)))"
proof -
  let ?p = "if is_tit then ''titular_'' else ''menor_''"
  obtain vals tipo where ctx: "ctx = py_dict
     (zip (map (\<lambda>(k, col). ?p @ k) person_columns) vals @
      [(?p @ ''fecha_nacimiento'', CStr (fmt_dmy (fst ts)))] @
      (map (\<lambda>(k, cats). (k, marcador tipo cats)) tipos_proteccion @
      (if is_tit then [] else [(''relacion_familiar'', CStr (u ''Hijo/a''))])))"
    using assms by (auto simp: get_person_data_def exc_bind_Inr_iff Let_def)
  have "?p @ ''fecha_nacimiento'' \<notin> set (map fst (map (\<lambda>(k, cats). (k, marcador tipo cats)) tipos_proteccion @
      (if is_tit then [] else [(''relacion_familiar'', CStr (u ''Hijo/a''))])))"
    by (simp add: tipos_proteccion_def)
  then show ?thesis unfolding ctx by (rule py_dict_mid)
qed

lemma get_person_data_field:
  assumes "get_person_data parse df n is_tit = Inr (Some ctx)" "df_find df n = Inr (Some r)"
    and "(k, col) \<in> set person_columns" "df_get df r col = Inr v"
  shows "ctx ((if is_tit then ''titular_'' else ''menor_'') @ k) = Some v"
proof -
  let ?p = "if is_tit then ''titular_'' else ''menor_''"
  obtain r' fecha tipo vals where f: "df_find df n = Inr (Some r')"
    and t: "df_get df r' SITUACION_LEGAL = Inr tipo"
    and v: "exc_list (map (\<lambda>(k, col). df_get df r' col) person_columns) = Inr vals"
    and ctx: "ctx = py_dict
       (zip (map (\<lambda>(k, col). ?p @ k) person_columns) vals @
        [(?p @ ''fecha_nacimiento'', fecha)] @
        map (\<lambda>(k, cats). (k, marcador tipo cats)) tipos_proteccion @
        (if is_tit then [] else [(''relacion_familiar'', CStr (u ''Hijo/a''))]))"
    by (rule get_person_data_Some [OF assms(1)])
  have rr: "r' = r" using f assms(2) by simp
  have all: "list_all2 (\<lambda>x v. (case x of (k, col) \<Rightarrow> df_get df r col) = Inr v) person_columns vals"
    using exc_list_map_all2 [OF v] rr by simp
  obtain w where w: "map_of (zip (map (\<lambda>(k, col). ?p @ k) person_columns) vals) (?p @ k) = Some w"
    and gw: "df_get df r col = Inr w"
    using map_of_zip_all2 [OF person_columns_prefix_inj all assms(3)] by auto
  let ?K = "map (\<lambda>(k, col). ?p @ k) person_columns"
  have "map fst (zip ?K vals) = ?K" using exc_list_length [OF v] by simp
  moreover have "distinct ?K" by (simp add: person_columns_def)
  ultimately have d: "distinct (map fst (zip ?K vals))" by simp
  have "ctx (?p @ k) = py_dict (zip ?K vals) (?p @ k)"
    unfolding ctx py_dict_append [of "zip ?K vals"] by (simp only: person_key_not_later [OF assms(3)] option.case)
  then show ?thesis
    using w gw assms(4) d by (simp add: py_dict_distinct)
qed

text \<open>C7. \<^verbatim>\<open>get_person_data\<close> copies the row as the dict display of lines 413--422
  does: \<^verbatim>\<open>nombre\<close> from \<^verbatim>\<open>NOMBRE\<close>, \<^verbatim>\<open>apellidos\<close> from \<^verbatim>\<open>APELLIDOS\<close>, and so on
  for the eight fields, each under the role prefix, and under the birth-date key a date
  cell printed as \<^verbatim>\<open>dd-mm-YYYY\<close>.\<close>

theorem get_person_data_fields:
  assumes "get_person_data parse df n is_tit = Inr (Some ctx)" "df_find df n = Inr (Some r)"
  shows "(\<forall>(k, col) \<in> set [(''nombre'', NOMBRE), (''apellidos'', APELLIDOS), (''nie'', NUMERO_NIE),
             (''caducidad_nie'', CADUCIDAD_NIE), (''numero_siria_beneficiaria'', SIRIA_BENEFICIARIA),
             (''numero_siria_uc'', SIRIA_UC), (''numero_siria_uf'', SIRIA_TITULAR_UF), (''oar'', EXPEDIENTE_OAR)].
            \<forall>v. df_get df r col = Inr v \<longrightarrow> ctx ((if is_tit then ''titular_'' else ''menor_'') @ k) = Some v) \<and>
         (\<forall>ts. df_get df r FECHA_NACIMIENTO = Inr (CDate ts) \<longrightarrow>
            ctx ((if is_tit then ''titular_'' else ''menor_'') @ ''fecha_nacimiento'') = Some (CStr (fmt_dmy (fst ts))))"
proof (intro conjI allI impI)
  have h: "\<And>k col v. (k, col) \<in> set person_columns \<Longrightarrow> df_get df r col = Inr v \<Longrightarrow>
      ctx ((if is_tit then ''titular_'' else ''menor_'') @ k) = Some v"
    by (rule get_person_data_field [OF assms])
  then show "\<forall>(k, col) \<in> set [(''nombre'', NOMBRE), (''apellidos'', APELLIDOS), (''nie'', NUMERO_NIE),
             (''caducidad_nie'', CADUCIDAD_NIE), (''numero_siria_beneficiaria'', SIRIA_BENEFICIARIA),
             (''numero_siria_uc'', SIRIA_UC), (''numero_siria_uf'', SIRIA_TITULAR_UF), (''oar'', EXPEDIENTE_OAR)].
            \<forall>v. df_get df r col = Inr v \<longrightarrow> ctx ((if is_tit then ''titular_'' else ''menor_'') @ k) = Some v"
    unfolding person_columns_def by blast
next
  fix ts
  assume "df_get df r FECHA_NACIMIENTO = Inr (CDate ts)"
  then show "ctx ((if is_tit then ''titular_'' else ''menor_'') @ ''fecha_nacimiento'') = Some (CStr (fmt_dmy (fst ts)))"
    by (rule get_person_data_fecha [OF assms]) (simp_all add: pd_isna_def to_datetime_def)
qed

text \<open>C8. In the fields \<^verbatim>\<open>get_person_data\<close> returns, exactly one of the six
  protection-status markers is \<^verbatim>\<open>'X'\<close> when the row's legal-status category is one of
  the seven known strings, none when it is not; every marker is \<^verbatim>\<open>'X'\<close> or empty.\<close>

theorem get_person_data_markers:
  assumes "get_person_data parse df n is_tit = Inr (Some ctx)" "df_find df n = Inr (Some r)"
    "df_get df r SITUACION_LEGAL = Inr tipo"
  shows "length (filter (\<lambda>k. ctx k = Some (CStr (u ''X''))) (map fst tipos_proteccion)) =
           (if \<exists>(k, cats) \<in> set tipos_proteccion. \<exists>s \<in> set cats. tipo = CStr s then 1 else 0) \<and>
         (\<forall>k \<in> set (map fst tipos_proteccion). ctx k = Some (CStr (u ''X'')) \<or> ctx k = Some (CStr []))"
proof -
  have eq: "\<And>k cats. (k, cats) \<in> set tipos_proteccion \<Longrightarrow> ctx k = Some (marcador tipo cats)"
    by (rule get_person_data_marker [OF assms])
  have "filter (\<lambda>x. ctx (fst x) = Some (CStr (u ''X''))) tipos_proteccion =
        filter (\<lambda>(k, cats). marcador tipo cats = CStr (u ''X'')) tipos_proteccion"
    by (rule filter_cong) (auto simp: eq)
  then have "length (filter (\<lambda>k. ctx k = Some (CStr (u ''X''))) (map fst tipos_proteccion)) =
        length (filter (\<lambda>(k, cats). marcador tipo cats = CStr (u ''X'')) tipos_proteccion)"
    by (simp add: filter_map comp_def)
  also have "\<dots> = (if \<exists>(k, cats) \<in> set tipos_proteccion. \<exists>s \<in> set cats. tipo = CStr s then 1 else 0)"
    by (rule marcadores_exactly_one)
  finally have L: "length (filter (\<lambda>k. ctx k = Some (CStr (u ''X''))) (map fst tipos_proteccion)) =
        (if \<exists>(k, cats) \<in> set tipos_proteccion. \<exists>s \<in> set cats. tipo = CStr s then 1 else 0)" .
  have B: "\<forall>k \<in> set (map fst tipos_proteccion). ctx k = Some (CStr (u ''X'')) \<or> ctx k = Some (CStr [])"
    using eq marcador_cases by fastforce
  from L B show ?thesis by (rule conjI)
qed

text \<open>C4. Boundary of minority: on the 18th anniversary of the birth date a person is no
  longer a minor; on the day before, they still are.\<close>

theorem is_minor_eighteenth_birthday:
  assumes "df_find df n = Inr (Some r)"
    and "df_get df r FECHA_NACIMIENTO = Inr (CDate ((y - 18, m, d), 0))"
    and "df_get df r SIRIA_TITULAR_UF = Inr tit"
    and "valid_date (y - 18, m, d)" "valid_date (y, m, d)" "2 \<le> d" "int t < ns_per_day"
  shows "is_minor ((y, m, d), t) parse df n = Inr (False, Some (CDate ((y - 18, m, d), 0)), Some tit) \<and>
         is_minor ((y, m, d - 1), t) parse df n = Inr (True, Some (CDate ((y - 18, m, d), 0)), Some tit)"
proof -
  have v1: "valid_ts ((y, m, d), t)" using assms(5,7) by (simp add: valid_ts_def)
  have v2: "valid_ts ((y, m, d - 1), t)" using assms(5,6,7) by (simp add: valid_ts_def valid_date_def) arith
  have n1: "\<not> ((y, m, d), t) < ((y - 18, m, d), 0)" by simp
  have n2: "\<not> ((y, m, d - 1), t) < ((y - 18, m, d), (0::nat))" by simp
  show ?thesis
    using is_minor_found [OF assms(1-3)] calculate_age_date [OF v1 _ n1] calculate_age_date [OF v2 _ n2] assms(4)
      age_years_anniversary [OF assms(5), of t] age_years_eve [OF assms(5,6), of t]
    by (simp add: pd_isna_def EDAD_MAYORIA_def)
qed

lemma astype_str_col_get:
  assumes "astype_str_col col df = Inr df'" "r \<in> set (df_rows df)" "df_get df r col = Inr c"
  shows "\<exists>r' \<in> set (df_rows df'). df_get df' r' col = Inr (CStr (py_str c))"
proof -
  let ?i = "idx_of (df_columns df) col"
  have col: "col \<in> set (df_columns df)" and i: "?i < length r" and c: "r ! ?i = c"
    using assms(3) by (auto simp: df_get_def split: if_splits)
  have df': "df' = df\<lparr>df_rows := map (\<lambda>r. if ?i < length r then r[?i := CStr (py_str (r ! ?i))] else r) (df_rows df)\<rparr>"
    using assms(1) col by (simp add: astype_str_col_def Let_def)
  let ?r' = "r[?i := CStr (py_str c)]"
  have "?r' \<in> set (df_rows df')" using assms(2) i c by (force simp: df')
  moreover have "df_get df' ?r' col = Inr (CStr (py_str c))" using col i by (simp add: df' df_get_def)
  ultimately show ?thesis by blast
qed

text \<open>C26. Loading makes every identifier findable by its Python text: after
  \<^verbatim>\<open>load_excel_file\<close>, the row whose identifier cell is \<open>c\<close> in the sheet is found by
  \<^verbatim>\<open>str(c)\<close>, so a number such as 1001 is found by the text the form yields.\<close>

theorem load_excel_file_text_id:
  assumes "load_excel_file archivo (Some (df0, oculta)) = Inr ses"
    and "r \<in> set (df_rows df0)" "df_get df0 r SIRIA_BENEFICIARIA = Inr c"
  shows "\<exists>r'. df_find (ses_df ses) (py_str c) = Inr (Some r')"
proof -
  obtain df where a: "astype_str_col SIRIA_BENEFICIARIA df0 = Inr df" and ses: "ses_df ses = df"
    using assms(1) by (auto simp: load_excel_file_def split: if_splits sum.splits)
  obtain r' where r': "r' \<in> set (df_rows df)" "df_get df r' SIRIA_BENEFICIARIA = Inr (CStr (py_str c))"
    using astype_str_col_get [OF a assms(2,3)] by auto
  then have "SIRIA_BENEFICIARIA \<in> set (df_columns df)" by (auto simp: df_get_def split: if_splits)
  moreover have "find (\<lambda>r. df_get df r SIRIA_BENEFICIARIA = Inr (CStr (py_str c))) (df_rows df) \<noteq> None"
    using r' by (auto simp: find_None_iff)
  ultimately show ?thesis by (auto simp: df_find_def ses)
qed

theorem is_minor_age_witness:
  "is_minor ((2025, 11, 9), 0) (\<lambda>_. None) example_frame (u ''2002'') =
   Inr (True, Some (CDate ((2015, 3, 4), 0)), Some (CStr (u ''1001'')))"
proof -
  have f: "df_find example_frame (u ''2002'') = Inr (Some (df_rows example_frame ! 1))"
    by (simp add: df_find_def df_get_def example_frame_def example_columns_def)
  have b: "df_get example_frame (df_rows example_frame ! 1) FECHA_NACIMIENTO = Inr (CDate ((2015, 3, 4), 0))"
    by (simp add: df_get_def example_frame_def example_columns_def)
  have t: "df_get example_frame (df_rows example_frame ! 1) SIRIA_TITULAR_UF = Inr (CStr (u ''1001''))"
    by (simp add: df_get_def example_frame_def example_columns_def)
  have v: "valid_ts ((2025, 11, 9), 0)" "valid_date (fst ((2015::int, 3::nat, 4::nat), 0::nat))"
    by (simp_all add: valid_ts_def valid_date_def days_in_month_def ns_per_day_def)
  show ?thesis
    using is_minor_age [OF f b t v] by (simp add: age_years_def)
qed

lemma example_rows:
  "df_find example_frame (u ''2002'') = Inr (Some (df_rows example_frame ! 1))"
  "df_find example_frame (u ''1001'') = Inr (Some (df_rows example_frame ! 0))"
  by (simp_all add: df_find_def df_get_def example_frame_def example_columns_def)

theorem get_person_data_markers_witness:
  "\<exists>ctx. get_person_data (\<lambda>_. None) example_frame (u ''1001'') True = Inr (Some ctx) \<and>
     length (filter (\<lambda>k. ctx k = Some (CStr (u ''X''))) (map fst tipos_proteccion)) = 1"
proof -
  have t: "df_get example_frame (df_rows example_frame ! 0) SITUACION_LEGAL = Inr (CStr (u ''Ap'' @ [225] @ u ''trida''))"
    by (simp add: df_get_def example_frame_def example_columns_def)
  have "\<exists>ctx. get_person_data (\<lambda>_. None) example_frame (u ''1001'') True = Inr (Some ctx)"
    unfolding get_person_data_def example_rows(2)
    by (simp add: df_get_def example_frame_def example_columns_def person_columns_def
        to_datetime_def pd_isna_def)
  then obtain ctx where g: "get_person_data (\<lambda>_. None) example_frame (u ''1001'') True = Inr (Some ctx)" by blast
  have "length (filter (\<lambda>k. ctx k = Some (CStr (u ''X''))) (map fst tipos_proteccion)) = 1"
    using get_person_data_markers [OF g example_rows(2) t] by (simp add: tipos_proteccion_def)
  with g show ?thesis by blast
qed

theorem is_minor_eighteenth_birthday_witness:
  "is_minor ((2033, 3, 4), 0) (\<lambda>_. None) example_frame (u ''2002'') =
     Inr (False, Some (CDate ((2015, 3, 4), 0)), Some (CStr (u ''1001''))) \<and>
   is_minor ((2033, 3, 3), 0) (\<lambda>_. None) example_frame (u ''2002'') =
     Inr (True, Some (CDate ((2015, 3, 4), 0)), Some (CStr (u ''1001'')))"
proof -
  have b: "df_get example_frame (df_rows example_frame ! 1) FECHA_NACIMIENTO = Inr (CDate ((2033 - 18, 3, 4), 0))"
    by (simp add: df_get_def example_frame_def example_columns_def)
  have t: "df_get example_frame (df_rows example_frame ! 1) SIRIA_TITULAR_UF = Inr (CStr (u ''1001''))"
    by (simp add: df_get_def example_frame_def example_columns_def)
  have v: "valid_date (2033 - 18, 3, 4)" "valid_date (2033, 3, 4)" "(2::nat) \<le> 4" "int 0 < ns_per_day"
    by (simp_all add: valid_date_def days_in_month_def ns_per_day_def)
  show ?thesis using is_minor_eighteenth_birthday [OF example_rows(1) b t v] by simp
qed

theorem load_excel_file_text_id_witness:
  "\<exists>ses. load_excel_file (u ''recibos.xlsx'') (Some (example_frame_int_id, example_oculta)) = Inr ses \<and>
     (\<exists>r'. df_find (ses_df ses) (u ''1001'') = Inr (Some r'))"
proof -
  have "\<exists>ses. load_excel_file (u ''recibos.xlsx'') (Some (example_frame_int_id, example_oculta)) = Inr ses"
    by (simp add: load_excel_file_def astype_str_col_def load_professional_values_def iloc_col_def
        example_frame_int_id_def example_frame_def example_columns_def example_oculta_def)
  then obtain ses where l: "load_excel_file (u ''recibos.xlsx'') (Some (example_frame_int_id, example_oculta)) = Inr ses"
    by blast
  have r: "df_rows example_frame_int_id ! 0 \<in> set (df_rows example_frame_int_id)"
    by (simp add: example_frame_int_id_def)
  have g: "df_get example_frame_int_id (df_rows example_frame_int_id ! 0) SIRIA_BENEFICIARIA = Inr (CInt 1001)"
    by (simp add: df_get_def example_frame_int_id_def example_frame_def example_columns_def)
  have p: "py_str (CInt 1001) = u ''1001''"
    by (simp add: py_str_def int_str_def nat_str_def nat_digits.simps)
  show ?thesis using l load_excel_file_text_id [OF l r g] p by auto
qed

theorem get_person_data_fields_witness:
  "\<exists>ctx. get_person_data (\<lambda>_. None) example_frame (u ''2002'') False = Inr (Some ctx) \<and>
     ctx ''menor_nombre'' = Some (CStr (u ''Luis'')) \<and> ctx ''menor_apellidos'' = Some (CStr (u ''Perez'')) \<and>
     ctx ''menor_numero_siria_uf'' = Some (CStr (u ''1001'')) \<and>
     ctx ''menor_fecha_nacimiento'' = Some (CStr (u ''04-03-2015''))"
proof -
  have "\<exists>ctx. get_person_data (\<lambda>_. None) example_frame (u ''2002'') False = Inr (Some ctx)"
    unfolding get_person_data_def example_rows(1)
    by (simp add: df_get_def example_frame_def example_columns_def person_columns_def to_datetime_def pd_isna_def)
  then obtain ctx where g: "get_person_data (\<lambda>_. None) example_frame (u ''2002'') False = Inr (Some ctx)" by blast
  note fields = get_person_data_fields [OF g example_rows(1)]
  have c: "df_get example_frame (df_rows example_frame ! 1) NOMBRE = Inr (CStr (u ''Luis''))"
    "df_get example_frame (df_rows example_frame ! 1) APELLIDOS = Inr (CStr (u ''Perez''))"
    "df_get example_frame (df_rows example_frame ! 1) SIRIA_TITULAR_UF = Inr (CStr (u ''1001''))"
    "df_get example_frame (df_rows example_frame ! 1) FECHA_NACIMIENTO = Inr (CDate ((2015, 3, 4), 0))"
    by (simp_all add: df_get_def example_frame_def example_columns_def)
  have d: "fmt_dmy (2015, 3, 4) = u ''04-03-2015''"
    by (simp add: fmt_dmy_def year_str_def zpad_def nat_str_def nat_digits.simps)
  show ?thesis
    using g fields c d by auto
qed

text \<open>C20. A birth date stored as a plain number (a spreadsheet date serial such as
  45000) is read by \<^verbatim>\<open>pd.to_datetime\<close> as nanoseconds after 1970-01-01, so from 1989
  on the person counts as an adult whatever the serial means.\<close>

theorem is_minor_numeric_birth:
  assumes "df_find df n = Inr (Some r)"
    and "df_get df r FECHA_NACIMIENTO = Inr (CInt k)" "0 \<le> k" "k < ns_per_day"
    and "df_get df r SIRIA_TITULAR_UF = Inr tit"
    and "valid_ts now" "1989 \<le> fst (fst now)"
  shows "is_minor now parse df n = Inr (False, Some (CInt k), Some tit)"
proof -
  obtain y m d t where nw: "now = ((y, m, d), t)" by (metis prod.exhaust)
  have b: "to_datetime parse (CInt k) = Some ((1970, 1, 1), nat k)"
    using ts_of_epoch_ns_first_day [OF assms(3,4)] by (simp add: to_datetime_def)
  have v: "valid_date (fst ((1970::int, 1::nat, 1::nat), nat k))"
    by (simp add: valid_date_def days_in_month_def)
  have nl: "\<not> now < ((1970, 1, 1), nat k)" using assms(7) nw by simp
  have "calculate_age now parse (CDate ((1970, 1, 1), nat k)) = Some (age_years now ((1970, 1, 1), nat k))"
    by (rule calculate_age_date [OF assms(6) v nl])
  then have a: "calculate_age now parse (CInt k) = Some (age_years now ((1970, 1, 1), nat k))"
    using b by (simp add: calculate_age_def to_datetime_def pd_isna_def)
  have "18 \<le> age_years now ((1970, 1, 1), nat k)"
    using assms(7) nw by (simp add: age_years_def)
  then show ?thesis
    using is_minor_found [OF assms(1,2,5)] a by (simp add: pd_isna_def EDAD_MAYORIA_def)
qed

theorem is_minor_numeric_birth_witness:
  "is_minor ((2025, 11, 9), 0) (\<lambda>_. None) example_frame_serial_birth (u ''2002'') =
     Inr (False, Some (CInt 45000), Some (CStr (u ''1001'')))"
proof (rule is_minor_numeric_birth)
  show "df_find example_frame_serial_birth (u ''2002'') = Inr (Some (df_rows example_frame_serial_birth ! 1))"
    by (simp add: df_find_def df_get_def example_frame_serial_birth_def example_frame_def example_columns_def)
  show "df_get example_frame_serial_birth (df_rows example_frame_serial_birth ! 1) FECHA_NACIMIENTO = Inr (CInt 45000)"
    by (simp add: df_get_def example_frame_serial_birth_def example_frame_def example_columns_def)
  show "df_get example_frame_serial_birth (df_rows example_frame_serial_birth ! 1) SIRIA_TITULAR_UF = Inr (CStr (u ''1001''))"
    by (simp add: df_get_def example_frame_serial_birth_def example_frame_def example_columns_def)
qed (simp_all add: valid_ts_def valid_date_def days_in_month_def ns_per_day_def)

lemma astype_str_col_wf:
  assumes "astype_str_col col df0 = Inr df" "wf_df df0"
  shows "wf_df df"
  using assms by (auto simp: astype_str_col_def wf_df_def Let_def split: if_splits)

lemma idx_of_inj: "a \<in> set xs \<Longrightarrow> b \<in> set xs \<Longrightarrow> idx_of xs a = idx_of xs b \<Longrightarrow> a = b"
  by (metis nth_idx_of)

lemma astype_str_col_cell:
  assumes "astype_str_col col df0 = Inr df" "i < length (df_rows df0)"
  shows "df_columns df = df_columns df0" "length (df_rows df) = length (df_rows df0)"
    "df_get df (df_rows df ! i) c =
       (case df_get df0 (df_rows df0 ! i) c of Inl e \<Rightarrow> Inl e | Inr x \<Rightarrow> Inr (if c = col then CStr (py_str x) else x))"
proof -
  let ?cs = "df_columns df0" and ?r = "df_rows df0 ! i"
  have col: "col \<in> set ?cs" using assms(1) by (simp add: astype_str_col_def split: if_splits)
  have df: "df = df0\<lparr>df_rows := map (\<lambda>r. if idx_of ?cs col < length r then r[idx_of ?cs col := CStr (py_str (r ! idx_of ?cs col))] else r) (df_rows df0)\<rparr>"
    using assms(1) col by (simp add: astype_str_col_def Let_def)
  show "df_columns df = df_columns df0" "length (df_rows df) = length (df_rows df0)" by (simp_all add: df)
  have "c \<in> set ?cs \<Longrightarrow> c \<noteq> col \<Longrightarrow> idx_of ?cs c \<noteq> idx_of ?cs col"
    using idx_of_inj [of c ?cs col] col by auto
  then show "df_get df (df_rows df ! i) c =
       (case df_get df0 ?r c of Inl e \<Rightarrow> Inl e | Inr x \<Rightarrow> Inr (if c = col then CStr (py_str x) else x))"
    using assms(2) by (auto simp: df df_get_def nth_list_update)
qed

text \<open>C21. Loading converts exactly the identifier column: the frame
  \<^verbatim>\<open>load_excel_file\<close> stores has the sheet's labels and rows, is well formed when the
  sheet is, and holds in each row the sheet's cells, except that the identifier cell
  \<open>c\<close> is replaced by the text \<^verbatim>\<open>str(c)\<close> (\<^verbatim>\<open>astype(str)\<close>, line 219).\<close>

theorem load_excel_file_cells:
  assumes "load_excel_file archivo (Some (df0, oc)) = Inr ses" "wf_df df0"
  shows "wf_df (ses_df ses) \<and> df_columns (ses_df ses) = df_columns df0 \<and>
         length (df_rows (ses_df ses)) = length (df_rows df0) \<and>
         (\<forall>i < length (df_rows df0). \<forall>c. df_get (ses_df ses) (df_rows (ses_df ses) ! i) c =
            (case df_get df0 (df_rows df0 ! i) c of
               Inl e \<Rightarrow> Inl e
             | Inr x \<Rightarrow> Inr (if c = SIRIA_BENEFICIARIA then CStr (py_str x) else x)))"
proof -
  obtain df where a: "astype_str_col SIRIA_BENEFICIARIA df0 = Inr df" and s: "ses_df ses = df"
    using assms(1) by (auto simp: load_excel_file_def split: if_splits sum.splits)
  have "length (df_rows df) = length (df_rows df0)" "df_columns df = df_columns df0"
    using a by (auto simp: astype_str_col_def Let_def split: if_splits)
  with astype_str_col_wf [OF a assms(2)] astype_str_col_cell(3) [OF a] s show ?thesis by simp
qed

theorem load_excel_file_cells_witness:
  "\<exists>ses. load_excel_file (u ''recibos.xlsx'') (Some (example_frame_int_id, example_oculta)) = Inr ses \<and>
     df_columns (ses_df ses) = example_columns \<and>
     df_get (ses_df ses) (df_rows (ses_df ses) ! 0) SIRIA_BENEFICIARIA = Inr (CStr (u ''1001'')) \<and>
     df_get (ses_df ses) (df_rows (ses_df ses) ! 0) NOMBRE = Inr (CStr (u ''Ana''))"
proof -
  obtain ses where l: "load_excel_file (u ''recibos.xlsx'') (Some (example_frame_int_id, example_oculta)) = Inr ses"
    by (auto simp: load_excel_file_def astype_str_col_def load_professional_values_def iloc_col_def
        example_frame_int_id_def example_frame_def example_columns_def example_oculta_def)
  have w: "wf_df example_frame_int_id"
    by (simp add: wf_df_def example_frame_int_id_def example_frame_def example_columns_def)
  note c = load_excel_file_cells [OF l w]
  have g: "df_get example_frame_int_id (df_rows example_frame_int_id ! 0) SIRIA_BENEFICIARIA = Inr (CInt 1001)"
    "df_get example_frame_int_id (df_rows example_frame_int_id ! 0) NOMBRE = Inr (CStr (u ''Ana''))"
    "0 < length (df_rows example_frame_int_id)" "df_columns example_frame_int_id = example_columns"
    by (simp_all add: df_get_def example_frame_int_id_def example_frame_def example_columns_def)
  have p: "py_str (CInt 1001) = u ''1001''"
    by (simp add: py_str_def int_str_def nat_str_def nat_digits.simps)
  show ?thesis using l c g p by auto
qed

end
