(* ===== verification/Binary64.thy ===== *)
theory Binary64
  imports Complex_Main
begin

text \<open>
  The values of a Python \<^verbatim>\<open>float\<close> (IEEE 754 binary64) and round-to-nearest,
  ties-to-even, the rounding CPython applies in \<^verbatim>\<open>float(str)\<close> (\<^verbatim>\<open>dtoa.c\<close>,
  correctly rounded) and in every arithmetic operation. A finite value is the exact
  rational it denotes. \<open>round_b64\<close> is executable: \<open>log2_floor\<close> finds the binade
  from the bit lengths of numerator and denominator, \<open>b64_quantum\<close> the unit in the last
  place (53 significant bits, and \<open>2\<^sup>-\<^sup>1\<^sup>0\<^sup>7\<^sup>4\<close> for subnormals), and a magnitude
  that rounds to \<open>2\<^sup>1\<^sup>0\<^sup>2\<^sup>4\<close> or more overflows to an infinity (the threshold
  \<open>2\<^sup>1\<^sup>0\<^sup>2\<^sup>4 - 2\<^sup>9\<^sup>7\<^sup>0\<close> of IEEE 754). The sign of zero is not kept: in this
  program a zero only reaches the output as \<^verbatim>\<open>x - x * 0.15\<close> or through a comparison,
  where \<open>-0.0\<close> and \<open>0.0\<close> behave alike.
\<close>

datatype pyfloat = Fin rat | PInf | NInf | NaN

section \<open>Rounding to binary64\<close>

text \<open>Round half to even of a rational to an integer.\<close>

definition round_half_even :: "rat \<Rightarrow> int" where
  "round_half_even x =
     (let f = floor x; d = x - of_int f in
      if d < 1/2 then f else if 1/2 < d then f + 1 else if even f then f else f + 1)"

text \<open>The number of bits of a positive integer.\<close>

function nbits :: "int \<Rightarrow> nat" where
  "nbits n = (if n \<le> 0 then 0 else Suc (nbits (n div 2)))"
  by auto
termination by (relation "measure nat") auto

declare nbits.simps [simp del]

text \<open>\<open>\<lfloor>log\<^sub>2 a\<rfloor>\<close> for a positive rational.\<close>

definition log2_floor :: "rat \<Rightarrow> int" where
  "log2_floor a =
     (case quotient_of a of (p, q) \<Rightarrow>
        let e0 = int (nbits p) - int (nbits q) in
        if 2 powi e0 \<le> a then e0 else e0 - 1)"

definition b64_quantum :: "rat \<Rightarrow> int" where
  "b64_quantum a = max (log2_floor a - 52) (- 1074)"

definition b64_mag :: "rat \<Rightarrow> rat" where
  "b64_mag a = (let k = b64_quantum a in of_int (round_half_even (a / 2 powi k)) * 2 powi k)"

definition b64_overflow :: rat where
  "b64_overflow = 2 ^ 1024"

definition round_b64 :: "rat \<Rightarrow> pyfloat" where
  "round_b64 r =
     (if r = 0 then Fin 0
      else let v = b64_mag \<bar>r\<bar> in
           if v \<noteq> 0 \<and> 1024 \<le> log2_floor v then (if r < 0 then NInf else PInf) else Fin (if r < 0 then - v else v))"

text \<open>The sign change \<^verbatim>\<open>-x\<close>, exact on every value.\<close>

definition neg_float :: "bool \<Rightarrow> pyfloat \<Rightarrow> pyfloat" where
  "neg_float neg x =
     (if neg then (case x of Fin r \<Rightarrow> Fin (- r) | PInf \<Rightarrow> NInf | NInf \<Rightarrow> PInf | NaN \<Rightarrow> NaN) else x)"

text \<open>The values a binary64 can hold: a finite value is one that rounding leaves alone.\<close>

definition is_b64 :: "pyfloat \<Rightarrow> bool" where
  "is_b64 x = (case x of Fin r \<Rightarrow> round_b64 r = Fin r | _ \<Rightarrow> True)"

definition b64_tiny :: rat where
  "b64_tiny = 2 powi (- 1075)"

section \<open>Properties of the rounding\<close>

lemma nbits_bounds: "0 < n \<Longrightarrow> 2 ^ (nbits n - 1) \<le> n \<and> n < 2 ^ nbits n"
proof (induction n rule: nbits.induct)
  case (1 n)
  have s: "nbits n = Suc (nbits (n div 2))" using "1.prems" by (simp add: nbits.simps [of n])
  show ?case
  proof (cases "n div 2 = 0")
    case True
    with "1.prems" have "n = 1" by linarith
    then show ?thesis by (simp add: nbits.simps [of 1] nbits.simps [of 0])
  next
    case False
    then have pos: "0 < n div 2" using "1.prems" by simp
    with "1.IH" "1.prems" have ih: "2 ^ (nbits (n div 2) - 1) \<le> n div 2" "n div 2 < 2 ^ nbits (n div 2)" by auto
    have nz: "nbits (n div 2) \<noteq> 0" using ih(2) pos by (cases "nbits (n div 2)") auto
    have "2 ^ nbits (n div 2) \<le> n"
    proof -
      obtain j where j: "nbits (n div 2) = Suc j" using nz by (cases "nbits (n div 2)") auto
      have "(2::int) ^ Suc j = 2 * 2 ^ j" by simp
      also have "\<dots> \<le> 2 * (n div 2)" using ih(1) j by simp
      also have "\<dots> \<le> n" by simp
      finally show ?thesis using j by simp
    qed
    moreover have "n < 2 ^ Suc (nbits (n div 2))" using ih(2) by simp
    ultimately show ?thesis using s by simp
  qed
qed

lemma pow2_diff: "(2::rat) powi (int x - int y) = 2 ^ x / 2 ^ y"
  by (simp add: power_int_diff)

lemma log2_floor_correct:
  assumes "0 < a"
  shows "2 powi log2_floor a \<le> a \<and> a < 2 powi (log2_floor a + 1)"
proof -
  obtain p q where pq: "quotient_of a = (p, q)" by fastforce
  have q0: "0 < q" by (rule quotient_of_denom_pos [OF pq])
  have a: "a = of_int p / of_int q" by (rule quotient_of_div [OF pq])
  have p0: "0 < p" using assms q0 unfolding a by (simp add: zero_less_divide_iff)
  define bp where "bp = nbits p"
  define bq where "bq = nbits q"
  have P: "2 ^ bp \<le> 2 * (of_int p :: rat)" "of_int p < (2 ^ bp :: rat)"
  proof -
    have b: "2 ^ (bp - 1) \<le> p" "p < 2 ^ bp" using nbits_bounds [of p] p0 by (simp_all add: bp_def)
    have "bp \<noteq> 0" using b(2) p0 by (cases bp) auto
    then have "(2::int) ^ bp = 2 * 2 ^ (bp - 1)" by (cases bp) auto
    then have "2 ^ bp \<le> 2 * p" using b(1) by simp
    then show "2 ^ bp \<le> 2 * (of_int p :: rat)" by (metis of_int_le_iff of_int_mult of_int_numeral of_int_power)
    show "of_int p < (2 ^ bp :: rat)" using b(2) by (metis of_int_less_iff of_int_numeral of_int_power)
  qed
  have Q: "2 ^ bq \<le> 2 * (of_int q :: rat)" "of_int q < (2 ^ bq :: rat)"
  proof -
    have b: "2 ^ (bq - 1) \<le> q" "q < 2 ^ bq" using nbits_bounds [of q] q0 by (simp_all add: bq_def)
    have "bq \<noteq> 0" using b(2) q0 by (cases bq) auto
    then have "(2::int) ^ bq = 2 * 2 ^ (bq - 1)" by (cases bq) auto
    then have "2 ^ bq \<le> 2 * q" using b(1) by simp
    then show "2 ^ bq \<le> 2 * (of_int q :: rat)" by (metis of_int_le_iff of_int_mult of_int_numeral of_int_power)
    show "of_int q < (2 ^ bq :: rat)" using b(2) by (metis of_int_less_iff of_int_numeral of_int_power)
  qed
  define e0 where "e0 = int bp - int bq"
  have E0: "2 powi e0 = (2 ^ bp / 2 ^ bq :: rat)" by (simp add: e0_def pow2_diff)
  have E1: "2 powi (e0 - 1) = (2 ^ bp / (2 * 2 ^ bq) :: rat)"
    by (simp add: power_int_diff E0)
  have E2: "2 powi (e0 + 1) = (2 * 2 ^ bp / 2 ^ bq :: rat)"
    by (simp add: power_int_add E0)
  have qpos: "(0::rat) < of_int q" using q0 by simp
  have ppos: "(0::rat) < of_int p" using p0 by simp
  have k1: "2 ^ bp * of_int q < 2 * 2 ^ bq * (of_int p :: rat)"
  proof -
    have "2 ^ bp * of_int q \<le> 2 * of_int p * (of_int q :: rat)" using P(1) qpos by (simp add: mult_right_mono)
    also have "\<dots> < 2 * of_int p * 2 ^ bq" using Q(2) ppos by simp
    finally show ?thesis by (simp add: algebra_simps)
  qed
  have k2: "of_int p * 2 ^ bq < 2 * 2 ^ bp * (of_int q :: rat)"
  proof -
    have "of_int p * 2 ^ bq < 2 ^ bp * (2 ^ bq :: rat)" using P(2) by simp
    also have "\<dots> \<le> 2 ^ bp * (2 * of_int q)" using Q(1) by simp
    finally show ?thesis by (simp add: algebra_simps)
  qed
  have lo: "2 powi (e0 - 1) < a"
    unfolding E1 a using qpos k1 by (simp add: field_simps)
  have hi: "a < 2 powi (e0 + 1)"
    unfolding E2 a using qpos k2 by (simp add: field_simps)
  have l: "log2_floor a = (if 2 powi e0 \<le> a then e0 else e0 - 1)"
    by (simp add: log2_floor_def pq e0_def bp_def bq_def Let_def)
  show ?thesis
    using lo hi unfolding l by auto
qed

lemma log2_floor_unique:
  assumes "2 powi e \<le> a" "a < 2 powi (e + 1)"
  shows "log2_floor a = e"
proof -
  have a0: "0 < a" using assms(1) zero_less_power_int [of "2 :: rat" e] by linarith
  note c = log2_floor_correct [OF a0]
  have "\<not> log2_floor a < e"
  proof
    assume "log2_floor a < e"
    then have "(2::rat) powi (log2_floor a + 1) \<le> 2 powi e" by (intro power_int_increasing) auto
    then show False using c assms(1) by linarith
  qed
  moreover have "\<not> e < log2_floor a"
  proof
    assume "e < log2_floor a"
    then have "(2::rat) powi (e + 1) \<le> 2 powi log2_floor a" by (intro power_int_increasing) auto
    then show False using c assms(2) by linarith
  qed
  ultimately show ?thesis by linarith
qed

lemma round_half_even_close: "\<bar>of_int (round_half_even y) - y\<bar> \<le> 1 / 2"
proof -
  have f: "of_int (floor y) \<le> y" "y < of_int (floor y) + 1" using floor_correct [of y] by simp_all
  then show ?thesis
    by (auto simp: round_half_even_def Let_def abs_if) (insert f, linarith)
qed

lemma round_half_even_near:
  assumes "\<bar>y - of_int k\<bar> < 1 / 2"
  shows "round_half_even y = k"
proof -
  have "\<bar>of_int (round_half_even y) - of_int k\<bar> < (1 :: rat)"
    using round_half_even_close [of y] assms by linarith
  then show ?thesis by (simp add: abs_less_iff)
qed

lemma round_half_even_int [simp]: "round_half_even (of_int n) = n"
  by (rule round_half_even_near) simp

lemma b64_mag_error:
  assumes "0 < a"
  shows "\<bar>b64_mag a - a\<bar> \<le> a / 2 ^ 53 + 1 / 2 ^ 1075"
proof -
  define k where "k = b64_quantum a"
  define e where "e = log2_floor a"
  have pk: "(0::rat) < 2 powi k" by (rule zero_less_power_int) simp
  have "b64_mag a - a = (of_int (round_half_even (a / 2 powi k)) - a / 2 powi k) * 2 powi k"
    using pk by (simp add: b64_mag_def k_def Let_def algebra_simps)
  then have "\<bar>b64_mag a - a\<bar> \<le> 1 / 2 * 2 powi k"
    using round_half_even_close [of "a / 2 powi k"] pk by (simp add: abs_mult mult_right_mono)
  also have "\<dots> \<le> a / 2 ^ 53 + 1 / 2 ^ 1075"
  proof (cases "k = e - 52")
    case True
    have "(2::rat) powi (e - 52) = 2 powi e / 2 powi 52" by (simp add: power_int_diff)
    then have "1 / 2 * 2 powi k = (2 powi e / 2 ^ 53 :: rat)" using True by simp
    also have "\<dots> \<le> a / 2 ^ 53" using log2_floor_correct [OF assms] by (simp add: e_def divide_right_mono)
    finally show ?thesis by simp
  next
    case False
    then have "k = - 1074" by (simp add: k_def e_def b64_quantum_def max_def split: if_splits)
    then have "1 / 2 * 2 powi k = (1 / 2 ^ 1075 :: rat)" by (simp add: power_int_minus)
    moreover have "0 \<le> a / 2 ^ 53" using assms by simp
    ultimately show ?thesis by simp
  qed
  finally show ?thesis .
qed

lemma round_half_even_nonneg: "0 \<le> y \<Longrightarrow> 0 \<le> round_half_even y"
  by (simp add: round_half_even_def Let_def)

lemma b64_mag_nonneg: "0 \<le> a \<Longrightarrow> 0 \<le> b64_mag a"
  by (simp add: b64_mag_def Let_def round_half_even_nonneg)

lemma pow2_le_cancel: "(2::rat) powi m \<le> 2 powi n \<longleftrightarrow> m \<le> n"
proof
  assume h: "(2::rat) powi m \<le> 2 powi n"
  show "m \<le> n"
  proof (rule ccontr)
    assume "\<not> m \<le> n"
    then have "(2::rat) powi (n + 1) \<le> 2 powi m" by (intro power_int_increasing) auto
    moreover have "(2::rat) powi n < 2 powi (n + 1)" by (simp add: power_int_add)
    ultimately show False using h by linarith
  qed
qed (rule power_int_increasing, simp_all)

lemma b64_mag_exact:
  assumes "0 < mm" "mm \<le> 2 ^ 53" "- 1074 \<le> j"
  shows "b64_mag (of_int mm * 2 powi j) = of_int mm * 2 powi j"
proof -
  define a where "a = (of_int mm * 2 powi j :: rat)"
  have a0: "0 < a" using assms(1) by (simp add: a_def)
  define e where "e = log2_floor a"
  define k where "k = b64_quantum a"
  note c = log2_floor_correct [OF a0, folded e_def]
  have k: "k = max (e - 52) (- 1074)" by (simp add: k_def e_def b64_quantum_def)
  have up: "a \<le> 2 powi (j + 53)"
  proof -
    have "(of_int mm :: rat) \<le> 2 ^ 53" using assms(2) by (metis of_int_le_iff of_int_numeral of_int_power)
    then have "a \<le> 2 ^ 53 * 2 powi j" unfolding a_def by (simp add: mult_right_mono)
    then show ?thesis by (simp add: power_int_add mult.commute)
  qed
  obtain n :: int where n: "a / 2 powi k = of_int n"
  proof (cases "k \<le> j")
    case True
    have "a / 2 powi k = of_int mm * 2 powi (j - k)" by (simp add: a_def power_int_diff)
    also have "\<dots> = of_int (mm * 2 ^ nat (j - k))" using True by (simp add: power_int_def)
    finally show ?thesis by (rule that)
  next
    case False
    then have ke: "k = e - 52" using assms(3) by (simp add: k max_def split: if_splits)
    have "e \<le> j + 53" using c up pow2_le_cancel [of e "j + 53"] by linarith
    moreover have "j + 53 \<le> e" using False ke by simp
    ultimately have "e = j + 53" by simp
    then have "a = 2 powi e" using c up by simp
    then have "a / 2 powi k = 2 ^ 52" using ke by (simp add: power_int_diff)
    then show ?thesis by (intro that [of "2 ^ 52"]) simp
  qed
  have "b64_mag a = of_int n * 2 powi k" by (simp add: b64_mag_def k_def [symmetric] n)
  also have "\<dots> = a" using n by (simp add: divide_eq_eq)
  finally show ?thesis by (simp add: a_def)
qed

lemma b64_overflow_log2:
  assumes "0 \<le> v"
  shows "(v \<noteq> 0 \<and> 1024 \<le> log2_floor v) \<longleftrightarrow> b64_overflow \<le> v"
proof (cases "v = 0")
  case False
  then have v0: "0 < v" using assms by simp
  note c = log2_floor_correct [OF v0]
  have o: "b64_overflow = 2 powi 1024" by (simp add: b64_overflow_def)
  show ?thesis
  proof
    assume "v \<noteq> 0 \<and> 1024 \<le> log2_floor v"
    then have "(2::rat) powi 1024 \<le> 2 powi log2_floor v" using pow2_le_cancel by blast
    then show "b64_overflow \<le> v" using c o by linarith
  next
    assume "b64_overflow \<le> v"
    then have "(2::rat) powi 1024 < 2 powi (log2_floor v + 1)" using c o by linarith
    then have "1024 < log2_floor v + 1" using pow2_le_cancel [of "log2_floor v + 1" 1024] by linarith
    then show "v \<noteq> 0 \<and> 1024 \<le> log2_floor v" using False by simp
  qed
qed (simp add: b64_overflow_def)

lemma round_b64_alt:
  "round_b64 r =
     (if r = 0 then Fin 0
      else let v = b64_mag \<bar>r\<bar> in
           if b64_overflow \<le> v then (if r < 0 then NInf else PInf) else Fin (if r < 0 then - v else v))"
  using b64_overflow_log2 [OF b64_mag_nonneg [of "\<bar>r\<bar>"]] by (simp add: round_b64_def Let_def)

lemma b64_mag_zero [simp]: "b64_mag 0 = 0"
  by (simp add: b64_mag_def Let_def round_half_even_int [of 0, simplified])

lemma b64_mag_error':
  "0 < a \<Longrightarrow> \<bar>b64_mag a - a\<bar> \<le> a / 2 ^ 53 + b64_tiny"
  using b64_mag_error by (simp add: b64_tiny_def power_int_minus)

lemma round_b64_Fin:
  "round_b64 r = Fin v \<Longrightarrow> \<bar>v\<bar> = b64_mag \<bar>r\<bar> \<and> (0 \<le> r \<longrightarrow> 0 \<le> v) \<and> (r \<le> 0 \<longrightarrow> v \<le> 0)"
  using b64_mag_nonneg [of "\<bar>r\<bar>"]
  by (cases "r = 0") (auto simp: round_b64_alt Let_def split: if_splits)

lemma round_b64_error:
  assumes "round_b64 r = Fin v"
  shows "\<bar>v - r\<bar> \<le> \<bar>r\<bar> / 2 ^ 53 + b64_tiny"
proof (cases "r = 0")
  case True
  then show ?thesis using assms by (simp add: round_b64_alt b64_tiny_def)
next
  case False
  note f = round_b64_Fin [OF assms]
  have "\<bar>v - r\<bar> = \<bar>b64_mag \<bar>r\<bar> - \<bar>r\<bar>\<bar>"
    using f False by (cases "0 \<le> r") (auto simp: abs_if split: if_splits)
  also have "\<dots> \<le> \<bar>r\<bar> / 2 ^ 53 + b64_tiny" using False by (intro b64_mag_error') simp
  finally show ?thesis .
qed

lemma b64_tiny_small: "0 < b64_tiny \<and> b64_tiny \<le> 1"
proof -
  have "(2::rat) powi (- 1075) \<le> 2 powi 0" by (rule power_int_increasing) simp_all
  then show ?thesis by (simp add: b64_tiny_def)
qed

lemma b64_tiny_le: "b64_tiny \<le> 1 / 2 ^ 60"
proof -
  have "(2::rat) powi (- 1075) \<le> 2 powi (- 60)" by (rule power_int_increasing) simp_all
  then show ?thesis by (simp add: b64_tiny_def power_int_minus)
qed

lemma round_b64_finite:
  assumes "\<bar>r\<bar> \<le> b64_overflow / 2"
  shows "\<exists>v. round_b64 r = Fin v"
proof (cases "r = 0")
  case False
  have "b64_mag \<bar>r\<bar> - \<bar>r\<bar> \<le> \<bar>r\<bar> / 2 ^ 53 + b64_tiny"
    using b64_mag_error' [of "\<bar>r\<bar>"] False by simp
  moreover have "\<bar>r\<bar> / 2 ^ 53 + b64_tiny < b64_overflow / 2"
  proof -
    have "\<bar>r\<bar> / 2 ^ 53 \<le> b64_overflow / 2 / 2 ^ 53" using assms by (simp add: divide_right_mono)
    moreover have "b64_tiny \<le> 1" using b64_tiny_small by simp
    moreover have "b64_overflow / 2 / 2 ^ 53 + 1 < b64_overflow / 2"
      unfolding b64_overflow_def by simp
    ultimately show ?thesis by linarith
  qed
  ultimately have "b64_mag \<bar>r\<bar> < b64_overflow" using assms by linarith
  then show ?thesis by (simp add: round_b64_alt Let_def)
qed (simp add: round_b64_alt)

lemma round_b64_exact:
  assumes "\<bar>mm\<bar> \<le> 2 ^ 53" "- 1074 \<le> j" "\<bar>of_int mm * 2 powi j\<bar> < b64_overflow"
  shows "round_b64 (of_int mm * 2 powi j) = Fin (of_int mm * 2 powi j)"
proof (cases "mm = 0")
  case False
  have pj: "(0::rat) < 2 powi j" by (rule zero_less_power_int) simp
  have ab: "\<bar>of_int mm * 2 powi j\<bar> = of_int \<bar>mm\<bar> * (2 powi j :: rat)" using pj by (simp add: abs_mult)
  have m: "b64_mag \<bar>of_int mm * 2 powi j\<bar> = \<bar>of_int mm * 2 powi j\<bar>"
    unfolding ab by (rule b64_mag_exact) (use False assms in auto)
  have "of_int mm * 2 powi j \<noteq> (0::rat)" using False pj by simp
  moreover have "(of_int mm * 2 powi j < (0::rat)) = (mm < 0)"
  proof -
    have "of_int mm * 2 powi j < (0::rat)" if "mm < 0" using that pj by (simp add: mult_neg_pos)
    moreover have "0 \<le> of_int mm * (2 powi j :: rat)" if "\<not> mm < 0"
      using that pj by (simp add: mult_nonneg_nonneg)
    ultimately show ?thesis by (cases "mm < 0") (auto simp: not_less)
  qed
  ultimately show ?thesis
    using m assms(3) by (auto simp: round_b64_alt Let_def abs_if split: if_splits)
qed (simp add: round_b64_alt)

lemma round_b64_of_int:
  "\<bar>i\<bar> \<le> 2 ^ 53 \<Longrightarrow> round_b64 (of_int i) = Fin (of_int i)"
proof -
  assume i: "\<bar>i\<bar> \<le> 2 ^ 53"
  have "\<bar>(of_int i :: rat)\<bar> \<le> 2 ^ 53" using i by (metis of_int_abs of_int_le_iff of_int_numeral of_int_power)
  moreover have "(2 ^ 53 :: rat) < b64_overflow" by (simp add: b64_overflow_def)
  ultimately show ?thesis using round_b64_exact [of i 0] i by simp
qed

lemma round_half_even_floor: "round_half_even x = floor x \<or> round_half_even x = floor x + 1"
  by (simp add: round_half_even_def Let_def)

lemma round_half_even_mono:
  assumes "x \<le> y"
  shows "round_half_even x \<le> round_half_even y"
proof (cases "floor x = floor y")
  case True
  have "x - of_int (floor x) \<le> y - of_int (floor y)" using assms True by simp
  then show ?thesis using True by (auto simp: round_half_even_def Let_def)
next
  case False
  then have "floor x < floor y" using floor_mono [OF assms] by simp
  then show ?thesis using round_half_even_floor [of x] round_half_even_floor [of y] by linarith
qed

lemma log2_floor_mono:
  assumes "0 < a" "a \<le> b"
  shows "log2_floor a \<le> log2_floor b"
proof -
  have b0: "0 < b" using assms by simp
  have "(2::rat) powi log2_floor a < 2 powi (log2_floor b + 1)"
    using log2_floor_correct [OF assms(1)] log2_floor_correct [OF b0] assms(2) by linarith
  then have "\<not> log2_floor b + 1 \<le> log2_floor a" using pow2_le_cancel by (meson not_le)
  then show ?thesis by simp
qed

lemma b64_mag_grid:
  assumes "0 < a"
  shows "2 powi log2_floor a \<le> b64_mag a \<or> b64_quantum a = - 1074"
    "b64_mag a \<le> 2 powi (log2_floor a + 1)"
proof -
  define e where "e = log2_floor a"
  define k where "k = b64_quantum a"
  note c = log2_floor_correct [OF assms, folded e_def]
  have pk: "(0::rat) < 2 powi k" by (rule zero_less_power_int) simp
  have mag: "b64_mag a = of_int (round_half_even (a / 2 powi k)) * 2 powi k"
    by (simp add: b64_mag_def k_def Let_def)
  have ak: "a / 2 powi k \<le> 2 powi (e + 1) / 2 powi k" using c pk by (simp add: divide_right_mono)
  have "b64_mag a \<le> 2 powi (e + 1)"
  proof (cases "0 \<le> e + 1 - k")
    case True
    have pw: "(2::rat) powi (e + 1 - k) = of_int (2 ^ nat (e + 1 - k))"
    proof -
      obtain n where n: "e + 1 - k = int n" using True by (metis nonneg_eq_int)
      then show ?thesis by simp
    qed
    have "(2::rat) powi (e + 1) / 2 powi k = 2 powi (e + 1 - k)"
      by (rule power_int_diff [symmetric]) simp
    then have "2 powi (e + 1) / 2 powi k = (of_int (2 ^ nat (e + 1 - k)) :: rat)"
      using pw by simp
    with ak have "round_half_even (a / 2 powi k) \<le> round_half_even (of_int (2 ^ nat (e + 1 - k)))"
      by (intro round_half_even_mono) simp
    then have "round_half_even (a / 2 powi k) \<le> 2 ^ nat (e + 1 - k)"
      by (simp only: round_half_even_int)
    then have "b64_mag a \<le> of_int (2 ^ nat (e + 1 - k)) * 2 powi k"
      unfolding mag using pk by (simp add: mult_right_mono del: of_int_power)
    also have "\<dots> = 2 powi (e + 1 - k) * 2 powi k" using pw by simp
    also have "\<dots> = 2 powi (e + 1 - k + k)" by (rule power_int_add [symmetric]) simp
    also have "\<dots> = 2 powi (e + 1)" by simp
    finally show ?thesis .
  next
    case False
    have "(2::rat) powi (e + 1) / 2 powi k = 2 powi (e + 1 - k)" by (simp add: power_int_diff)
    also have "\<dots> \<le> 2 powi (- 1)" using False by (intro power_int_increasing) simp_all
    also have "\<dots> = 1 / 2" by (simp add: power_int_minus)
    finally have "a / 2 powi k \<le> 1 / 2" using ak by linarith
    then have "round_half_even (a / 2 powi k) \<le> round_half_even (1 / 2)" by (rule round_half_even_mono)
    also have "round_half_even (1 / 2) = 0"
    proof -
      have "floor (1 / 2 :: rat) = 0" by (simp add: floor_eq_iff)
      then show ?thesis by (simp add: round_half_even_def)
    qed
    finally have "b64_mag a \<le> 0" unfolding mag using pk by (simp add: mult_le_0_iff)
    moreover have "(0::rat) \<le> 2 powi (e + 1)" by simp
    ultimately show ?thesis by linarith
  qed
  then show "b64_mag a \<le> 2 powi (log2_floor a + 1)" by (simp add: e_def)
  show "2 powi log2_floor a \<le> b64_mag a \<or> b64_quantum a = - 1074"
  proof (cases "k = e - 52")
    case True
    have "of_int (2 ^ 52) = (2 powi e / 2 powi k :: rat)" using True by (simp add: power_int_diff)
    also have "\<dots> \<le> a / 2 powi k" using c pk by (simp add: divide_right_mono)
    finally have "round_half_even (of_int (2 ^ 52)) \<le> round_half_even (a / 2 powi k)"
      by (rule round_half_even_mono)
    then have "2 ^ 52 \<le> round_half_even (a / 2 powi k)"
      by (simp only: round_half_even_int)
    then have "of_int (2 ^ 52) * 2 powi k \<le> b64_mag a"
      unfolding mag using pk by (simp add: mult_right_mono del: of_int_power)
    moreover have "of_int (2 ^ 52) * 2 powi k = (2 powi e :: rat)" using True by (simp add: power_int_diff)
    ultimately show ?thesis by (simp add: e_def)
  next
    case False
    then show ?thesis by (simp add: k_def e_def b64_quantum_def max_def split: if_splits)
  qed
qed

lemma b64_quantum_mono: "0 < a \<Longrightarrow> a \<le> b \<Longrightarrow> b64_quantum a \<le> b64_quantum b"
  using log2_floor_mono [of a b] by (simp add: b64_quantum_def)

lemma b64_mag_mono:
  assumes "0 \<le> a" "a \<le> b"
  shows "b64_mag a \<le> b64_mag b"
proof (cases "a = 0")
  case True
  then show ?thesis using b64_mag_nonneg assms by simp
next
  case False
  then have a0: "0 < a" using assms(1) by simp
  have b0: "0 < b" using a0 assms(2) by simp
  have kk: "b64_quantum a \<le> b64_quantum b" by (rule b64_quantum_mono [OF a0 assms(2)])
  show ?thesis
  proof (cases "b64_quantum a = b64_quantum b")
    case True
    define k where "k = b64_quantum b"
    have pk: "(0::rat) < 2 powi k" by (rule zero_less_power_int) simp
    have "round_half_even (a / 2 powi k) \<le> round_half_even (b / 2 powi k)"
      using assms(2) pk by (intro round_half_even_mono divide_right_mono) simp_all
    then have "of_int (round_half_even (a / 2 powi k)) * 2 powi k \<le> of_int (round_half_even (b / 2 powi k)) * (2 powi k :: rat)"
      using pk by (simp add: mult_right_mono)
    then show ?thesis using True by (simp add: b64_mag_def Let_def k_def)
  next
    case False
    then have lt: "b64_quantum a < b64_quantum b" using kk by simp
    then have qb: "b64_quantum b \<noteq> - 1074" "log2_floor a < log2_floor b"
      by (auto simp: b64_quantum_def max_def split: if_splits)
    have "b64_mag a \<le> 2 powi (log2_floor a + 1)" by (rule b64_mag_grid(2) [OF a0])
    also have "\<dots> \<le> 2 powi log2_floor b" using qb(2) by (simp add: pow2_le_cancel)
    also have "\<dots> \<le> b64_mag b" using b64_mag_grid(1) [OF b0] qb(1) by simp
    finally show ?thesis .
  qed
qed

lemma round_b64_mono:
  assumes "0 \<le> r" "r \<le> s" "round_b64 r = Fin v" "round_b64 s = Fin w"
  shows "v \<le> w"
proof -
  have v: "v = b64_mag r" using round_b64_Fin [OF assms(3)] assms(1) by auto
  have w: "w = b64_mag s" using round_b64_Fin [OF assms(4)] assms(1,2) by auto
  show ?thesis unfolding v w by (rule b64_mag_mono [OF assms(1,2)])
qed

lemma b64_mag_repr:
  assumes "0 < a"
  shows "\<exists>m j. b64_mag a = of_int m * 2 powi j \<and> 0 \<le> m \<and> m \<le> 2 ^ 53 \<and> - 1074 \<le> j"
proof -
  define e where "e = log2_floor a"
  define k where "k = b64_quantum a"
  note c = log2_floor_correct [OF assms, folded e_def]
  have pk: "(0::rat) < 2 powi k" by (rule zero_less_power_int) simp
  have "a / 2 powi k \<le> 2 powi (e + 1) / 2 powi k" using c pk by (simp add: divide_right_mono)
  also have "\<dots> = 2 powi (e + 1 - k)" by (rule power_int_diff [symmetric]) simp
  also have "\<dots> \<le> 2 powi 53" by (rule power_int_increasing) (simp_all add: k_def e_def b64_quantum_def)
  also have "\<dots> = of_int (2 ^ 53)" by simp
  finally have "round_half_even (a / 2 powi k) \<le> round_half_even (of_int (2 ^ 53))" by (rule round_half_even_mono)
  then have "round_half_even (a / 2 powi k) \<le> 2 ^ 53" by (simp only: round_half_even_int)
  moreover have "0 \<le> round_half_even (a / 2 powi k)" using assms pk by (simp add: round_half_even_nonneg)
  moreover have "- 1074 \<le> k" by (simp add: k_def b64_quantum_def)
  ultimately show ?thesis by (auto simp: b64_mag_def Let_def k_def)
qed

lemma round_b64_idem:
  assumes "round_b64 r = Fin v"
  shows "round_b64 v = Fin v"
proof (cases "r = 0")
  case True
  then show ?thesis using assms by (simp add: round_b64_alt)
next
  case False
  note f = round_b64_Fin [OF assms]
  obtain m j where mj: "b64_mag \<bar>r\<bar> = of_int m * 2 powi j" "0 \<le> m" "m \<le> 2 ^ 53" "- 1074 \<le> j"
    using b64_mag_repr [of "\<bar>r\<bar>"] False by auto
  have lt: "b64_mag \<bar>r\<bar> < b64_overflow"
    using assms False by (auto simp: round_b64_alt Let_def split: if_splits)
  define mm where "mm = (if r < 0 then - m else m)"
  have v: "v = of_int mm * 2 powi j"
    using f mj(1) False by (cases "r < 0") (auto simp: mm_def abs_if split: if_splits)
  have "\<bar>mm\<bar> \<le> 2 ^ 53" using mj(2,3) by (simp add: mm_def)
  moreover have "\<bar>of_int mm * 2 powi j\<bar> < b64_overflow" using lt f v by simp
  ultimately show ?thesis unfolding v by (rule round_b64_exact [OF _ mj(4)])
qed


lemma round_b64_uminus: "round_b64 (- r) = neg_float True (round_b64 r)"
  by (auto simp: round_b64_def Let_def neg_float_def)

lemma is_b64_round: "is_b64 (round_b64 r)"
  by (cases "round_b64 r") (auto simp: is_b64_def intro: round_b64_idem)

lemma is_b64_special [simp]: "is_b64 PInf" "is_b64 NInf" "is_b64 NaN"
  by (simp_all add: is_b64_def)

lemma is_b64_neg: "is_b64 x \<Longrightarrow> is_b64 (neg_float neg x)"
proof (cases x)
  case (Fin r)
  assume "is_b64 x"
  then have r: "round_b64 r = Fin r" using Fin by (simp add: is_b64_def)
  then have "round_b64 (- r) = Fin (- r)" by (simp add: round_b64_uminus neg_float_def)
  then show ?thesis using Fin r by (simp add: is_b64_def neg_float_def)
qed (auto simp: is_b64_def neg_float_def)

lemma round_b64_zero [simp]: "round_b64 0 = Fin 0"
  by (simp add: round_b64_def)

lemma round_b64_of_nat: "n \<le> 2 ^ 53 \<Longrightarrow> round_b64 (of_nat n) = Fin (of_nat n)"
  using round_b64_of_int [of "int n"] by simp

lemma round_b64_numeral [simp]: "numeral n \<le> (2 ^ 53 :: nat) \<Longrightarrow> round_b64 (numeral n) = Fin (numeral n)"
  using round_b64_of_nat [of "numeral n"] by simp

lemma round_b64_one [simp]: "round_b64 1 = Fin 1"
  using round_b64_of_nat [of 1] by simp

end
