(* ===== verification/PyFloat.thy ===== *)
theory PyFloat
  imports Prelude Binary64
begin

text \<open>
  Python's \<^verbatim>\<open>float\<close> as the program uses it on the amount typed in the form:
  \<^verbatim>\<open>float(s)\<close> on a string (lines 450, 529, 580), the comparison with an integer
  maximum (line 451), the copayment arithmetic \<^verbatim>\<open>x * 0.15\<close> and \<^verbatim>\<open>x - copago\<close>
  (lines 530--531, 581) and the format \<^verbatim>\<open>f"{x:.2f}"\<close> (lines 532, 582). Values are
  binary64 (\<open>Binary64\<close>): \<^verbatim>\<open>float(s)\<close> rounds the decimal the string denotes,
  \<^verbatim>\<open>*\<close> and \<^verbatim>\<open>-\<close> round the exact result, and \<^verbatim>\<open>:.2f\<close> prints the exact
  binary value rounded half to even, as CPython's correctly rounded formatting does.
\<close>

section \<open>float(str)\<close>

definition is_digit :: "nat \<Rightarrow> bool" where
  "is_digit c \<longleftrightarrow> 48 \<le> c \<and> c \<le> 57"

text \<open>ASCII lower-casing, for the case-insensitive words \<^verbatim>\<open>inf\<close>, \<^verbatim>\<open>infinity\<close>,
  \<^verbatim>\<open>nan\<close>.\<close>

definition lower_ascii :: "ustr \<Rightarrow> ustr" where
  "lower_ascii s = map (\<lambda>c. if 65 \<le> c \<and> c \<le> 90 then c + 32 else c) s"

text \<open>
  The digits of a run \<open>digit (['_'] digit)*\<close> (PEP 515 underscores between digits)
  and the rest of the input. The run starts at a digit; an underscore not followed by a
  digit ends it.
\<close>

fun dig_run :: "ustr \<Rightarrow> nat list \<times> ustr" where
  "dig_run [] = ([], [])"
| "dig_run (c # cs) =
     (if is_digit c then (case dig_run cs of (ds, r) \<Rightarrow> ((c - 48) # ds, r))
      else if c = 95 \<and> cs \<noteq> [] \<and> is_digit (hd cs) then dig_run cs
      else ([], c # cs))"

definition digitpart :: "ustr \<Rightarrow> (nat list \<times> ustr) option" where
  "digitpart s = (case s of c # _ \<Rightarrow> if is_digit c then Some (dig_run s) else None | [] \<Rightarrow> None)"

definition digits_val :: "nat list \<Rightarrow> nat" where
  "digits_val ds = foldl (\<lambda>acc d. 10 * acc + d) 0 ds"

text \<open>An optional sign: \<open>True\<close> for a minus.\<close>

definition take_sign :: "ustr \<Rightarrow> bool \<times> ustr" where
  "take_sign s = (case s of c # cs \<Rightarrow> if c = 45 then (True, cs) else if c = 43 then (False, cs) else (False, s)
                          | [] \<Rightarrow> (False, []))"

text \<open>The exponent part \<^verbatim>\<open>[eE][+-]?digitpart\<close>, which must end the input.\<close>

definition exponent :: "ustr \<Rightarrow> int option" where
  "exponent s =
     (case s of [] \<Rightarrow> Some 0
      | c # cs \<Rightarrow>
          if c = 101 \<or> c = 69 then
            (case take_sign cs of (neg, r) \<Rightarrow>
              (case digitpart r of
                 Some (ds, []) \<Rightarrow> Some (if neg then - int (digits_val ds) else int (digits_val ds))
               | _ \<Rightarrow> None))
          else None)"

text \<open>\<^verbatim>\<open>digitpart ['.' [digitpart]] | '.' digitpart\<close>: integer digits, fraction digits and
  what follows.\<close>

definition mantissa :: "ustr \<Rightarrow> (nat list \<times> nat list \<times> ustr) option" where
  "mantissa s =
     (case digitpart s of
        Some (ip, r) \<Rightarrow>
          (case r of
             c # r' \<Rightarrow> if c = 46 then
                         (case digitpart r' of Some (fp, r'') \<Rightarrow> Some (ip, fp, r'') | None \<Rightarrow> Some (ip, [], r'))
                       else Some (ip, [], r)
           | [] \<Rightarrow> Some (ip, [], []))
      | None \<Rightarrow>
          (case s of
             c # r \<Rightarrow> if c = 46 then
                        (case digitpart r of Some (fp, r') \<Rightarrow> Some ([], fp, r') | None \<Rightarrow> None)
                      else None
           | [] \<Rightarrow> None))"

text \<open>\<^verbatim>\<open>float(s)\<close>; \<open>None\<close> is the \<^verbatim>\<open>ValueError\<close>.\<close>

definition py_float :: "ustr \<Rightarrow> pyfloat option" where
  "py_float s0 =
     (let s = py_strip s0 in
      case take_sign s of (neg, body) \<Rightarrow>
        if lower_ascii body = u ''inf'' \<or> lower_ascii body = u ''infinity'' then Some (neg_float neg PInf)
        else if lower_ascii body = u ''nan'' then Some NaN
        else (case mantissa body of
          None \<Rightarrow> None
        | Some (ip, fp, r) \<Rightarrow>
            (case exponent r of
               None \<Rightarrow> None
             | Some e \<Rightarrow>
                 Some (neg_float neg (round_b64 (of_nat (digits_val (ip @ fp)) * 10 powi (e - int (length fp))))))))"

section \<open>Arithmetic and comparison\<close>

text \<open>\<^verbatim>\<open>x > m\<close> for an integer \<open>m\<close> (CPython compares float and int exactly).\<close>

definition py_gt_int :: "pyfloat \<Rightarrow> int \<Rightarrow> bool" where
  "py_gt_int x m = (case x of Fin r \<Rightarrow> of_int m < r | PInf \<Rightarrow> True | NInf \<Rightarrow> False | NaN \<Rightarrow> False)"

text \<open>The sign of a value, for the products with an infinity.\<close>

definition float_sign :: "pyfloat \<Rightarrow> int" where
  "float_sign x = (case x of Fin r \<Rightarrow> (if 0 < r then 1 else if r < 0 then - 1 else 0)
                           | PInf \<Rightarrow> 1 | NInf \<Rightarrow> - 1 | NaN \<Rightarrow> 0)"

text \<open>\<^verbatim>\<open>x * y\<close>: the rounded product; an infinity times a zero is NaN.\<close>

definition py_mul :: "pyfloat \<Rightarrow> pyfloat \<Rightarrow> pyfloat" where
  "py_mul x y = (case (x, y) of
      (Fin a, Fin b) \<Rightarrow> round_b64 (a * b)
    | (NaN, _) \<Rightarrow> NaN | (_, NaN) \<Rightarrow> NaN
    | _ \<Rightarrow> (let s = float_sign x * float_sign y in if s = 0 then NaN else if 0 < s then PInf else NInf))"

text \<open>\<^verbatim>\<open>x - y\<close>: the rounded difference; \<open>\<infinity> - \<infinity>\<close> is NaN.\<close>

definition py_sub :: "pyfloat \<Rightarrow> pyfloat \<Rightarrow> pyfloat" where
  "py_sub x y = (case (x, y) of
      (Fin a, Fin b) \<Rightarrow> round_b64 (a - b)
    | (NaN, _) \<Rightarrow> NaN | (_, NaN) \<Rightarrow> NaN
    | (PInf, PInf) \<Rightarrow> NaN | (NInf, NInf) \<Rightarrow> NaN
    | (PInf, _) \<Rightarrow> PInf | (NInf, _) \<Rightarrow> NInf
    | (Fin _, PInf) \<Rightarrow> NInf | (Fin _, NInf) \<Rightarrow> PInf)"

section \<open>Formatting with two decimals\<close>

text \<open>\<^verbatim>\<open>f"{x:.2f}"\<close>: a minus sign for a negative value (also when it rounds to zero),
  the integer part, a point and two decimals; \<^verbatim>\<open>inf\<close>, \<^verbatim>\<open>-inf\<close>, \<^verbatim>\<open>nan\<close>.\<close>

definition format_2f :: "pyfloat \<Rightarrow> ustr" where
  "format_2f x = (case x of
      Fin r \<Rightarrow>
        (let n = nat (round_half_even (\<bar>r\<bar> * 100)) in
         (if r < 0 then u ''-'' else []) @ nat_str (n div 100) @ u ''.'' @ zpad 2 (n mod 100))
    | PInf \<Rightarrow> u ''inf''
    | NInf \<Rightarrow> u ''-inf''
    | NaN \<Rightarrow> u ''nan'')"

text \<open>The two digits \<^verbatim>\<open>zpad 2\<close> prints for a number below 100, used to read
  formatted amounts back.\<close>

definition digits2 :: "nat \<Rightarrow> nat list" where
  "digits2 n = replicate (2 - length (nat_digits n)) 0 @ nat_digits n"

section \<open>Properties\<close>

text \<open>The definitions \<open>simp\<close> unfolds to run the parser and the formatter on a literal.\<close>

lemmas py_float_eval = py_float_def py_strip_def py_isspace_def take_sign_def lower_ascii_def
  mantissa_def digitpart_def is_digit_def exponent_def digits_val_def neg_float_def

lemmas format_2f_eval = format_2f_def round_half_even_def nat_str_def nat_digits.simps zpad_def

lemma dig_run_digits: "\<forall>d \<in> set ds. d < 10 \<Longrightarrow> dig_run (map (\<lambda>d. 48 + d) ds) = (ds, [])"
  by (induction ds) (auto simp: is_digit_def)

lemma digits_val_snoc: "digits_val (xs @ [d]) = 10 * digits_val xs + d"
  by (simp add: digits_val_def)

lemma digits_val_nat_digits: "digits_val (nat_digits n) = n"
proof (induction n rule: nat_digits.induct)
  case (1 n)
  show ?case
  proof (cases "n < 10")
    case True
    then show ?thesis by (simp add: nat_digits.simps [of n] digits_val_def)
  next
    case False
    with "1.IH" show ?thesis by (simp add: nat_digits.simps [of n] digits_val_snoc)
  qed
qed

lemma nat_str_Cons: "\<exists>c cs. nat_str n = c # cs \<and> is_digit c"
proof -
  obtain d ds where "nat_digits n = d # ds" by (cases "nat_digits n") auto
  moreover have "d < 10" using nat_digits_small [of d n] \<open>nat_digits n = d # ds\<close> by simp
  ultimately show ?thesis by (simp add: nat_str_def is_digit_def)
qed

lemma digitpart_nat_str: "digitpart (nat_str n) = Some (nat_digits n, [])"
proof -
  obtain c cs where c: "nat_str n = c # cs" "is_digit c" using nat_str_Cons by blast
  have "dig_run (nat_str n) = (nat_digits n, [])"
    unfolding nat_str_def by (rule dig_run_digits) (auto dest: nat_digits_small)
  with c show ?thesis by (simp add: digitpart_def)
qed

lemma py_strip_nospace:
  assumes "s = c # cs" "\<not> py_isspace c" "\<not> py_isspace (last s)"
  shows "py_strip s = s"
proof -
  have "dropWhile py_isspace s = s" using assms(1,2) by simp
  moreover have "\<not> py_isspace (hd (rev s))" using assms(3) by (metis hd_rev)
  then have "dropWhile py_isspace (rev s) = rev s" by (simp add: dropWhile_eq_self_iff)
  ultimately show ?thesis by (simp add: py_strip_def)
qed

lemma nat_str_last: "\<not> py_isspace (last (nat_str n))"
proof -
  have "last (nat_str n) \<in> set (nat_str n)" by simp
  then show ?thesis using nat_str_digit by (fastforce simp: py_isspace_def)
qed

lemma mantissa_nat_str: "mantissa (nat_str n) = Some (nat_digits n, [], [])"
  by (simp add: mantissa_def digitpart_nat_str)

lemma lower_ascii_nat_str: "lower_ascii (nat_str n) = nat_str n"
  unfolding lower_ascii_def
proof (rule map_idI)
  fix x
  assume "x \<in> set (nat_str n)"
  then have "48 \<le> x \<and> x \<le> 57" by (rule nat_str_digit)
  then show "(if 65 \<le> x \<and> x \<le> 90 then x + 32 else x) = x" by simp
qed

lemma nat_str_not_word: "nat_str n \<noteq> 105 # xs" "nat_str n \<noteq> 110 # xs"
  using nat_str_Cons [of n] by (auto simp: is_digit_def)

lemma neg_float_round: "neg_float True (round_b64 r) = round_b64 (- r)"
  by (simp add: round_b64_uminus)

lemma py_float_of_int_str: "py_float (int_str i) = Some (round_b64 (of_int i))"
proof (cases "i < 0")
  case True
  obtain c cs where c: "nat_str (nat (- i)) = c # cs" "is_digit c" using nat_str_Cons by blast
  have strip: "py_strip (45 # nat_str (nat (- i))) = 45 # nat_str (nat (- i))"
    by (rule py_strip_nospace [OF refl]) (use nat_str_last [of "nat (- i)"] c in \<open>simp_all add: py_isspace_def\<close>)
  have "of_nat (nat (- i)) = (- of_int i :: rat)" using True by simp
  with True show ?thesis
    by (simp add: py_float_def int_str_def strip take_sign_def lower_ascii_nat_str nat_str_not_word
        mantissa_nat_str exponent_def digits_val_nat_digits neg_float_round)
next
  case False
  obtain c cs where c: "nat_str (nat i) = c # cs" "is_digit c" using nat_str_Cons by blast
  have strip: "py_strip (nat_str (nat i)) = nat_str (nat i)"
    by (rule py_strip_nospace [OF c(1)]) (use nat_str_last [of "nat i"] c in \<open>simp_all add: py_isspace_def is_digit_def\<close>)
  have ts: "take_sign (nat_str (nat i)) = (False, nat_str (nat i))"
    using c by (simp add: take_sign_def is_digit_def)
  have "of_nat (nat i) = (of_int i :: rat)" using False by simp
  with False show ?thesis
    by (simp add: py_float_def int_str_def strip ts lower_ascii_nat_str nat_str_not_word
        mantissa_nat_str exponent_def digits_val_nat_digits neg_float_def)
qed

lemma py_float_int_exact: "\<bar>i\<bar> \<le> 2 ^ 53 \<Longrightarrow> py_float (int_str i) = Some (Fin (of_int i))"
  by (simp add: py_float_of_int_str round_b64_of_int)

lemma dig_run_digits_rest:
  assumes "\<forall>d \<in> set ds. d < 10" "r = [] \<or> (\<not> is_digit (hd r) \<and> hd r \<noteq> 95)"
  shows "dig_run (map (\<lambda>d. 48 + d) ds @ r) = (ds, r)"
  using assms
proof (induction ds)
  case Nil
  then show ?case by (cases r) auto
next
  case (Cons d ds)
  then show ?case by (auto simp: is_digit_def)
qed

lemma digits_val_append: "digits_val (xs @ ys) = digits_val xs * 10 ^ length ys + digits_val ys"
proof (induction ys rule: rev_induct)
  case Nil
  then show ?case by (simp add: digits_val_def)
next
  case (snoc y ys)
  then show ?case by (simp add: digits_val_snoc [of "xs @ ys", simplified] digits_val_snoc algebra_simps)
qed

lemma digits_val_zeros: "digits_val (replicate k 0 @ xs) = digits_val xs"
  by (simp add: digits_val_append) (induction k, simp_all add: digits_val_def)

lemma length_nat_digits_100: "n < 100 \<Longrightarrow> length (nat_digits n) \<le> 2"
  by (cases "n < 10") (simp_all add: nat_digits.simps [of n] nat_digits.simps [of "n div 10"])

lemma zpad2_digits2: "zpad 2 n = map (\<lambda>d. 48 + d) (digits2 n)"
  by (simp add: zpad_def digits2_def nat_str_def)

lemma digits2_props:
  assumes "n < 100"
  shows "length (digits2 n) = 2" "digits_val (digits2 n) = n" "\<forall>d \<in> set (digits2 n). d < 10"
  using length_nat_digits_100 [OF assms]
  by (auto simp: digits2_def digits_val_zeros digits_val_nat_digits dest: nat_digits_small)

lemma mantissa_point:
  assumes "\<forall>d \<in> set ds. d < 10" "ds \<noteq> []"
  shows "mantissa (nat_str a @ 46 # map (\<lambda>d. 48 + d) ds) = Some (nat_digits a, ds, [])"
proof -
  have ip: "dig_run (nat_str a @ 46 # map (\<lambda>d. 48 + d) ds) = (nat_digits a, 46 # map (\<lambda>d. 48 + d) ds)"
    unfolding nat_str_def by (rule dig_run_digits_rest) (auto simp: is_digit_def dest: nat_digits_small)
  obtain c cs where c: "nat_str a = c # cs" "is_digit c" using nat_str_Cons by blast
  have "digitpart (map (\<lambda>d. 48 + d) ds) = Some (dig_run (map (\<lambda>d. 48 + d) ds))"
    using assms by (cases ds) (auto simp: digitpart_def is_digit_def simp del: dig_run.simps)
  then have fp: "digitpart (map (\<lambda>d. 48 + d) ds) = Some (ds, [])"
    by (simp only: dig_run_digits [OF assms(1)])
  show ?thesis
    using ip c fp by (simp add: mantissa_def digitpart_def)
qed

lemma py_float_fixed2:
  assumes "b < 100"
  shows "py_float ((if neg then [45] else []) @ nat_str a @ 46 # zpad 2 b) =
         Some (neg_float neg (round_b64 (of_nat (a * 100 + b) / 100)))"
proof -
  let ?s = "nat_str a @ 46 # map (\<lambda>d. 48 + d) (digits2 b)"
  note d2 = digits2_props [OF assms]
  obtain c cs where c: "nat_str a = c # cs" "is_digit c" using nat_str_Cons by blast
  have ne: "digits2 b \<noteq> []" using d2(1) by auto
  have lastd: "last ((if neg then [45] else []) @ ?s) = 48 + last (digits2 b)"
    using ne by (simp add: last_map)
  have "last (digits2 b) < 10" using d2(3) ne by simp
  then have nsl: "\<not> py_isspace (last ((if neg then [45] else []) @ ?s))"
    unfolding lastd by (simp add: py_isspace_def)
  have h: "\<not> py_isspace (hd ((if neg then [45] else []) @ ?s))"
    using c by (simp add: py_isspace_def is_digit_def)
  have strip: "py_strip ((if neg then [45] else []) @ ?s) = (if neg then [45] else []) @ ?s"
    by (rule py_strip_nospace [OF hd_Cons_tl [symmetric] h nsl]) simp
  have ts: "take_sign ((if neg then [45] else []) @ ?s) = (neg, ?s)"
    using c by (auto simp: take_sign_def is_digit_def)
  have low: "lower_ascii ?s = c # lower_ascii (cs @ 46 # map (\<lambda>d. 48 + d) (digits2 b))"
    using c by (simp add: lower_ascii_def is_digit_def)
  have words: "lower_ascii ?s \<noteq> u ''inf''" "lower_ascii ?s \<noteq> u ''infinity''" "lower_ascii ?s \<noteq> u ''nan''"
    using low c(2) by (simp_all add: is_digit_def)
  have m: "mantissa ?s = Some (nat_digits a, digits2 b, [])"
    by (rule mantissa_point [OF d2(3) ne])
  have v: "digits_val (nat_digits a @ digits2 b) = a * 100 + b"
    using d2(1,2) by (simp add: digits_val_append digits_val_nat_digits)
  have p: "(10::rat) powi (0 - int 2) = 1 / 100"
    by (simp add: power_int_def power2_eq_square)
  show ?thesis
    unfolding zpad2_digits2
    using strip ts words m v p
    by (simp add: py_float_def exponent_def d2(1) del: nat_str_ne)
qed

lemma round_half_even_bounds:
  assumes "0 \<le> x"
  shows "0 \<le> round_half_even x" "\<bar>of_int (round_half_even x) - x\<bar> \<le> 1 / 2"
proof -
  have f: "of_int (floor x) \<le> x" "x < of_int (floor x) + 1" using floor_correct [of x] by simp_all
  have "0 \<le> floor x" using assms by simp
  then show "0 \<le> round_half_even x" by (simp add: round_half_even_def Let_def)
  show "\<bar>of_int (round_half_even x) - x\<bar> \<le> 1 / 2"
    using f by (auto simp: round_half_even_def Let_def abs_if) (insert f, linarith)
qed

lemma format_2f_parse:
  "py_float (format_2f (Fin r)) =
   Some (round_b64 ((if r < 0 then - 1 else 1) * (of_int (round_half_even (\<bar>r\<bar> * 100)) / 100)))"
proof -
  define k where "k = round_half_even (\<bar>r\<bar> * 100)"
  have k0: "0 \<le> k" using round_half_even_bounds(1) [of "\<bar>r\<bar> * 100"] by (simp add: k_def)
  define n where "n = nat k"
  have nk: "of_nat n = (of_int k :: rat)" using k0 by (simp add: n_def)
  have fmt: "format_2f (Fin r) = (if r < 0 then [45] else []) @ nat_str (n div 100) @ 46 # zpad 2 (n mod 100)"
    by (simp add: format_2f_def Let_def k_def n_def)
  have "py_float (format_2f (Fin r)) =
        Some (neg_float (r < 0) (round_b64 (of_nat (n div 100 * 100 + n mod 100) / 100)))"
    unfolding fmt by (rule py_float_fixed2) simp
  also have "n div 100 * 100 + n mod 100 = n" by simp
  finally have h: "py_float (format_2f (Fin r)) = Some (neg_float (r < 0) (round_b64 (of_int k / 100)))"
    using nk by simp
  show ?thesis
  proof (cases "r < 0")
    case True
    then show ?thesis using h by (simp add: neg_float_round k_def)
  next
    case False
    then show ?thesis using h by (simp add: neg_float_def k_def)
  qed
qed

lemma py_float_b64: "pred_option is_b64 (py_float s)"
  by (auto simp: py_float_def Let_def is_b64_round is_b64_neg split: prod.split option.split)

text \<open>The literal \<^verbatim>\<open>0.15\<close> is the binary64 just below \<open>0.15\<close>.\<close>

lemma float_015: "round_b64 (15 / 100) = Fin (5404319552844595 / 36028797018963968)"
  by code_simp

lemma round_b64_Fin_bounds:
  assumes "0 \<le> r" "r \<le> 2 ^ 1000"
  shows "\<exists>v. round_b64 r = Fin v \<and> 0 \<le> v \<and> \<bar>v - r\<bar> \<le> r / 2 ^ 53 + b64_tiny"
proof -
  have "\<bar>r\<bar> \<le> b64_overflow / 2" using assms by (simp add: b64_overflow_def)
  then obtain v where v: "round_b64 r = Fin v" using round_b64_finite by blast
  show ?thesis using v round_b64_Fin [OF v] round_b64_error [OF v] assms(1) by auto
qed

text \<open>\<^verbatim>\<open>x - x * 0.15\<close> on a non-negative binary64 \<open>x\<close> up to \<open>2\<^sup>4\<^sup>0\<close>: a
  non-negative binary64 within \<open>x / 2\<^sup>5\<^sup>0\<close> (plus two half-subnormals) of the exact
  \<open>0.85 x\<close>.\<close>

lemma copay_sub_error:
  assumes "0 \<le> x" "x \<le> 2 ^ 40" "round_b64 x = Fin x"
  shows "\<exists>d. py_sub (Fin x) (py_mul (Fin x) (round_b64 (15 / 100))) = Fin d \<and> 0 \<le> d \<and>
             \<bar>d - 85 / 100 * x\<bar> \<le> x / 2 ^ 50 + 2 * b64_tiny"
proof -
  define c :: rat where "c = 5404319552844595 / 36028797018963968"
  have c: "0 \<le> c" "c \<le> 15 / 100" "15 / 100 - c \<le> 15 / 100 / 2 ^ 53" by (simp_all add: c_def)
  have xc: "0 \<le> x * c" "x * c \<le> x" "x * c \<le> 2 ^ 1000"
    using assms(1,2) c by (simp_all add: mult_left_le mult_nonneg_nonneg order_trans [OF mult_left_le])
  obtain p where p: "round_b64 (x * c) = Fin p" "0 \<le> p" "\<bar>p - x * c\<bar> \<le> x * c / 2 ^ 53 + b64_tiny"
    using round_b64_Fin_bounds [OF xc(1,3)] by blast
  have px: "p \<le> x" by (rule round_b64_mono [OF xc(1,2) p(1) assms(3)])
  have xp: "0 \<le> x - p" "x - p \<le> 2 ^ 1000" using px p(2) assms(2) by simp_all
  obtain d where d: "round_b64 (x - p) = Fin d" "0 \<le> d" "\<bar>d - (x - p)\<bar> \<le> (x - p) / 2 ^ 53 + b64_tiny"
    using round_b64_Fin_bounds [OF xp] by blast
  have eq: "py_sub (Fin x) (py_mul (Fin x) (round_b64 (15 / 100))) = Fin d"
  proof -
    have c15: "round_b64 (15 / 100) = Fin c" unfolding c_def by (rule float_015)
    show ?thesis unfolding c15 using p(1) d(1) by (simp add: py_mul_def py_sub_def)
  qed
  have "(x - p) / 2 ^ 53 \<le> x / (2 ^ 53 :: rat)" using p(2) by (simp add: divide_right_mono)
  then have e1: "\<bar>d - (x - p)\<bar> \<le> x / 2 ^ 53 + b64_tiny" using d(3) by linarith
  have "x * c \<le> x * (15 / 100)" using c(2) assms(1) by (rule mult_left_mono)
  then have "x * c / 2 ^ 53 \<le> x * (15 / 100) / (2 ^ 53 :: rat)" by (rule divide_right_mono) simp
  then have e2: "\<bar>p - x * c\<bar> \<le> x * (15 / 100) / 2 ^ 53 + b64_tiny" using p(3) by linarith
  have e3: "\<bar>x * c - 15 / 100 * x\<bar> \<le> x * (15 / 100) / 2 ^ 53"
  proof -
    have nn: "0 \<le> x * (15 / 100 - c)" using assms(1) c(2) by simp
    have "x * c - 15 / 100 * x = - (x * (15 / 100 - c))" by (simp add: algebra_simps)
    then have "\<bar>x * c - 15 / 100 * x\<bar> = x * (15 / 100 - c)" using nn by simp
    also have "\<dots> \<le> x * (15 / 100 / 2 ^ 53)" using c(3) assms(1) by (rule mult_left_mono)
    finally show ?thesis by simp
  qed
  have tri: "\<bar>d - 85 / 100 * x\<bar> \<le> \<bar>d - (x - p)\<bar> + \<bar>p - x * c\<bar> + \<bar>x * c - 15 / 100 * x\<bar>"
  proof -
    have "d - 85 / 100 * x = (d - (x - p)) - (p - x * c) - (x * c - 15 / 100 * x)" by (simp add: algebra_simps)
    moreover have "\<bar>(d - (x - p)) - (p - x * c) - (x * c - 15 / 100 * x)\<bar> \<le>
        \<bar>(d - (x - p)) - (p - x * c)\<bar> + \<bar>x * c - 15 / 100 * x\<bar>" by (rule abs_triangle_ineq4)
    moreover have "\<bar>(d - (x - p)) - (p - x * c)\<bar> \<le> \<bar>d - (x - p)\<bar> + \<bar>p - x * c\<bar>" by (rule abs_triangle_ineq4)
    ultimately show ?thesis by linarith
  qed
  have sum: "x / 2 ^ 53 + x * (15 / 100) / 2 ^ 53 + x * (15 / 100) / 2 ^ 53 \<le> x / (2 ^ 50 :: rat)"
    using assms(1) by (simp add: field_simps)
  have "\<bar>d - 85 / 100 * x\<bar> \<le> x / 2 ^ 50 + 2 * b64_tiny" using tri e1 e2 e3 sum by linarith
  then show ?thesis using eq d(2) by blast
qed

lemma format_2f_Fin_eq:
  "0 \<le> r \<Longrightarrow> 0 \<le> s \<Longrightarrow> round_half_even (r * 100) = round_half_even (s * 100) \<Longrightarrow>
   format_2f (Fin r) = format_2f (Fin s)"
  by (simp add: format_2f_def)

lemma format_2f_reparse:
  assumes "0 \<le> d" "d \<le> 2 ^ 40"
  shows "\<exists>q. py_float (format_2f (Fin d)) = Some (Fin q) \<and> 0 \<le> q \<and>
             \<bar>q - d\<bar> \<le> 1 / 200 + (d + 1) / 2 ^ 53 + b64_tiny"
proof -
  define k where "k = round_half_even (d * 100)"
  have k: "0 \<le> k" "\<bar>of_int k - d * 100\<bar> \<le> 1 / 2"
    using round_half_even_bounds [of "d * 100"] assms(1) by (simp_all add: k_def)
  have kd: "\<bar>of_int k / 100 - d\<bar> \<le> 1 / 200"
  proof -
    have e: "of_int k / 100 - d = (of_int k - d * 100) / 100" by (simp add: field_simps)
    show ?thesis unfolding e abs_divide using k(2) by simp
  qed
  have p: "py_float (format_2f (Fin d)) = Some (round_b64 (of_int k / 100))"
    using assms(1) by (simp add: format_2f_parse k_def)
  have big: "(2::rat) ^ 40 + 1 \<le> 2 ^ 1000" by simp
  have r: "0 \<le> of_int k / (100 :: rat)" "of_int k / 100 \<le> (2 ^ 1000 :: rat)"
  proof -
    show "0 \<le> of_int k / (100 :: rat)" using k(1) by simp
    have "of_int k / 100 - d \<le> 1 / 200" using kd by (simp only: abs_le_iff)
    then show "of_int k / 100 \<le> (2 ^ 1000 :: rat)" using assms(2) big by linarith
  qed
  have kle: "of_int k / 100 \<le> d + 1"
  proof -
    have "of_int k / 100 - d \<le> 1 / 200" using kd by (simp only: abs_le_iff)
    then show ?thesis by linarith
  qed
  obtain q where q: "round_b64 (of_int k / 100) = Fin q" "0 \<le> q" "\<bar>q - of_int k / 100\<bar> \<le> of_int k / 100 / 2 ^ 53 + b64_tiny"
    using round_b64_Fin_bounds [OF r] by blast
  have "of_int k / 100 / 2 ^ 53 \<le> (d + 1) / (2 ^ 53 :: rat)"
    using kle by (intro divide_right_mono) simp_all
  then have "\<bar>q - d\<bar> \<le> 1 / 200 + (d + 1) / 2 ^ 53 + b64_tiny" using q(3) kd by linarith
  then show ?thesis using p q(1,2) by auto
qed

end
