(* ===== verification/Form.thy ===== *)
theory Form
  imports Catalog PyFloat
begin

text \<open>
  The form of \<^verbatim>\<open>create_input_fields\<close> (lines 280--345) as a record of widget values,
  and the handlers that read or change it: \<^verbatim>\<open>validate_input\<close> (440--456),
  \<^verbatim>\<open>calculate_copago\<close> (573--588), \<^verbatim>\<open>update_cuantia\<close> (590--601),
  \<^verbatim>\<open>set_max_cuantia\<close> (603--613) and the copayment step of
  \<^verbatim>\<open>generate_document\<close> (525--536). The user's actions on the widgets, with the
  handler Tk runs for each (the \<^verbatim>\<open><KeyRelease>\<close> and \<^verbatim>\<open><<ComboboxSelected>>\<close>
  bindings, the \<^verbatim>\<open>M\<acute>aximo\<close> button), form the step relation \<open>form_step\<close>.
\<close>

record form =
  numero_siria_entry :: ustr
  codigo_ayuda :: string
  cuantia_entry :: ustr
  profesional :: ustr
  payment_method :: string
  copago_label :: ustr

datatype validation_error = MissingData | AmountTooHigh string int | InvalidAmount

text \<open>\<^verbatim>\<open>self.cuantia_ayuda_entry.get().replace(',', '.')\<close>.\<close>

definition cuantia_str :: "form \<Rightarrow> ustr" where
  "cuantia_str f = py_replace1 44 46 (cuantia_entry f)"

text \<open>
  \<^verbatim>\<open>validate_input\<close>: all three fields present, the amount parses, and it does not
  exceed the code's maximum when the code has one. \<open>Inr ()\<close> is \<^verbatim>\<open>(True, "")\<close>.
\<close>

definition validate_input :: "form \<Rightarrow> validation_error + unit" where
  "validate_input f =
     (if numero_siria_entry f = [] \<or> codigo_ayuda f = [] \<or> cuantia_str f = [] then Inl MissingData
      else case py_float (cuantia_str f) of
        None \<Rightarrow> Inl InvalidAmount
      | Some x \<Rightarrow>
          (case maximo (codigo_ayuda f) of
             Some m \<Rightarrow> if py_gt_int x m then Inl (AmountTooHigh (codigo_ayuda f) m) else Inr ()
           | None \<Rightarrow> Inr ()))"

text \<open>\<^verbatim>\<open>copago = cuantia * 0.15\<close>; the literal \<^verbatim>\<open>0.15\<close> is itself the binary64
  nearest to \<open>0.15\<close>.\<close>

definition copago_15 :: "pyfloat \<Rightarrow> pyfloat" where
  "copago_15 x = py_mul x (round_b64 (15 / 100))"

text \<open>The label \<^verbatim>\<open>calculate_copago\<close> shows: the copayment for the two copay codes
  (empty when the amount does not parse), the aid's description otherwise.\<close>

definition calculate_copago_label :: "form \<Rightarrow> ustr" where
  "calculate_copago_label f =
     (if codigo_ayuda f \<in> set copago_codes then
        (case py_float (cuantia_str f) of
           None \<Rightarrow> []
         | Some x \<Rightarrow> u ''Copago (15%): '' @ format_2f (copago_15 x) @ [8364] @ u ''. Introduce total factura.'')
      else (case descripcion (codigo_ayuda f) of None \<Rightarrow> [] | Some d \<Rightarrow> d))"

definition calculate_copago :: "form \<Rightarrow> form" where
  "calculate_copago f = f\<lparr>copago_label := calculate_copago_label f\<rparr>"

text \<open>\<^verbatim>\<open>context['cuantia']\<close> as \<^verbatim>\<open>generate_document\<close> sets it: for a copay code
  the amount less 15\%, with two decimals; otherwise, or when the amount does not parse,
  the entry's text as typed.\<close>

definition cuantia_final :: "form \<Rightarrow> ustr" where
  "cuantia_final f =
     (if codigo_ayuda f \<in> set copago_codes then
        (case py_float (cuantia_str f) of
           None \<Rightarrow> cuantia_entry f
         | Some x \<Rightarrow> format_2f (py_sub x (copago_15 x)))
      else cuantia_entry f)"

text \<open>\<^verbatim>\<open>set_max_cuantia\<close>: for a code with a maximum, write it into the amount entry
  (Tk renders the int with \<^verbatim>\<open>str\<close>) and refresh the label; otherwise nothing.\<close>

definition set_max_cuantia :: "form \<Rightarrow> form" where
  "set_max_cuantia f =
     (case maximo (codigo_ayuda f) of
        Some m \<Rightarrow> calculate_copago (f\<lparr>cuantia_entry := int_str m\<rparr>)
      | None \<Rightarrow> f)"

text \<open>\<^verbatim>\<open>update_cuantia\<close>: the predefined amount of the code, or an empty entry. The
  source defines it but binds it to no widget.\<close>

definition update_cuantia :: "form \<Rightarrow> form" where
  "update_cuantia f =
     (case cuantia_predefinida (codigo_ayuda f) of
        Some v \<Rightarrow> f\<lparr>cuantia_entry := int_str v\<rparr>
      | None \<Rightarrow> f\<lparr>cuantia_entry := []\<rparr>)"

text \<open>The form after \<^verbatim>\<open>init_ui\<close>: first code selected, empty entries, payment
  \<^verbatim>\<open>"Efectivo"\<close>, no professional chosen, and the label of \<^verbatim>\<open>calculate_copago()\<close>.\<close>

definition form_init :: form where
  "form_init = calculate_copago
     \<lparr>numero_siria_entry = [], codigo_ayuda = codigo_default, cuantia_entry = [],
      profesional = [], payment_method = ''Efectivo'', copago_label = []\<rparr>"

text \<open>
  One user action and the handler it triggers. \<open>profs\<close> are the values of the
  professional combobox (\<^verbatim>\<open>valores_combined\<close> as Tk shows them). Typing in the amount
  entry fires \<^verbatim>\<open><KeyRelease>\<close>, hence \<^verbatim>\<open>calculate_copago\<close>; choosing a code fires
  \<^verbatim>\<open><<ComboboxSelected>>\<close>; both comboboxes are read-only.
\<close>

inductive form_step :: "ustr list \<Rightarrow> form \<Rightarrow> form \<Rightarrow> bool" for profs where
  type_siria: "form_step profs f (f\<lparr>numero_siria_entry := s\<rparr>)"
| type_cuantia: "form_step profs f (calculate_copago (f\<lparr>cuantia_entry := s\<rparr>))"
| select_codigo: "c \<in> set codigo_values \<Longrightarrow> form_step profs f (calculate_copago (f\<lparr>codigo_ayuda := c\<rparr>))"
| press_maximo: "form_step profs f (set_max_cuantia f)"
| select_profesional: "p \<in> set profs \<Longrightarrow> form_step profs f (f\<lparr>profesional := p\<rparr>)"
| select_pago: "m \<in> {''Efectivo'', ''Banco''} \<Longrightarrow> form_step profs f (f\<lparr>payment_method := m\<rparr>)"

inductive form_reachable :: "ustr list \<Rightarrow> form \<Rightarrow> bool" for profs where
  init: "form_reachable profs form_init"
| step: "form_reachable profs f \<Longrightarrow> form_step profs f g \<Longrightarrow> form_reachable profs g"

text \<open>What every reachable form satisfies: a code from the combobox, one of the two
  payment methods, a listed professional or none, and a label in step with the fields.\<close>

definition form_inv :: "ustr list \<Rightarrow> form \<Rightarrow> bool" where
  "form_inv profs f \<longleftrightarrow>
     codigo_ayuda f \<in> set codigo_values \<and> payment_method f \<in> {''Efectivo'', ''Banco''} \<and>
     (profesional f = [] \<or> profesional f \<in> set profs) \<and>
     copago_label f = calculate_copago_label f"

inductive_cases form_step_cases: "form_step profs f g"

section \<open>Properties\<close>

lemma calculate_copago_label_upd [simp]:
  "calculate_copago_label (f\<lparr>copago_label := x\<rparr>) = calculate_copago_label f"
  "calculate_copago_label (f\<lparr>numero_siria_entry := s\<rparr>) = calculate_copago_label f"
  "calculate_copago_label (f\<lparr>profesional := p\<rparr>) = calculate_copago_label f"
  "calculate_copago_label (f\<lparr>payment_method := m\<rparr>) = calculate_copago_label f"
  by (simp_all add: calculate_copago_label_def cuantia_str_def)

lemma calculate_copago_fields [simp]:
  "codigo_ayuda (calculate_copago f) = codigo_ayuda f"
  "payment_method (calculate_copago f) = payment_method f"
  "profesional (calculate_copago f) = profesional f"
  "numero_siria_entry (calculate_copago f) = numero_siria_entry f"
  "cuantia_entry (calculate_copago f) = cuantia_entry f"
  "copago_label (calculate_copago f) = calculate_copago_label f"
  by (simp_all add: calculate_copago_def)

lemma calculate_copago_label_idem [simp]:
  "calculate_copago_label (calculate_copago f) = calculate_copago_label f"
  by (simp add: calculate_copago_def)

lemma set_max_cuantia_fields:
  "codigo_ayuda (set_max_cuantia f) = codigo_ayuda f \<and>
   payment_method (set_max_cuantia f) = payment_method f \<and>
   profesional (set_max_cuantia f) = profesional f \<and>
   numero_siria_entry (set_max_cuantia f) = numero_siria_entry f"
  by (simp add: set_max_cuantia_def split: option.split)

lemma set_max_cuantia_label:
  "copago_label f = calculate_copago_label f \<Longrightarrow>
   copago_label (set_max_cuantia f) = calculate_copago_label (set_max_cuantia f)"
  by (simp add: set_max_cuantia_def split: option.split)

lemma form_inv_init: "form_inv profs form_init"
  by (simp add: form_inv_def form_init_def codigo_default_def codigo_values_eq
        codigos_ayuda_descripcion_def)

lemma form_step_inv: "form_step profs f g \<Longrightarrow> form_inv profs f \<Longrightarrow> form_inv profs g"
proof (induction rule: form_step.induct)
  case (press_maximo f)
  then show ?case using set_max_cuantia_fields [of f] set_max_cuantia_label [of f]
    by (simp add: form_inv_def)
qed (auto simp: form_inv_def)

lemma form_reachable_form_inv: "form_reachable profs f \<Longrightarrow> form_inv profs f"
proof (induction rule: form_reachable.induct)
  case init
  show ?case by (rule form_inv_init)
next
  case (step f g)
  then show ?case by (blast intro: form_step_inv)
qed

text \<open>C23. Every form the user can reach from the window's initial state by typing, choosing
  from the comboboxes and pressing \<^verbatim>\<open>M\<acute>aximo\<close> keeps a code of the catalog, one of the two
  payment methods, a listed professional or none, and a copayment label equal to what
  \<^verbatim>\<open>calculate_copago\<close> computes from the current fields.\<close>

theorem form_reachable_inv: "form_reachable profs f \<Longrightarrow> form_inv profs f"
  by (rule form_reachable_form_inv)

lemma maximo_nonempty_key: "maximo c = Some m \<Longrightarrow> c \<noteq> []"
  by (auto simp: catalog_map_of maximos_ayuda_def)

lemma int_str_no_comma: "44 \<notin> set (int_str i)"
  unfolding int_str_def by (auto dest: nat_str_digit)

lemma maximo_le: "maximo c = Some m \<Longrightarrow> m \<le> 10000"
  by (auto simp: catalog_map_of maximos_ayuda_def split: if_splits)

lemma int_str_ne: "int_str i \<noteq> []"
  by (simp add: int_str_def)

text \<open>C24. After \<^verbatim>\<open>M\<acute>aximo\<close> on a code with a maximum and a non-empty SIRIA number,
  \<^verbatim>\<open>validate_input\<close> accepts the form: the amount written is the maximum, which parses
  back to itself and does not exceed itself.\<close>

theorem set_max_cuantia_valid:
  assumes "numero_siria_entry f \<noteq> []" "maximo (codigo_ayuda f) = Some m"
  shows "validate_input (set_max_cuantia f) = Inr ()"
proof -
  have s: "cuantia_str (set_max_cuantia f) = int_str m"
    using assms(2) by (simp add: set_max_cuantia_def cuantia_str_def py_replace1_id int_str_no_comma)
  have k: "codigo_ayuda f \<noteq> []" using assms(2) by (rule maximo_nonempty_key)
  show ?thesis
    using assms set_max_cuantia_fields [of f] k maximo_pos [OF assms(2)] maximo_le [OF assms(2)]
    by (simp add: validate_input_def s int_str_ne py_float_int_exact py_gt_int_def)
qed

text \<open>C5. For a code with a maximum \<open>m\<close> and an amount that parses to the finite value
  \<open>x\<close>, \<^verbatim>\<open>validate_input\<close> accepts exactly when \<open>x \<le> m\<close>, and otherwise reports
  the code and its maximum; equality with the maximum is accepted.\<close>

theorem validate_input_maximo:
  assumes "numero_siria_entry f \<noteq> []" "cuantia_str f \<noteq> []"
    and "maximo (codigo_ayuda f) = Some m" "py_float (cuantia_str f) = Some (Fin x)"
  shows "validate_input f = (if x \<le> of_int m then Inr () else Inl (AmountTooHigh (codigo_ayuda f) m))"
  using assms maximo_nonempty_key [OF assms(3)]
  by (auto simp: validate_input_def py_gt_int_def)

lemma py_mul_Fin: "py_mul (Fin a) (Fin b) = round_b64 (a * b)"
  by (simp add: py_mul_def)

lemma py_sub_Fin: "py_sub (Fin a) (Fin b) = round_b64 (a - b)"
  by (simp add: py_sub_def)

lemma copago_15_Fin: "copago_15 (Fin x) = round_b64 (x * (5404319552844595 / 36028797018963968))"
  unfolding copago_15_def float_015 by (rule py_mul_Fin)

lemma cuantia_final_Fin:
  "codigo_ayuda f \<in> set copago_codes \<Longrightarrow> py_float (cuantia_str f) = Some (Fin x) \<Longrightarrow>
   cuantia_final f = format_2f (py_sub (Fin x) (copago_15 (Fin x)))"
  by (simp add: cuantia_final_def)

lemma cuantia_final_copay:
  assumes "codigo_ayuda f \<in> set copago_codes" "py_float (cuantia_str f) = Some (Fin x)" "0 \<le> x" "x \<le> 2 ^ 40"
  shows "\<exists>d. cuantia_final f = format_2f (Fin d) \<and> 0 \<le> d \<and> \<bar>d - 85 / 100 * x\<bar> \<le> x / 2 ^ 50 + 2 * b64_tiny"
proof -
  have "round_b64 x = Fin x" using py_float_b64 [of "cuantia_str f"] assms(2) by (simp add: is_b64_def)
  then obtain d where "py_sub (Fin x) (py_mul (Fin x) (round_b64 (15 / 100))) = Fin d" "0 \<le> d"
      "\<bar>d - 85 / 100 * x\<bar> \<le> x / 2 ^ 50 + 2 * b64_tiny"
    using copay_sub_error [OF assms(3,4)] by blast
  then show ?thesis using assms(1,2) by (auto simp: cuantia_final_def copago_15_def)
qed

lemma cuantia_final_int:
  assumes "py_float (cuantia_str f) = Some (Fin (of_int n))" "0 \<le> n" "n \<le> 2 ^ 40"
  shows "cuantia_final f = (if codigo_ayuda f \<in> set copago_codes then format_2f (Fin (of_int n * 85 / 100))
                           else cuantia_entry f)"
proof (cases "codigo_ayuda f \<in> set copago_codes")
  case True
  have x1: "0 \<le> (of_int n :: rat)" using assms(2) by simp
  have x2: "(of_int n :: rat) \<le> 2 ^ 40" using assms(3) by (metis of_int_le_iff of_int_numeral of_int_power)
  note x = x1 x2
  obtain d where d: "cuantia_final f = format_2f (Fin d)" "0 \<le> d"
      "\<bar>d - 85 / 100 * of_int n\<bar> \<le> of_int n / 2 ^ 50 + 2 * b64_tiny"
    using cuantia_final_copay [OF True assms(1) x] by blast
  have "\<bar>d * 100 - of_int (85 * n)\<bar> < 1 / 2"
  proof -
    have e: "d * 100 - of_int (85 * n) = (d - 85 / 100 * of_int n) * 100" by (simp add: algebra_simps)
    have "of_int n / 2 ^ 50 \<le> (2 ^ 40 / 2 ^ 50 :: rat)" using x(2) by (simp add: divide_right_mono)
    moreover have "b64_tiny \<le> 1 / 1000" by (rule order_trans [OF b64_tiny_le]) simp
    ultimately have "\<bar>d - 85 / 100 * of_int n\<bar> < 1 / 200" using d(3) by simp
    then show ?thesis unfolding e abs_mult by simp
  qed
  then have "round_half_even (d * 100) = 85 * n" by (rule round_half_even_near)
  moreover have "round_half_even (of_int n * 85 / 100 * 100) = 85 * n"
  proof -
    have "(of_int n * 85 / 100 * 100 :: rat) = of_int (85 * n)" by simp
    then show ?thesis by (simp only: round_half_even_int)
  qed
  ultimately have "format_2f (Fin d) = format_2f (Fin (of_int n * 85 / 100))"
    using d(2) x(1) by (intro format_2f_Fin_eq) simp_all
  then show ?thesis using d(1) True by simp
qed (simp add: cuantia_final_def)

text \<open>C6. The amount written into the receipt: for the copay codes \<^verbatim>\<open>ATSANGA\<close> and
  \<^verbatim>\<open>ATSANTDE\<close> and a whole amount \<open>n\<close> (such as every maximum) it is exactly 85\%
  of \<open>n\<close> with two decimals, the binary64 error of \<^verbatim>\<open>x - x * 0.15\<close> never reaching
  the printed cents; for every other code it is the entry's text unchanged.\<close>

theorem cuantia_final_copago:
  assumes "py_float (cuantia_str f) = Some (Fin (of_int n))" "0 \<le> n" "n \<le> 2 ^ 40"
  shows "cuantia_final f = (if codigo_ayuda f \<in> set copago_codes then format_2f (Fin (of_int n * 85 / 100))
                           else cuantia_entry f)"
  using assms by (rule cuantia_final_int)

lemma validate_input_ok:
  assumes "numero_siria_entry f \<noteq> []" "codigo_ayuda f \<noteq> []" "cuantia_str f \<noteq> []"
    and "py_float (cuantia_str f) = Some x" "\<And>m. maximo (codigo_ayuda f) = Some m \<Longrightarrow> \<not> py_gt_int x m"
  shows "validate_input f = Inr ()"
  using assms by (simp add: validate_input_def split: option.split)

lemma py_float_nan_neg1: "py_float (u ''nan'') = Some NaN" "py_float (u ''-1'') = Some (Fin (- 1))"
  by (simp_all add: py_float_eval)

text \<open>C25. \<^verbatim>\<open>validate_input\<close> accepts the amount \<^verbatim>\<open>nan\<close> and a negative amount
  such as \<^verbatim>\<open>-1\<close> for every code, although the specification asks for a positive amount:
  \<^verbatim>\<open>float\<close> parses them and neither exceeds a (positive) maximum.\<close>

theorem validate_input_accepts_nan_and_negative:
  assumes "numero_siria_entry f \<noteq> []" "codigo_ayuda f \<noteq> []"
    and "cuantia_entry f = u ''nan'' \<or> cuantia_entry f = u ''-1''"
  shows "validate_input f = Inr ()"
proof -
  have s: "cuantia_str f = cuantia_entry f" using assms(3) by (auto simp: cuantia_str_def py_replace1_def)
  show ?thesis
  proof (rule validate_input_ok [OF assms(1,2)])
    show "cuantia_str f \<noteq> []" using assms(3) s by auto
    show "py_float (cuantia_str f) = Some (if cuantia_entry f = u ''nan'' then NaN else Fin (- 1))"
      using assms(3) s py_float_nan_neg1 by auto
    fix m
    assume "maximo (codigo_ayuda f) = Some m"
    then have "0 < m" by (rule maximo_pos)
    then show "\<not> py_gt_int (if cuantia_entry f = u ''nan'' then NaN else Fin (- 1)) m"
      by (simp add: py_gt_int_def)
  qed
qed

text \<open>With a copay code and the amount \<^verbatim>\<open>nan\<close>, which validation accepts, the
  receipt's amount is the text \<^verbatim>\<open>nan\<close>.\<close>

theorem cuantia_final_nan:
  "codigo_ayuda f \<in> set copago_codes \<Longrightarrow> cuantia_entry f = u ''nan'' \<Longrightarrow> cuantia_final f = u ''nan''"
  by (simp add: cuantia_final_def cuantia_str_def py_replace1_def py_float_eval copago_15_def py_mul_def py_sub_def format_2f_def)

lemma validate_input_le_maximo:
  "validate_input f = Inr () \<Longrightarrow> py_float (cuantia_str f) = Some (Fin x) \<Longrightarrow>
   maximo (codigo_ayuda f) = Some m \<Longrightarrow> x \<le> of_int m"
  by (auto simp: validate_input_def py_gt_int_def split: if_splits)

text \<open>C12. Bounds of the receipt amount for a copay code: for an accepted non-negative
  amount \<open>x\<close>, the two-decimal text written into the receipt reads back as a value
  within half a cent (and \<open>10\<^sup>-\<^sup>9\<close> of binary64 error) of \<open>0.85 x\<close>, never
  negative and never above 85\% of the code's maximum by more than that.\<close>

theorem cuantia_final_bounds:
  assumes "validate_input f = Inr ()" "codigo_ayuda f \<in> set copago_codes"
    and "py_float (cuantia_str f) = Some (Fin x)" "0 \<le> x" "maximo (codigo_ayuda f) = Some m"
  shows "\<exists>q. py_float (cuantia_final f) = Some (Fin q) \<and> 0 \<le> q \<and>
             \<bar>q - 85 / 100 * x\<bar> \<le> 1 / 200 + 1 / 10 ^ 9 \<and> q \<le> 85 / 100 * of_int m + 1 / 200 + 1 / 10 ^ 9"
proof -
  have le: "x \<le> of_int m" by (rule validate_input_le_maximo [OF assms(1,3,5)])
  have "m \<le> 10000" by (rule maximo_le [OF assms(5)])
  then have xb: "x \<le> 10000" using le by (metis of_int_le_iff of_int_numeral order_trans)
  have t: "b64_tiny \<le> 1 / 2 ^ 60" by (rule b64_tiny_le)
  have x40: "x \<le> 2 ^ 40" using xb by simp
  obtain d where d: "cuantia_final f = format_2f (Fin d)" "0 \<le> d" "\<bar>d - 85 / 100 * x\<bar> \<le> x / 2 ^ 50 + 2 * b64_tiny"
    using cuantia_final_copay [OF assms(2,3,4) x40] by blast
  have ex: "x / 2 ^ 50 \<le> (10000 / 2 ^ 50 :: rat)" using xb by (simp add: divide_right_mono)
  have d1: "d - 85 / 100 * x \<le> x / 2 ^ 50 + 2 * b64_tiny" using d(3) by (rule abs_le_D1)
  have db: "d \<le> 10000" using d1 ex t xb by simp
  have d40: "d \<le> 2 ^ 40" using db by simp
  obtain q where q: "py_float (format_2f (Fin d)) = Some (Fin q)" "0 \<le> q" "\<bar>q - d\<bar> \<le> 1 / 200 + (d + 1) / 2 ^ 53 + b64_tiny"
    using format_2f_reparse [OF d(2) d40] by blast
  have ed: "(d + 1) / 2 ^ 53 \<le> (10001 / 2 ^ 53 :: rat)" using db by (simp add: divide_right_mono)
  have "\<bar>q - 85 / 100 * x\<bar> \<le> \<bar>q - d\<bar> + \<bar>d - 85 / 100 * x\<bar>" using abs_triangle_ineq [of "q - d" "d - 85 / 100 * x"] by simp
  also have "\<dots> \<le> 1 / 200 + 10001 / 2 ^ 53 + 10000 / 2 ^ 50 + 3 * b64_tiny" using q(3) d(3) ex ed by linarith
  also have "\<dots> \<le> 1 / 200 + 1 / 10 ^ 9" using t by simp
  finally have close: "\<bar>q - 85 / 100 * x\<bar> \<le> 1 / 200 + 1 / 10 ^ 9" .
  have "q - 85 / 100 * x \<le> 1 / 200 + 1 / 10 ^ 9" using close by (rule abs_le_D1)
  then have "q \<le> 85 / 100 * of_int m + 1 / 200 + 1 / 10 ^ 9" using le by simp
  then show ?thesis using close q(1,2) d(1) by auto
qed

theorem form_reachable_inv_witness: "form_inv [] (set_max_cuantia form_init)"
  by (rule form_reachable_inv [OF form_reachable.step [OF form_reachable.init form_step.press_maximo]])

theorem set_max_cuantia_valid_witness:
  "validate_input (set_max_cuantia \<lparr>numero_siria_entry = u ''2002'', codigo_ayuda = ''ATSANGA'',
      cuantia_entry = [], profesional = [], payment_method = ''Efectivo'', copago_label = []\<rparr>) = Inr ()"
  by (rule set_max_cuantia_valid) simp_all

theorem validate_input_maximo_witness:
  "validate_input \<lparr>numero_siria_entry = u ''2002'', codigo_ayuda = ''ATSANGA'',
      cuantia_entry = u ''200,5'', profesional = [], payment_method = ''Efectivo'', copago_label = []\<rparr>
   = Inl (AmountTooHigh ''ATSANGA'' 200)"
proof -
  have r: "round_b64 (401 / 2) = Fin (401 / 2)"
    using round_b64_exact [of 401 "- 1"] by (simp add: b64_overflow_def power_int_minus)
  have "py_float (u ''200.5'') = Some (Fin (401 / 2))"
    by (simp add: py_float_eval r)
  then show ?thesis
    by (subst validate_input_maximo [where m = 200 and x = "401 / 2"]) (simp_all add: cuantia_str_def py_replace1_def)
qed

theorem cuantia_final_copago_witness:
  "cuantia_final \<lparr>numero_siria_entry = u ''2002'', codigo_ayuda = ''ATSANGA'',
      cuantia_entry = u ''50'', profesional = [], payment_method = ''Efectivo'', copago_label = []\<rparr>
   = u ''42.50''"
proof -
  have "py_float (u ''50'') = Some (Fin (of_int 50))"
    by (simp add: py_float_eval)
  then show ?thesis
    by (subst cuantia_final_copago [where n = 50]) (simp_all add: cuantia_str_def py_replace1_def format_2f_eval copago_codes_def)
qed

theorem validate_input_accepts_nan_and_negative_witness:
  "validate_input \<lparr>numero_siria_entry = u ''2002'', codigo_ayuda = ''ATSANGA'',
      cuantia_entry = u ''-1'', profesional = [], payment_method = ''Efectivo'', copago_label = []\<rparr> = Inr ()"
  by (rule validate_input_accepts_nan_and_negative) simp_all

theorem cuantia_final_nan_witness:
  "cuantia_final \<lparr>numero_siria_entry = u ''2002'', codigo_ayuda = ''ATSANTDE'',
      cuantia_entry = u ''nan'', profesional = [], payment_method = ''Banco'', copago_label = []\<rparr> = u ''nan''"
  by (rule cuantia_final_nan) (simp_all add: copago_codes_def)

theorem cuantia_final_bounds_witness:
  "\<exists>q. py_float (cuantia_final \<lparr>numero_siria_entry = u ''2002'', codigo_ayuda = ''ATSANGA'',
        cuantia_entry = u ''200'', profesional = [], payment_method = ''Efectivo'', copago_label = []\<rparr>) = Some (Fin q) \<and>
     0 \<le> q \<and> \<bar>q - 85 / 100 * 200\<bar> \<le> 1 / 200 + 1 / 10 ^ 9 \<and> q \<le> 85 / 100 * of_int 200 + 1 / 200 + 1 / 10 ^ 9"
proof (rule cuantia_final_bounds)
  have p: "py_float (u ''200'') = Some (Fin 200)" by (simp add: py_float_eval)
  then show "py_float (cuantia_str \<lparr>numero_siria_entry = u ''2002'', codigo_ayuda = ''ATSANGA'',
        cuantia_entry = u ''200'', profesional = [], payment_method = ''Efectivo'', copago_label = []\<rparr>) = Some (Fin 200)"
    by (simp add: cuantia_str_def py_replace1_def)
  then show "validate_input \<lparr>numero_siria_entry = u ''2002'', codigo_ayuda = ''ATSANGA'',
        cuantia_entry = u ''200'', profesional = [], payment_method = ''Efectivo'', copago_label = []\<rparr> = Inr ()"
    by (simp add: validate_input_def py_gt_int_def cuantia_str_def py_replace1_def)
qed (simp_all add: copago_codes_def)

text \<open>At a half cent the receipt follows the binary64 noise, not a rounding rule:
  for \<^verbatim>\<open>ATSANGA\<close> and the amount \<^verbatim>\<open>0,70\<close> the receipt says \<^verbatim>\<open>0.59\<close>,
  while 85\% of 0.70 is 0.595, which rounds to \<^verbatim>\<open>0.60\<close> both half up and half to
  even (as \<open>format_2f\<close> of the exact value shows).\<close>

theorem cuantia_final_half_cent:
  "cuantia_final \<lparr>numero_siria_entry = u ''2002'', codigo_ayuda = ''ATSANGA'',
      cuantia_entry = u ''0,70'', profesional = [], payment_method = ''Efectivo'', copago_label = []\<rparr> = u ''0.59'' \<and>
   format_2f (Fin (70 / 100 * 85 / 100)) = u ''0.60''"
proof
  let ?f = "\<lparr>numero_siria_entry = u ''2002'', codigo_ayuda = ''ATSANGA'',
      cuantia_entry = u ''0,70'', profesional = [], payment_method = ''Efectivo'', copago_label = []\<rparr>"
  have p0: "py_float (u ''0.70'') = Some (round_b64 (7 / 10))" by (simp add: py_float_eval)
  have x: "round_b64 (7 / 10) = Fin (3152519739159347 / 4503599627370496)" by code_simp
  have p: "py_float (cuantia_str ?f) = Some (Fin (3152519739159347 / 4503599627370496))"
    using p0 x by (simp add: cuantia_str_def py_replace1_def)
  have c: "copago_15 (Fin (3152519739159347 / 4503599627370496)) = Fin (7566047373982433 / 72057594037927936)"
    unfolding copago_15_Fin by code_simp
  have d: "py_sub (Fin (3152519739159347 / 4503599627370496)) (Fin (7566047373982433 / 72057594037927936)) =
      Fin (2679641778285445 / 4503599627370496)"
    unfolding py_sub_Fin by code_simp
  have f: "format_2f (Fin (2679641778285445 / 4503599627370496)) = u ''0.59''" by code_simp
  have cf: "cuantia_final ?f = format_2f (py_sub (Fin (3152519739159347 / 4503599627370496))
      (copago_15 (Fin (3152519739159347 / 4503599627370496))))"
    by (rule cuantia_final_Fin [OF _ p]) (simp add: copago_codes_def)
  show "cuantia_final ?f = u ''0.59''"
    unfolding cf c d f ..
  show "format_2f (Fin (70 / 100 * 85 / 100)) = u ''0.60''" by code_simp
qed

text \<open>\<^verbatim>\<open>validate_input\<close> compares the rounded amount with the maximum: the
  amount \<^verbatim>\<open>600.0000000000000001\<close>, above the maximum 600 of \<^verbatim>\<open>ATCONMM\<close>, is
  read as the binary64 600.0 and accepted.\<close>

theorem validate_input_above_maximo:
  "validate_input \<lparr>numero_siria_entry = u ''2002'', codigo_ayuda = ''ATCONMM'',
      cuantia_entry = u ''600.0000000000000001'', profesional = [], payment_method = ''Efectivo'', copago_label = []\<rparr> = Inr () \<and>
   maximo ''ATCONMM'' = Some 600 \<and> (600 :: rat) < 6000000000000000001 / 10 ^ 16"
proof (intro conjI)
  have q: "py_float (u ''600.0000000000000001'') = Some (round_b64 (6000000000000000001 / 10 ^ 16))"
    by (simp add: py_float_eval)
  have r: "round_b64 (6000000000000000001 / 10 ^ 16) = Fin 600" by code_simp
  have m: "maximo ''ATCONMM'' = Some 600" by (simp add: catalog_map_of maximos_ayuda_def)
  then show "maximo ''ATCONMM'' = Some 600" .
  show "validate_input \<lparr>numero_siria_entry = u ''2002'', codigo_ayuda = ''ATCONMM'',
      cuantia_entry = u ''600.0000000000000001'', profesional = [], payment_method = ''Efectivo'', copago_label = []\<rparr> = Inr ()"
    using q r m by (simp add: validate_input_def cuantia_str_def py_replace1_def py_gt_int_def)
  show "(600 :: rat) < 6000000000000000001 / 10 ^ 16" by simp
qed

end
