(* ===== verification/Generate.thy ===== *)
theory Generate
  imports Repository Form
begin

text \<open>
  \<^verbatim>\<open>generate_document\<close> (lines 458--571), the handler of the \<^verbatim>\<open>Generar recib\<acute>i\<close>
  button, as one function from the form and the loaded frame to the outcome the user
  sees. Its steps are separate definitions in the order of the source: validation,
  the minor check, the guardian resolution with its two dialogs, the assembly of the
  receipt context, the copayment, the file name and the template step. What the
  operator and the libraries answer (the two dialogs, the clock, the template file,
  \<^verbatim>\<open>render\<close>/\<^verbatim>\<open>save\<close> and \<^verbatim>\<open>os.startfile\<close>) is the record \<open>env\<close>.
\<close>

text \<open>
  \<^verbatim>\<open>prompt_for_titular\<close> (lines 358--391): a modal dialog with an entry and two
  buttons. \<^verbatim>\<open>Aceptar\<close> stores the entry's text in the \<^verbatim>\<open>StringVar\<close> and closes
  the dialog; \<^verbatim>\<open>Cancelar\<close> and the window's close button only close it, so the
  variable keeps its initial empty text. The method returns the variable's text.
\<close>

datatype prompt_action = PromptOk ustr | PromptCancel | PromptClose

definition prompt_for_titular :: "prompt_action \<Rightarrow> ustr" where
  "prompt_for_titular a = (case a of PromptOk s \<Rightarrow> s | PromptCancel \<Rightarrow> [] | PromptClose \<Rightarrow> [])"

record env =
  env_now :: timestamp
  env_parse :: "ustr \<Rightarrow> timestamp option"
  env_locale :: time_locale
  askyesno_titular :: bool
  env_prompt :: prompt_action
  template_exists :: bool
  render_save_ok :: bool
  startfile_ok :: bool

text \<open>What the holder prompt returns in a run of the handler.\<close>

definition prompt_titular :: "env \<Rightarrow> ustr" where
  "prompt_titular e = prompt_for_titular (env_prompt e)"

text \<open>The \<^verbatim>\<open>messagebox.showerror\<close> calls of the handler, in source order.\<close>

datatype gen_error =
  InvalidInput validation_error
| TitularRequired
| TitularNotFound
| MenorNotFound
| PersonaNotFound
| NoTemplate
| GenerationFailed

text \<open>
  How one press of the button ends: an error dialog; an exception that escapes the
  handler (Tk prints it and nothing is produced); or the document written under a file
  name from the given context, where the flag tells whether \<^verbatim>\<open>os.startfile\<close>
  succeeded (when it fails, the file exists and the \<^verbatim>\<open>"Error al generar"\<close> dialog
  follows the success dialog).
\<close>

datatype outcome =
  ShowError gen_error
| Crash py_exc
| Written ustr receipt_ctx bool

text \<open>Line 466: the SIRIA number the handler looks up, the entry stripped and with its
  spaces removed (validation reads the raw entry).\<close>

definition numero_siria :: "form \<Rightarrow> ustr" where
  "numero_siria f = py_delete1 32 (py_strip (numero_siria_entry f))"

text \<open>Code that may raise inside the handler: the exception escapes it.\<close>

definition uncaught :: "py_exc + 'a \<Rightarrow> outcome + 'a" where
  "uncaught x = (case x of Inl exc \<Rightarrow> Inl (Crash exc) | Inr a \<Rightarrow> Inr a)"

text \<open>
  The holder's number for a minor (lines 473--483): the number found in the sheet, as
  \<^verbatim>\<open>str(siria_titular)\<close>, when present and confirmed by \<^verbatim>\<open>askyesno\<close>; otherwise,
  or when that text is empty, the text typed in \<^verbatim>\<open>prompt_for_titular\<close> (empty when
  the dialog is cancelled). Neither is stripped.
\<close>

definition resolve_titular :: "env \<Rightarrow> cell option \<Rightarrow> ustr" where
  "resolve_titular e t =
     (let confirmed = (case t of
                         Some c \<Rightarrow> if \<not> pd_isna c \<and> askyesno_titular e then py_str c else []
                       | None \<Rightarrow> []) in
      if confirmed = [] then prompt_titular e else confirmed)"

text \<open>
  The beneficiary part of the context (lines 470--510): for a minor the holder's
  fields, then the minor's (\<^verbatim>\<open>context.update\<close> twice, so the minor's markers win),
  and \<^verbatim>\<open>relacion_familiar = "Hijo/a"\<close>; for an adult the person's fields under the
  \<^verbatim>\<open>titular_\<close> prefix and an empty \<^verbatim>\<open>relacion_familiar\<close>.
\<close>

definition person_context ::
  "env \<Rightarrow> dataframe \<Rightarrow> ustr \<Rightarrow> bool \<Rightarrow> cell option \<Rightarrow> outcome + receipt_ctx" where
  "person_context e df numero minor titular =
     (if minor then
        (let nt = resolve_titular e titular in
         if nt = [] then Inl (ShowError TitularRequired)
         else exc_bind (uncaught (get_person_data (env_parse e) df nt True)) (\<lambda>dt.
           case dt of
             None \<Rightarrow> Inl (ShowError TitularNotFound)
           | Some dt \<Rightarrow>
               exc_bind (uncaught (get_person_data (env_parse e) df numero False)) (\<lambda>dm.
                 case dm of
                   None \<Rightarrow> Inl (ShowError MenorNotFound)
                 | Some dm \<Rightarrow> Inr ((dt ++ dm)(''relacion_familiar'' \<mapsto> CStr (u ''Hijo/a''))))))
      else exc_bind (uncaught (get_person_data (env_parse e) df numero True)) (\<lambda>dp.
        case dp of
          None \<Rightarrow> Inl (ShowError PersonaNotFound)
        | Some dp \<Rightarrow> Inr (dp(''relacion_familiar'' \<mapsto> CStr []))))"

text \<open>
  The request part (lines 512--536): the dict of six entries (the description is read
  with \<^verbatim>\<open>[]\<close>, so a code outside the catalog raises), then \<^verbatim>\<open>cuantia\<close>
  overwritten by the copayment step.
\<close>

definition request_fields :: "env \<Rightarrow> form \<Rightarrow> receipt_ctx \<Rightarrow> outcome + receipt_ctx" where
  "request_fields e f ctx =
     (case descripcion (codigo_ayuda f) of
        None \<Rightarrow> Inl (Crash KeyError)
      | Some d \<Rightarrow>
          Inr ((ctx ++ py_dict [
                 (''codigo_ayuda'', CStr (u (codigo_ayuda f))),
                 (''descripcion_ayuda'', CStr d),
                 (''cuantia'', CStr (cuantia_entry f)),
                 (''profesional'', CStr (profesional f)),
                 (''metodo_pago'', CStr (u (payment_method f))),
                 (''fecha_actual'', CStr (fmt_long (env_locale e) (fst (env_now e))))])
               (''cuantia'' \<mapsto> CStr (cuantia_final f))))"

text \<open>\<^verbatim>\<open>context[k][:2].upper()\<close>: a missing key raises \<^verbatim>\<open>KeyError\<close>, a cell that is
  not a string (a number, \<^verbatim>\<open>NaN\<close>, a date) \<^verbatim>\<open>TypeError\<close>.\<close>

definition name_fragment :: "receipt_ctx \<Rightarrow> string \<Rightarrow> py_exc + ustr" where
  "name_fragment ctx k =
     (case ctx k of
        None \<Rightarrow> Inl KeyError
      | Some (CStr s) \<Rightarrow> Inr (py_upper (take 2 s))
      | Some _ \<Rightarrow> Inl TypeError)"

text \<open>Lines 539--544: \<^verbatim>\<open>f"{nombre}.{apellido}_{numero_siria}_{fecha_actual}.docx"\<close>
  from the minor's name and surname.\<close>

definition output_filename :: "env \<Rightarrow> ustr \<Rightarrow> receipt_ctx \<Rightarrow> py_exc + ustr" where
  "output_filename e numero ctx =
     exc_bind (name_fragment ctx ''menor_nombre'') (\<lambda>nombre.
     exc_bind (name_fragment ctx ''menor_apellidos'') (\<lambda>apellido.
       Inr (nombre @ u ''.'' @ apellido @ u ''_'' @ numero @ u ''_'' @
            fmt_ymd_dots (fst (env_now e)) @ u ''.docx'')))"

text \<open>The \<^verbatim>\<open>try\<close> block (lines 546--571).\<close>

definition write_document :: "env \<Rightarrow> ustr \<Rightarrow> receipt_ctx \<Rightarrow> outcome" where
  "write_document e fname ctx =
     (if \<not> template_exists e then ShowError NoTemplate
      else if \<not> render_save_ok e then ShowError GenerationFailed
      else Written fname ctx (startfile_ok e))"

text \<open>
  The whole handler. \<open>sdf\<close> is \<^verbatim>\<open>self.df\<close>: \<open>None\<close> when no frame was loaded,
  where indexing it raises \<^verbatim>\<open>TypeError\<close>.
\<close>

definition generate_document :: "env \<Rightarrow> dataframe option \<Rightarrow> form \<Rightarrow> outcome" where
  "generate_document e sdf f =
     (case validate_input f of
        Inl err \<Rightarrow> ShowError (InvalidInput err)
      | Inr _ \<Rightarrow>
          (let numero = numero_siria f in
           case sdf of
             None \<Rightarrow> Crash TypeError
           | Some df \<Rightarrow>
               case_sum id id
                 (exc_bind (uncaught (is_minor (env_now e) (env_parse e) df numero)) (\<lambda>(minor, fecha, titular).
                  exc_bind (person_context e df numero minor titular) (\<lambda>ctx0.
                  exc_bind (request_fields e f ctx0) (\<lambda>ctx.
                  exc_bind (uncaught (output_filename e numero ctx)) (\<lambda>fname.
                    Inr (write_document e fname ctx))))))))"

subsection \<open>The guardian resolution of the specification\<close>

text \<open>
  The specification describes the holder lookup for a minor as a two-step protocol: a
  number found in the sheet is tentative; the operator confirms it, or else, and when
  none was found, types one by hand. \<open>Tentative\<close> carries the number found (the text
  \<^verbatim>\<open>str(siria_titular)\<close> of a present cell), and each rule is one way the protocol can end.
\<close>

datatype titular_state = Tentative "ustr option" | Confirmed ustr | Manual ustr

inductive titular_step :: "bool \<Rightarrow> ustr \<Rightarrow> titular_state \<Rightarrow> titular_state \<Rightarrow> bool" for yes prompt where
  confirm: "yes \<Longrightarrow> s \<noteq> [] \<Longrightarrow> titular_step yes prompt (Tentative (Some s)) (Confirmed s)"
| reject: "\<not> yes \<Longrightarrow> titular_step yes prompt (Tentative (Some s)) (Manual prompt)"
| unusable: "s = [] \<Longrightarrow> titular_step yes prompt (Tentative (Some s)) (Manual prompt)"
| absent: "titular_step yes prompt (Tentative None) (Manual prompt)"

code_pred titular_step .

definition titular_value :: "titular_state \<Rightarrow> ustr" where
  "titular_value st = (case st of Confirmed s \<Rightarrow> s | Manual p \<Rightarrow> p | Tentative _ \<Rightarrow> [])"

definition found_titular :: "cell option \<Rightarrow> ustr option" where
  "found_titular t = (case t of Some c \<Rightarrow> if pd_isna c then None else Some (py_str c) | None \<Rightarrow> None)"

text \<open>The keys of the dict \<^verbatim>\<open>context.update({...})\<close> adds (lines 512--519).\<close>

definition request_keys :: "string list" where
  "request_keys = [''codigo_ayuda'', ''descripcion_ayuda'', ''cuantia'', ''profesional'', ''metodo_pago'', ''fecha_actual'']"

section \<open>Example data\<close>

text \<open>The dialogs answered "yes", the clock on 9 November 2025, and a form for the
  code \<^verbatim>\<open>ATSANGA\<close> with the amount 50, used with the frame of the repository theory.\<close>

definition example_env :: env where
  "example_env = \<lparr>env_now = ((2025, 11, 9), 0), env_parse = (\<lambda>_. None), env_locale = LocaleEsUTF8,
     askyesno_titular = True, env_prompt = PromptCancel, template_exists = True, render_save_ok = True,
     startfile_ok = True\<rparr>"

definition example_form :: "ustr \<Rightarrow> form" where
  "example_form n = \<lparr>numero_siria_entry = n, codigo_ayuda = ''ATSANGA'', cuantia_entry = u ''50'',
     profesional = u ''Marta'', payment_method = ''Efectivo'', copago_label = []\<rparr>"

definition example_frame_float_holder :: dataframe where
  "example_frame_float_holder = example_frame\<lparr>df_rows :=
     [df_rows example_frame ! 0, (df_rows example_frame ! 1)[6 := CFloat 1001]]\<rparr>"

definition example_frame_text_birth :: dataframe where
  "example_frame_text_birth = example_frame\<lparr>df_rows :=
     [(df_rows example_frame ! 0)[8 := CStr (u ''10/05/1990'')], df_rows example_frame ! 1]\<rparr>"

definition example_frame_no_birth :: dataframe where
  "example_frame_no_birth = \<lparr>df_columns = [SIRIA_BENEFICIARIA, NOMBRE],
     df_rows = [[CInt 1001, CStr (u ''Ana'')]]\<rparr>"

section \<open>Properties\<close>

lemma resolve_titular_found:
  "resolve_titular e t =
     (case found_titular t of
        Some s \<Rightarrow> if askyesno_titular e \<and> s \<noteq> [] then s else prompt_titular e
      | None \<Rightarrow> prompt_titular e)"
  by (cases t) (simp_all add: resolve_titular_def found_titular_def Let_def)

lemma titular_step_value:
  "titular_step yes p (Tentative x) st \<Longrightarrow>
   titular_value st = (case x of Some s \<Rightarrow> if yes \<and> s \<noteq> [] then s else p | None \<Rightarrow> p)"
  by (erule titular_step.cases) (auto simp: titular_value_def)

text \<open>C9. \<^verbatim>\<open>resolve_titular\<close> refines the specification's guardian protocol: from
  the tentative number found in the sheet the protocol can always end, and every way
  it ends yields exactly the number the code uses.\<close>

theorem resolve_titular_protocol:
  "(\<exists>st. titular_step (askyesno_titular e) (prompt_titular e) (Tentative (found_titular t)) st) \<and>
   (\<forall>st. titular_step (askyesno_titular e) (prompt_titular e) (Tentative (found_titular t)) st \<longrightarrow>
      titular_value st = resolve_titular e t)"
proof (intro conjI allI impI)
  show "\<exists>st. titular_step (askyesno_titular e) (prompt_titular e) (Tentative (found_titular t)) st"
  proof (cases "found_titular t")
    case None
    then show ?thesis by (auto intro: titular_step.absent)
  next
    case (Some s)
    show ?thesis
    proof (cases "askyesno_titular e \<and> s \<noteq> []")
      case True
      with Some show ?thesis by (auto intro: titular_step.confirm)
    next
      case False
      with Some show ?thesis by (auto intro: titular_step.reject titular_step.unusable)
    qed
  qed
next
  fix st
  assume "titular_step (askyesno_titular e) (prompt_titular e) (Tentative (found_titular t)) st"
  then show "titular_value st = resolve_titular e t"
    by (simp add: titular_step_value resolve_titular_found)
qed

lemma person_context_not_Written: "person_context e df n minor t \<noteq> Inl (Written fn ctx ok)"
  by (auto simp: person_context_def Let_def exc_bind_def uncaught_def split: sum.split option.split)

lemma request_fields_not_Written: "request_fields e f ctx0 \<noteq> Inl (Written fn ctx ok)"
  by (simp add: request_fields_def split: option.split)

lemma generate_document_WrittenE:
  assumes "generate_document e (Some df) f = Written fn ctx ok"
  obtains minor fecha t ctx0 where "validate_input f = Inr ()"
    "is_minor (env_now e) (env_parse e) df (numero_siria f) = Inr (minor, fecha, t)"
    "person_context e df (numero_siria f) minor t = Inr ctx0"
    "request_fields e f ctx0 = Inr ctx" "output_filename e (numero_siria f) ctx = Inr fn"
    "template_exists e" "render_save_ok e" "ok = startfile_ok e"
  using assms person_context_not_Written request_fields_not_Written
  by (auto simp: generate_document_def Let_def exc_bind_def uncaught_def write_document_def
      split: sum.splits if_splits prod.splits)

lemma get_person_data_dom:
  assumes "get_person_data parse df n is_tit = Inr (Some ctx)" "(k, col) \<in> set person_columns"
  shows "(if is_tit then ''titular_'' else ''menor_'') @ k \<in> dom ctx"
proof -
  let ?p = "if is_tit then ''titular_'' else ''menor_''"
  obtain r fecha tipo vals where "df_find df n = Inr (Some r)" "df_get df r SITUACION_LEGAL = Inr tipo"
    and v: "exc_list (map (\<lambda>(k, col). df_get df r col) person_columns) = Inr vals"
    and ctx: "ctx = py_dict
       (zip (map (\<lambda>(k, col). ?p @ k) person_columns) vals @
        [(?p @ ''fecha_nacimiento'', fecha)] @
        map (\<lambda>(k, cats). (k, marcador tipo cats)) tipos_proteccion @
        (if is_tit then [] else [(''relacion_familiar'', CStr (u ''Hijo/a''))]))"
    by (rule get_person_data_Some [OF assms(1)])
  have "length vals = length person_columns" using exc_list_length [OF v] by simp
  then have "map fst (zip (map (\<lambda>(k, col). ?p @ k) person_columns) vals) = map (\<lambda>(k, col). ?p @ k) person_columns"
    by simp
  moreover have "?p @ k \<in> set (map (\<lambda>(k, col). ?p @ k) person_columns)" using assms(2) by force
  ultimately show ?thesis unfolding ctx dom_py_dict by (metis UnI1 map_append set_append)
qed

lemma get_person_data_prefix:
  assumes "get_person_data parse df n is_tit = Inr (Some ctx)" "ctx k = Some v"
  shows "k \<in> set (map (\<lambda>(k, col). (if is_tit then ''titular_'' else ''menor_'') @ k) person_columns) \<or>
         k = (if is_tit then ''titular_'' else ''menor_'') @ ''fecha_nacimiento'' \<or>
         k \<in> set (map fst tipos_proteccion) \<or> (\<not> is_tit \<and> k = ''relacion_familiar'')"
proof -
  let ?p = "if is_tit then ''titular_'' else ''menor_''"
  obtain r fecha tipo vals where "df_find df n = Inr (Some r)" "df_get df r SITUACION_LEGAL = Inr tipo"
    "exc_list (map (\<lambda>(k, col). df_get df r col) person_columns) = Inr vals"
    and ctx: "ctx = py_dict
       (zip (map (\<lambda>(k, col). ?p @ k) person_columns) vals @
        [(?p @ ''fecha_nacimiento'', fecha)] @
        map (\<lambda>(k, cats). (k, marcador tipo cats)) tipos_proteccion @
        (if is_tit then [] else [(''relacion_familiar'', CStr (u ''Hijo/a''))]))"
    by (rule get_person_data_Some [OF assms(1)])
  have "k \<in> dom ctx" using assms(2) by blast
  then show ?thesis unfolding ctx dom_py_dict
    by (auto dest: set_zip_leftD split: if_splits intro: rev_image_eqI)
qed

lemma person_context_adult:
  assumes "person_context e df n False t = Inr ctx0"
  shows "ctx0 ''menor_nombre'' = None"
proof -
  obtain dp where g: "get_person_data (env_parse e) df n True = Inr (Some dp)"
    and c: "ctx0 = dp(''relacion_familiar'' \<mapsto> CStr [])"
    using assms by (auto simp: person_context_def exc_bind_def uncaught_def split: sum.splits option.splits)
  have "dp ''menor_nombre'' = None"
  proof (rule ccontr)
    assume "dp ''menor_nombre'' \<noteq> None"
    then obtain v where "dp ''menor_nombre'' = Some v" by blast
    from get_person_data_prefix [OF g this] show False
      by (simp add: person_columns_def tipos_proteccion_def)
  qed
  then show ?thesis using c by simp
qed

lemma request_fields_Inr:
  assumes "request_fields e f ctx0 = Inr ctx"
  shows "k \<notin> set request_keys \<Longrightarrow> ctx k = ctx0 k"
    and "ctx ''cuantia'' = Some (CStr (cuantia_final f))"
    and "ctx0 k \<noteq> None \<Longrightarrow> ctx k \<noteq> None"
  using assms by (auto simp: request_fields_def request_keys_def py_dict_def map_add_def split: option.splits)

lemma request_fields_fecha:
  "request_fields e f ctx0 = Inr ctx \<Longrightarrow>
   ctx ''fecha_actual'' = Some (CStr (fmt_long (env_locale e) (fst (env_now e))))"
  by (auto simp: request_fields_def py_dict_def map_add_def split: option.splits)

lemma person_context_TrueE:
  assumes "person_context e df n True t = Inr ctx0"
  obtains dt dm where "get_person_data (env_parse e) df (resolve_titular e t) True = Inr (Some dt)"
    "get_person_data (env_parse e) df n False = Inr (Some dm)"
    "ctx0 = (dt ++ dm)(''relacion_familiar'' \<mapsto> CStr (u ''Hijo/a''))"
  using assms by (auto simp: person_context_def Let_def exc_bind_def uncaught_def split: if_splits sum.splits option.splits)

lemma person_context_minor:
  assumes "person_context e df n True t = Inr ctx0"
  shows "ctx0 ''relacion_familiar'' = Some (CStr (u ''Hijo/a''))"
    and "ctx0 ''titular_nombre'' \<noteq> None" and "ctx0 ''menor_nombre'' \<noteq> None"
proof -
  obtain dt dm where gt: "get_person_data (env_parse e) df (resolve_titular e t) True = Inr (Some dt)"
    and gm: "get_person_data (env_parse e) df n False = Inr (Some dm)"
    and c: "ctx0 = (dt ++ dm)(''relacion_familiar'' \<mapsto> CStr (u ''Hijo/a''))"
    by (rule person_context_TrueE [OF assms])
  have k: "(''nombre'', NOMBRE) \<in> set person_columns" by (simp add: person_columns_def)
  show "ctx0 ''relacion_familiar'' = Some (CStr (u ''Hijo/a''))" using c by simp
  show "ctx0 ''titular_nombre'' \<noteq> None"
    using get_person_data_dom [OF gt k] c by (auto simp: map_add_def split: option.split)
  show "ctx0 ''menor_nombre'' \<noteq> None"
    using get_person_data_dom [OF gm k] c by auto
qed

lemma generate_document_WrittenE_minor:
  assumes "generate_document e (Some df) f = Written fn ctx ok"
  obtains fecha t ctx0 where "validate_input f = Inr ()"
    "is_minor (env_now e) (env_parse e) df (numero_siria f) = Inr (True, fecha, t)"
    "person_context e df (numero_siria f) True t = Inr ctx0"
    "request_fields e f ctx0 = Inr ctx" "output_filename e (numero_siria f) ctx = Inr fn"
    "template_exists e" "render_save_ok e" "ok = startfile_ok e"
proof -
  obtain minor fecha t ctx0 where v: "validate_input f = Inr ()"
    and m: "is_minor (env_now e) (env_parse e) df (numero_siria f) = Inr (minor, fecha, t)"
    and p: "person_context e df (numero_siria f) minor t = Inr ctx0"
    and r: "request_fields e f ctx0 = Inr ctx" and o: "output_filename e (numero_siria f) ctx = Inr fn"
    and rest: "template_exists e" "render_save_ok e" "ok = startfile_ok e"
    by (rule generate_document_WrittenE [OF assms])
  have "minor"
  proof (rule ccontr)
    assume "\<not> minor"
    then have "ctx0 ''menor_nombre'' = None" using p by (intro person_context_adult) simp
    moreover have "''menor_nombre'' \<notin> set request_keys" by (simp add: request_keys_def)
    ultimately have "ctx ''menor_nombre'' = None" using request_fields_Inr(1) [OF r] by simp
    then show False using o by (simp add: output_filename_def name_fragment_def)
  qed
  then show ?thesis using that v m p r o rest by simp
qed

text \<open>C2. A receipt is only ever written for a minor: when \<^verbatim>\<open>generate_document\<close>
  writes a document, the input was valid, \<^verbatim>\<open>is_minor\<close> held for the entered number,
  the context carries the holder's and the minor's fields, \<^verbatim>\<open>relacion_familiar\<close> is
  \<^verbatim>\<open>Hijo/a\<close>, the amount is the one of the copayment step, and the file name is
  \<^verbatim>\<open>NO.AP_numero_YYYY.MM.DD.docx\<close> from the minor's name and surname upper-cased.\<close>

theorem generate_document_written:
  assumes "generate_document e (Some df) f = Written fn ctx ok"
  shows "validate_input f = Inr () \<and>
         (\<exists>fecha t. is_minor (env_now e) (env_parse e) df (numero_siria f) = Inr (True, fecha, t)) \<and>
         ctx ''relacion_familiar'' = Some (CStr (u ''Hijo/a'')) \<and>
         ctx ''titular_nombre'' \<noteq> None \<and>
         ctx ''cuantia'' = Some (CStr (cuantia_final f)) \<and>
         (\<exists>nom ap. ctx ''menor_nombre'' = Some (CStr nom) \<and> ctx ''menor_apellidos'' = Some (CStr ap) \<and>
            fn = py_upper (take 2 nom) @ u ''.'' @ py_upper (take 2 ap) @ u ''_'' @ numero_siria f @ u ''_'' @
                 fmt_ymd_dots (fst (env_now e)) @ u ''.docx'') \<and>
         template_exists e \<and> render_save_ok e \<and> ok = startfile_ok e"
proof -
  obtain fecha t ctx0 where v: "validate_input f = Inr ()"
    and m: "is_minor (env_now e) (env_parse e) df (numero_siria f) = Inr (True, fecha, t)"
    and p: "person_context e df (numero_siria f) True t = Inr ctx0"
    and r: "request_fields e f ctx0 = Inr ctx" and o: "output_filename e (numero_siria f) ctx = Inr fn"
    and te: "template_exists e" and rs: "render_save_ok e" and ok: "ok = startfile_ok e"
    by (rule generate_document_WrittenE_minor [OF assms])
  have nk: "''relacion_familiar'' \<notin> set request_keys" "''titular_nombre'' \<notin> set request_keys"
    by (simp_all add: request_keys_def)
  obtain nom ap where nom: "ctx ''menor_nombre'' = Some (CStr nom)" and ap: "ctx ''menor_apellidos'' = Some (CStr ap)"
    and fn: "fn = py_upper (take 2 nom) @ u ''.'' @ py_upper (take 2 ap) @ u ''_'' @ numero_siria f @ u ''_'' @
                 fmt_ymd_dots (fst (env_now e)) @ u ''.docx''"
    using o by (auto simp: output_filename_def name_fragment_def exc_bind_def split: option.splits cell.splits)
  show ?thesis
    using v m nom ap fn te rs ok request_fields_Inr(2) [OF r]
      person_context_minor(1) [OF p] request_fields_Inr(1) [OF r nk(1)]
      person_context_minor(2) [OF p] request_fields_Inr(1) [OF r nk(2)]
    by auto
qed

text \<open>C1. For an adult whose row is found, with valid input and a code of the catalog,
  \<^verbatim>\<open>generate_document\<close> raises \<^verbatim>\<open>KeyError\<close>: the file name reads
  \<^verbatim>\<open>context['menor_nombre']\<close>, which the adult branch never sets, so no receipt is
  ever produced for an adult, although the specification names the file after the
  person's own name in that case.\<close>

theorem generate_document_adult:
  assumes "validate_input f = Inr ()"
    and "is_minor (env_now e) (env_parse e) df (numero_siria f) = Inr (False, fecha, t)"
    and "get_person_data (env_parse e) df (numero_siria f) True = Inr (Some dp)"
    and "descripcion (codigo_ayuda f) \<noteq> None"
  shows "generate_document e (Some df) f = Crash KeyError"
proof -
  have p: "person_context e df (numero_siria f) False t = Inr (dp(''relacion_familiar'' \<mapsto> CStr []))"
    using assms(3) by (simp add: person_context_def uncaught_def)
  obtain ctx where r: "request_fields e f (dp(''relacion_familiar'' \<mapsto> CStr [])) = Inr ctx"
    using assms(4) by (auto simp: request_fields_def)
  have "ctx ''menor_nombre'' = None"
    using person_context_adult [OF p] request_fields_Inr(1) [OF r] by (simp add: request_keys_def)
  then have "output_filename e (numero_siria f) ctx = Inl KeyError"
    by (simp add: output_filename_def name_fragment_def)
  then show ?thesis
    using assms(1,2) p r by (simp add: generate_document_def uncaught_def)
qed

lemma example_form_valid: "validate_input (example_form n) = Inr () \<longleftrightarrow> n \<noteq> []"
  by (simp add: validate_input_def example_form_def cuantia_str_def py_replace1_def py_float_eval
      py_gt_int_def maximo_def py_dict_def maximos_ayuda_def)

lemma example_is_minor:
  "is_minor ((2025, 11, 9), 0) parse example_frame (u ''2002'') =
     Inr (True, Some (CDate ((2015, 3, 4), 0)), Some (CStr (u ''1001'')))"
  "is_minor ((2025, 11, 9), 0) parse example_frame (u ''1001'') =
     Inr (False, Some (CDate ((1990, 5, 10), 0)), Some CNaN)"
proof -
  have v: "valid_ts ((2025, 11, 9), 0)" "valid_date (2015, 3, 4)" "valid_date (1990, 5, 10)"
    by (simp_all add: valid_ts_def valid_date_def days_in_month_def ns_per_day_def)
  have b: "df_get example_frame (df_rows example_frame ! 1) FECHA_NACIMIENTO = Inr (CDate ((2015, 3, 4), 0))"
    "df_get example_frame (df_rows example_frame ! 1) SIRIA_TITULAR_UF = Inr (CStr (u ''1001''))"
    "df_get example_frame (df_rows example_frame ! 0) FECHA_NACIMIENTO = Inr (CDate ((1990, 5, 10), 0))"
    "df_get example_frame (df_rows example_frame ! 0) SIRIA_TITULAR_UF = Inr CNaN"
    by (simp_all add: df_get_def example_frame_def example_columns_def)
  show "is_minor ((2025, 11, 9), 0) parse example_frame (u ''2002'') =
     Inr (True, Some (CDate ((2015, 3, 4), 0)), Some (CStr (u ''1001'')))"
    using is_minor_found [OF example_rows(1) b(1,2)] calculate_age_date [of _ "((2015, 3, 4), 0)"] v
    by (simp add: pd_isna_def age_years_def EDAD_MAYORIA_def)
  show "is_minor ((2025, 11, 9), 0) parse example_frame (u ''1001'') =
     Inr (False, Some (CDate ((1990, 5, 10), 0)), Some CNaN)"
    using is_minor_found [OF example_rows(2) b(3,4)] calculate_age_date [of _ "((1990, 5, 10), 0)"] v
    by (simp add: pd_isna_def age_years_def EDAD_MAYORIA_def)
qed

lemma example_person_data:
  "\<exists>dt. get_person_data parse example_frame (u ''1001'') True = Inr (Some dt)"
  "\<exists>dm. get_person_data parse example_frame (u ''2002'') False = Inr (Some dm) \<and>
      dm ''menor_nombre'' = Some (CStr (u ''Luis'')) \<and> dm ''menor_apellidos'' = Some (CStr (u ''Perez''))"
  unfolding get_person_data_def example_rows
  by (simp_all add: df_get_def example_frame_def example_columns_def person_columns_def
        to_datetime_def pd_isna_def py_dict_def map_add_def tipos_proteccion_def)

lemma example_minor_written:
  "\<exists>ctx. generate_document (example_env\<lparr>env_locale := loc\<rparr>) (Some example_frame) (example_form (u ''2002'')) =
          Written (u ''LU.PE_2002_2025.11.09.docx'') ctx True"
proof -
  let ?f = "example_form (u ''2002'')"
  obtain dt where gt: "get_person_data (\<lambda>_. None) example_frame (u ''1001'') True = Inr (Some dt)"
    using example_person_data(1) by blast
  obtain dm where gm: "get_person_data (\<lambda>_. None) example_frame (u ''2002'') False = Inr (Some dm)"
    and dn: "dm ''menor_nombre'' = Some (CStr (u ''Luis''))" and da: "dm ''menor_apellidos'' = Some (CStr (u ''Perez''))"
    using example_person_data(2) by blast
  have v: "validate_input ?f = Inr ()" by (simp add: example_form_valid)
  have n: "numero_siria ?f = u ''2002''"
    by (simp add: numero_siria_def example_form_def py_strip_def py_isspace_def py_delete1_def)
  have rt: "resolve_titular (example_env\<lparr>env_locale := loc\<rparr>) (Some (CStr (u ''1001''))) = u ''1001''"
    by (simp add: resolve_titular_def example_env_def pd_isna_def py_str_def)
  let ?c0 = "(dt ++ dm)(''relacion_familiar'' \<mapsto> CStr (u ''Hijo/a''))"
  have p: "person_context (example_env\<lparr>env_locale := loc\<rparr>) example_frame (u ''2002'') True (Some (CStr (u ''1001''))) = Inr ?c0"
    using gt gm rt by (simp add: person_context_def Let_def uncaught_def example_env_def)
  obtain ctx where r: "request_fields (example_env\<lparr>env_locale := loc\<rparr>) ?f ?c0 = Inr ctx"
    by (simp add: request_fields_def example_form_def descripcion_def py_dict_def codigos_ayuda_descripcion_def)
  have nk: "''menor_nombre'' \<notin> set request_keys" "''menor_apellidos'' \<notin> set request_keys"
    by (simp_all add: request_keys_def)
  have o: "output_filename (example_env\<lparr>env_locale := loc\<rparr>) (u ''2002'') ctx = Inr (u ''LU.PE_2002_2025.11.09.docx'')"
    using request_fields_Inr(1) [OF r nk(1)] request_fields_Inr(1) [OF r nk(2)] dn da
    by (simp add: output_filename_def name_fragment_def example_env_def fmt_ymd_dots_def year_str_def
        format_2f_eval map_add_def upper_cp_def)
  have g: "generate_document (example_env\<lparr>env_locale := loc\<rparr>) (Some example_frame) ?f = Written (u ''LU.PE_2002_2025.11.09.docx'') ctx True"
    using v n p r o example_is_minor(1)
    by (simp add: generate_document_def Let_def uncaught_def write_document_def example_env_def)
  then show ?thesis by blast
qed

theorem generate_document_adult_witness:
  "generate_document example_env (Some example_frame) (example_form (u ''1001'')) = Crash KeyError"
proof -
  obtain dt where g: "get_person_data (\<lambda>_. None) example_frame (u ''1001'') True = Inr (Some dt)"
    using example_person_data(1) by blast
  have n: "numero_siria (example_form (u ''1001'')) = u ''1001''"
    by (simp add: numero_siria_def example_form_def py_strip_def py_isspace_def py_delete1_def)
  show ?thesis
  proof (rule generate_document_adult)
    show "validate_input (example_form (u ''1001'')) = Inr ()" by (simp add: example_form_valid)
    show "is_minor (env_now example_env) (env_parse example_env) example_frame (numero_siria (example_form (u ''1001''))) =
      Inr (False, Some (CDate ((1990, 5, 10), 0)), Some CNaN)"
      unfolding n using example_is_minor(2) by (simp add: example_env_def)
    show "get_person_data (env_parse example_env) example_frame (numero_siria (example_form (u ''1001''))) True = Inr (Some dt)"
      unfolding n using g by (simp add: example_env_def)
    show "descripcion (codigo_ayuda (example_form (u ''1001''))) \<noteq> None"
      by (simp add: example_form_def descripcion_def py_dict_def codigos_ayuda_descripcion_def)
  qed
qed

theorem generate_document_written_witness:
  "\<exists>ctx. generate_document example_env (Some example_frame) (example_form (u ''2002'')) =
          Written (u ''LU.PE_2002_2025.11.09.docx'') ctx True \<and>
        ctx ''cuantia'' = Some (CStr (u ''42.50'')) \<and>
        ctx ''relacion_familiar'' = Some (CStr (u ''Hijo/a'')) \<and> ctx ''titular_nombre'' \<noteq> None"
proof -
  have "example_env\<lparr>env_locale := LocaleEsUTF8\<rparr> = example_env" by (simp add: example_env_def)
  then obtain ctx where g: "generate_document example_env (Some example_frame) (example_form (u ''2002'')) =
          Written (u ''LU.PE_2002_2025.11.09.docx'') ctx True"
    using example_minor_written [of LocaleEsUTF8] by metis
  have p: "py_float (cuantia_str (example_form (u ''2002''))) = Some (Fin (of_int 50))"
    by (simp add: example_form_def cuantia_str_def py_replace1_def py_float_eval)
  have cf: "cuantia_final (example_form (u ''2002'')) = u ''42.50''"
    using cuantia_final_int [OF p] by (simp add: example_form_def copago_codes_def format_2f_eval)
  from generate_document_written [OF g] cf g show ?thesis by auto
qed

lemma generate_document_minor_path:
  assumes "validate_input f = Inr ()"
    and "is_minor (env_now e) (env_parse e) df (numero_siria f) = Inr (True, b, t)"
    and "person_context e df (numero_siria f) True t = Inl out"
  shows "generate_document e (Some df) f = out"
  using assms by (simp add: generate_document_def uncaught_def)

lemma generate_document_minor_writes:
  assumes "validate_input f = Inr ()"
    and "is_minor (env_now e) (env_parse e) df (numero_siria f) = Inr (True, b, t)"
    and "resolve_titular e t \<noteq> []"
    and "get_person_data (env_parse e) df (resolve_titular e t) True = Inr (Some dt)"
    and "get_person_data (env_parse e) df (numero_siria f) False = Inr (Some dm)"
    and "dm ''menor_nombre'' = Some (CStr nom)" "dm ''menor_apellidos'' = Some (CStr ap)"
    and "descripcion (codigo_ayuda f) \<noteq> None" "template_exists e" "render_save_ok e"
  shows "\<exists>fn ctx. generate_document e (Some df) f = Written fn ctx (startfile_ok e)"
proof -
  let ?c0 = "(dt ++ dm)(''relacion_familiar'' \<mapsto> CStr (u ''Hijo/a''))"
  have p: "person_context e df (numero_siria f) True t = Inr ?c0"
    using assms(3-5) by (simp add: person_context_def Let_def uncaught_def)
  obtain ctx where r: "request_fields e f ?c0 = Inr ctx"
    using assms(8) by (auto simp: request_fields_def)
  have nk: "''menor_nombre'' \<notin> set request_keys" "''menor_apellidos'' \<notin> set request_keys"
    by (simp_all add: request_keys_def)
  have "ctx ''menor_nombre'' = Some (CStr nom)" "ctx ''menor_apellidos'' = Some (CStr ap)"
    using request_fields_Inr(1) [OF r nk(1)] request_fields_Inr(1) [OF r nk(2)] assms(6,7)
    by (simp_all add: map_add_def)
  then obtain fn where o: "output_filename e (numero_siria f) ctx = Inr fn"
    by (simp add: output_filename_def name_fragment_def)
  have "generate_document e (Some df) f = Written fn ctx (startfile_ok e)"
    using assms(1,2,9,10) p r o by (simp add: generate_document_def uncaught_def write_document_def)
  then show ?thesis by blast
qed

text \<open>C13. A minor whose holder number is neither confirmed from the sheet nor typed in the
  prompt gets the error \<^verbatim>\<open>"Se requiere el n\<acute>umero SIRIA del titular"\<close> and no
  receipt: generation is aborted when no holder identifier is available.\<close>

theorem generate_document_titular_required:
  assumes "validate_input f = Inr ()"
    and "is_minor (env_now e) (env_parse e) df (numero_siria f) = Inr (True, b, t)"
    and "resolve_titular e t = []"
  shows "generate_document e (Some df) f = ShowError TitularRequired"
  using assms(3) by (intro generate_document_minor_path [OF assms(1,2)]) (simp add: person_context_def)

lemma py_str_CFloat_dot: "46 \<in> set (py_str (CFloat i))"
  by (simp add: py_str_def)

lemma df_find_None:
  assumes "SIRIA_BENEFICIARIA \<in> set (df_columns df)"
    and "\<forall>r \<in> set (df_rows df). df_get df r SIRIA_BENEFICIARIA \<noteq> Inr (CStr n)"
  shows "df_find df n = Inr None"
  using assms by (simp add: df_find_def find_None_iff)

text \<open>C14. When the holder cell of a minor is a float (pandas reads an integer column with
  blanks as \<^verbatim>\<open>float64\<close>) and the operator confirms it, the number looked up is
  \<^verbatim>\<open>str(1001.0) = "1001.0"\<close>; in a frame whose identifiers contain no dot, as
  \<^verbatim>\<open>astype(str)\<close> of integer identifiers gives, the holder is reported as not found.\<close>

theorem generate_document_float_titular:
  assumes "validate_input f = Inr ()"
    and "is_minor (env_now e) (env_parse e) df (numero_siria f) = Inr (True, b, Some (CFloat i))"
    and "askyesno_titular e"
    and "\<forall>r \<in> set (df_rows df). \<forall>s. df_get df r SIRIA_BENEFICIARIA = Inr (CStr s) \<longrightarrow> 46 \<notin> set s"
  shows "generate_document e (Some df) f = ShowError TitularNotFound"
proof -
  have col: "SIRIA_BENEFICIARIA \<in> set (df_columns df)"
    using assms(2) by (auto simp: is_minor_def df_find_def exc_bind_def split: if_splits)
  have rt: "resolve_titular e (Some (CFloat i)) = py_str (CFloat i)"
    using assms(3) by (simp add: resolve_titular_def pd_isna_def py_str_def)
  have "df_find df (py_str (CFloat i)) = Inr None"
    using col assms(4) py_str_CFloat_dot [of i] by (intro df_find_None) blast+
  then have "get_person_data (env_parse e) df (py_str (CFloat i)) True = Inr None"
    by (simp add: get_person_data_def)
  then show ?thesis
    by (intro generate_document_minor_path [OF assms(1,2)])
       (simp add: person_context_def rt uncaught_def py_str_def)
qed

text \<open>C15. A birth-date cell that the date parser rejects makes \<^verbatim>\<open>is_minor\<close> answer
  "adult" (the bare \<^verbatim>\<open>except\<close> of \<^verbatim>\<open>calculate_age\<close>), and the adult branch then
  calls \<^verbatim>\<open>pd.to_datetime\<close> on it again without a handler: \<^verbatim>\<open>generate_document\<close>
  ends with an uncaught \<^verbatim>\<open>ValueError\<close>.\<close>

theorem generate_document_unparsed_birth:
  assumes "validate_input f = Inr ()"
    and "df_find df (numero_siria f) = Inr (Some r)"
    and "df_get df r FECHA_NACIMIENTO = Inr (CStr s)" "env_parse e s = None"
    and "df_get df r SIRIA_TITULAR_UF = Inr tit"
  shows "generate_document e (Some df) f = Crash ValueError"
proof -
  have m: "is_minor (env_now e) (env_parse e) df (numero_siria f) = Inr (False, Some (CStr s), Some tit)"
    using assms(2-5) by (simp add: is_minor_def calculate_age_def pd_isna_def to_datetime_def)
  have g: "get_person_data (env_parse e) df (numero_siria f) True = Inl ValueError"
    using assms(2-4) by (simp add: get_person_data_def pd_isna_def to_datetime_def)
  show ?thesis
    using assms(1) m g by (simp add: generate_document_def person_context_def uncaught_def)
qed

lemma load_excel_file_Inr:
  assumes "archivo \<noteq> []" "SIRIA_BENEFICIARIA \<in> set (df_columns df0)" "load_professional_values oc = Inr vs"
  shows "\<exists>ses. load_excel_file archivo (Some (df0, oc)) = Inr ses \<and> df_columns (ses_df ses) = df_columns df0"
  using assms by (auto simp: load_excel_file_def astype_str_col_def Let_def)

text \<open>C16. A sheet without the birth-date column loads successfully (only the identifier
  column is touched at load time, where the specification asks for a load error), and
  every later generation for a person found in it ends with an uncaught
  \<^verbatim>\<open>KeyError\<close>.\<close>

theorem load_excel_file_missing_birth_column:
  assumes "archivo \<noteq> []" "SIRIA_BENEFICIARIA \<in> set (df_columns df0)"
    and "FECHA_NACIMIENTO \<notin> set (df_columns df0)" "load_professional_values oc = Inr vs"
  shows "\<exists>ses. load_excel_file archivo (Some (df0, oc)) = Inr ses \<and>
           (\<forall>e f r. validate_input f = Inr () \<longrightarrow> df_find (ses_df ses) (numero_siria f) = Inr (Some r) \<longrightarrow>
              generate_document e (Some (ses_df ses)) f = Crash KeyError)"
proof -
  obtain ses where l: "load_excel_file archivo (Some (df0, oc)) = Inr ses"
    and c: "df_columns (ses_df ses) = df_columns df0"
    using load_excel_file_Inr [OF assms(1,2,4)] by blast
  have "df_get (ses_df ses) r FECHA_NACIMIENTO = Inl KeyError" for r
    using assms(3) c by (simp add: df_get_def)
  then have "generate_document e (Some (ses_df ses)) f = Crash KeyError"
    if "validate_input f = Inr ()" "df_find (ses_df ses) (numero_siria f) = Inr (Some r)" for e f r
    using that by (simp add: generate_document_def is_minor_def uncaught_def)
  with l show ?thesis by blast
qed

theorem generate_document_titular_required_witness:
  "generate_document (example_env\<lparr>askyesno_titular := False\<rparr>) (Some example_frame) (example_form (u ''2002'')) =
   ShowError TitularRequired"
proof -
  have n: "numero_siria (example_form (u ''2002'')) = u ''2002''"
    by (simp add: numero_siria_def example_form_def py_strip_def py_isspace_def py_delete1_def)
  show ?thesis
  proof (rule generate_document_titular_required)
    show "validate_input (example_form (u ''2002'')) = Inr ()" by (simp add: example_form_valid)
    show "is_minor (env_now (example_env\<lparr>askyesno_titular := False\<rparr>)) (env_parse (example_env\<lparr>askyesno_titular := False\<rparr>))
        example_frame (numero_siria (example_form (u ''2002''))) =
      Inr (True, Some (CDate ((2015, 3, 4), 0)), Some (CStr (u ''1001'')))"
      using n example_is_minor(1) by (simp add: example_env_def)
    show "resolve_titular (example_env\<lparr>askyesno_titular := False\<rparr>) (Some (CStr (u ''1001''))) = []"
      by (simp add: resolve_titular_def example_env_def prompt_titular_def prompt_for_titular_def)
  qed
qed

theorem generate_document_float_titular_witness:
  "generate_document example_env (Some example_frame_float_holder) (example_form (u ''2002'')) =
   ShowError TitularNotFound"
proof -
  have n: "numero_siria (example_form (u ''2002'')) = u ''2002''"
    by (simp add: numero_siria_def example_form_def py_strip_def py_isspace_def py_delete1_def)
  have f: "df_find example_frame_float_holder (u ''2002'') = Inr (Some (df_rows example_frame_float_holder ! 1))"
    by (simp add: df_find_def df_get_def example_frame_float_holder_def example_frame_def example_columns_def)
  have b: "df_get example_frame_float_holder (df_rows example_frame_float_holder ! 1) FECHA_NACIMIENTO = Inr (CDate ((2015, 3, 4), 0))"
    "df_get example_frame_float_holder (df_rows example_frame_float_holder ! 1) SIRIA_TITULAR_UF = Inr (CFloat 1001)"
    by (simp_all add: df_get_def example_frame_float_holder_def example_frame_def example_columns_def)
  have v: "valid_ts ((2025, 11, 9), 0)" "valid_date (fst ((2015::int, 3::nat, 4::nat), 0::nat))"
    by (simp_all add: valid_ts_def valid_date_def days_in_month_def ns_per_day_def)
  have m: "is_minor ((2025, 11, 9), 0) (\<lambda>_. None) example_frame_float_holder (u ''2002'') =
      Inr (True, Some (CDate ((2015, 3, 4), 0)), Some (CFloat 1001))"
    using is_minor_found [OF f b] calculate_age_date [OF v] by (simp add: pd_isna_def age_years_def EDAD_MAYORIA_def)
  show ?thesis
  proof (rule generate_document_float_titular)
    show "validate_input (example_form (u ''2002'')) = Inr ()" by (simp add: example_form_valid)
    show "is_minor (env_now example_env) (env_parse example_env) example_frame_float_holder
        (numero_siria (example_form (u ''2002''))) = Inr (True, Some (CDate ((2015, 3, 4), 0)), Some (CFloat 1001))"
      using n m by (simp add: example_env_def)
    show "askyesno_titular example_env" by (simp add: example_env_def)
    show "\<forall>r \<in> set (df_rows example_frame_float_holder). \<forall>s.
        df_get example_frame_float_holder r SIRIA_BENEFICIARIA = Inr (CStr s) \<longrightarrow> 46 \<notin> set s"
      by (simp add: df_get_def example_frame_float_holder_def example_frame_def example_columns_def)
  qed
qed

theorem generate_document_unparsed_birth_witness:
  "generate_document example_env (Some example_frame_text_birth) (example_form (u ''1001'')) = Crash ValueError"
proof -
  have n: "numero_siria (example_form (u ''1001'')) = u ''1001''"
    by (simp add: numero_siria_def example_form_def py_strip_def py_isspace_def py_delete1_def)
  have f: "df_find example_frame_text_birth (u ''1001'') = Inr (Some (df_rows example_frame_text_birth ! 0))"
    by (simp add: df_find_def df_get_def example_frame_text_birth_def example_frame_def example_columns_def)
  show ?thesis
  proof (rule generate_document_unparsed_birth)
    show "validate_input (example_form (u ''1001'')) = Inr ()" by (simp add: example_form_valid)
    show "df_find example_frame_text_birth (numero_siria (example_form (u ''1001''))) =
        Inr (Some (df_rows example_frame_text_birth ! 0))" using n f by simp
    show "df_get example_frame_text_birth (df_rows example_frame_text_birth ! 0) FECHA_NACIMIENTO = Inr (CStr (u ''10/05/1990''))"
      by (simp add: df_get_def example_frame_text_birth_def example_frame_def example_columns_def)
    show "env_parse example_env (u ''10/05/1990'') = None" by (simp add: example_env_def)
    show "df_get example_frame_text_birth (df_rows example_frame_text_birth ! 0) SIRIA_TITULAR_UF = Inr CNaN"
      by (simp add: df_get_def example_frame_text_birth_def example_frame_def example_columns_def)
  qed
qed

theorem load_excel_file_missing_birth_column_witness:
  "\<exists>ses. load_excel_file (u ''recibos.xlsx'') (Some (example_frame_no_birth, example_oculta)) = Inr ses \<and>
     generate_document example_env (Some (ses_df ses)) (example_form (u ''1001'')) = Crash KeyError"
proof -
  have vs: "load_professional_values example_oculta = Inr [CStr (u ''Marta''), CStr (u ''Jose'')]"
    by (simp add: load_professional_values_def iloc_col_def example_oculta_def dropna_def pd_isna_def)
  have "\<exists>ses. load_excel_file (u ''recibos.xlsx'') (Some (example_frame_no_birth, example_oculta)) = Inr ses \<and>
     (\<forall>e f r. validate_input f = Inr () \<longrightarrow> df_find (ses_df ses) (numero_siria f) = Inr (Some r) \<longrightarrow>
        generate_document e (Some (ses_df ses)) f = Crash KeyError)"
    by (rule load_excel_file_missing_birth_column [OF _ _ _ vs]) (simp_all add: example_frame_no_birth_def)
  then obtain ses where l: "load_excel_file (u ''recibos.xlsx'') (Some (example_frame_no_birth, example_oculta)) = Inr ses"
    and k: "\<forall>e f r. validate_input f = Inr () \<longrightarrow> df_find (ses_df ses) (numero_siria f) = Inr (Some r) \<longrightarrow>
        generate_document e (Some (ses_df ses)) f = Crash KeyError" by blast
  have "ses_df ses = example_frame_no_birth\<lparr>df_rows := [[CStr (u ''1001''), CStr (u ''Ana'')]]\<rparr>"
    using l vs by (auto simp: load_excel_file_def astype_str_col_def example_frame_no_birth_def py_str_def
        int_str_def nat_str_def nat_digits.simps)
  then have f: "df_find (ses_df ses) (numero_siria (example_form (u ''1001''))) = Inr (Some [CStr (u ''1001''), CStr (u ''Ana'')])"
    by (simp add: df_find_def df_get_def example_frame_no_birth_def numero_siria_def example_form_def
        py_strip_def py_isspace_def py_delete1_def)
  have "validate_input (example_form (u ''1001'')) = Inr ()" by (simp add: example_form_valid)
  with k f l show ?thesis by blast
qed

theorem resolve_titular_protocol_witness:
  "titular_step True [] (Tentative (Some (u ''1001''))) (Confirmed (u ''1001'')) \<and>
   titular_value (Confirmed (u ''1001'')) = resolve_titular example_env (Some (CStr (u ''1001'')))"
proof -
  have f: "found_titular (Some (CStr (u ''1001''))) = Some (u ''1001'')"
    by (simp add: found_titular_def pd_isna_def py_str_def)
  have e: "askyesno_titular example_env = True" "prompt_titular example_env = []"
    by (simp_all add: example_env_def prompt_titular_def prompt_for_titular_def)
  have s: "titular_step True [] (Tentative (Some (u ''1001''))) (Confirmed (u ''1001''))"
    by (rule titular_step.confirm) simp_all
  show ?thesis
    using s resolve_titular_protocol [of example_env "Some (CStr (u ''1001''))"] unfolding f e by blast
qed

end
