(* ===== verification/App.thy ===== *)
theory App
  imports Generate
begin

text \<open>
  The application as one state machine: \<^verbatim>\<open>__init__\<close> (lines 24--36) sets the time
  locale, \<^verbatim>\<open>setup_constants\<close> and \<^verbatim>\<open>init_ui\<close> (lines 260--278) build the form and
  load the spreadsheet, and \<^verbatim>\<open>app.root.mainloop()\<close> (lines 614--616) then runs the
  user's actions: edits of the form and presses of the \<^verbatim>\<open>Generar recib\<acute>i\<close> button
  (\<^verbatim>\<open>create_buttons\<close>, lines 347--356). \<^verbatim>\<open>init_ui\<close> calls \<^verbatim>\<open>root.quit()\<close> when
  the load fails, but before \<^verbatim>\<open>mainloop\<close> has started, and \<^verbatim>\<open>mainloop\<close> clears that
  request when it starts: the window opens all the same, with whatever the failed load
  left in \<^verbatim>\<open>self.df\<close>. Before all this \<^verbatim>\<open>init_ui\<close> reads the window icon
  through \<^verbatim>\<open>resource_path\<close> (\<open>start_app\<close>), which may end the program.
\<close>

section \<open>Start-up\<close>

text \<open>
  \<^verbatim>\<open>locale.setlocale(LC_TIME, ...)\<close> with the fallback of \<^verbatim>\<open>__init__\<close>;
  \<open>settable\<close> tells which locale names the system accepts. The flag is the
  \<^verbatim>\<open>showwarning\<close> dialog.
\<close>

definition setup_locale :: "(string \<Rightarrow> bool) \<Rightarrow> time_locale \<times> bool" where
  "setup_locale settable =
     (if settable ''es_ES.UTF-8'' then (LocaleEsUTF8, False)
      else if settable ''spanish'' then (LocaleSpanish, False)
      else (LocaleC, True))"

text \<open>
  \<^verbatim>\<open>resource_path\<close> (lines 13--21): the directory is \<^verbatim>\<open>sys._MEIPASS\<close> when the
  program runs frozen by PyInstaller (\<open>meipass\<close>), and otherwise
  \<^verbatim>\<open>os.path.abspath(".")\<close>, the working directory \<open>cwd\<close>. \<^verbatim>\<open>os.path.join\<close> is
  Windows' \<^verbatim>\<open>ntpath.join\<close> (the program calls \<^verbatim>\<open>os.startfile\<close>, which only Windows
  has) for a second argument without drive or root, the only kind the program passes:
  a separator is inserted unless the first part is empty or ends in a separator or a
  drive colon.
\<close>

definition nt_sep :: char where
  "nt_sep = CHR 0x5C"

definition nt_join :: "string \<Rightarrow> string \<Rightarrow> string" where
  "nt_join base rel =
     (if base \<noteq> [] \<and> last base \<notin> {nt_sep, CHR ''/'', CHR '':''} then base @ nt_sep # rel
      else base @ rel)"

definition resource_path :: "string option \<Rightarrow> string \<Rightarrow> string \<Rightarrow> string" where
  "resource_path meipass cwd relative_path =
     nt_join (case meipass of Some b \<Rightarrow> b | None \<Rightarrow> cwd) relative_path"

text \<open>
  What \<^verbatim>\<open>load_excel_file\<close> leaves in the object: \<^verbatim>\<open>self.df\<close> and, when
  \<^verbatim>\<open>load_professional_values\<close> ran to its end, \<^verbatim>\<open>self.valores_combined\<close>.
  \<open>main\<close> and \<open>hidden\<close> are the results of the two \<^verbatim>\<open>read_excel\<close> calls (\<open>None\<close>
  when one raises). The first result is stored before the second read, and the
  identifier column is replaced only when its conversion succeeds.
\<close>

definition load_excel_state ::
  "ustr \<Rightarrow> dataframe option \<Rightarrow> cell list list option \<Rightarrow> dataframe option \<times> cell list option" where
  "load_excel_state archivo main hidden =
     (if archivo = [] then (None, None)
      else case main of
        None \<Rightarrow> (None, None)
      | Some df0 \<Rightarrow>
          (case hidden of
             None \<Rightarrow> (Some df0, None)
           | Some oc \<Rightarrow>
               (case astype_str_col SIRIA_BENEFICIARIA df0 of
                  Inl _ \<Rightarrow> (Some df0, None)
                | Inr df \<Rightarrow>
                    (case load_professional_values oc of
                       Inl _ \<Rightarrow> (Some df, None)
                     | Inr vs \<Rightarrow> (Some df, Some vs)))))"

text \<open>The window's state: the locale in force, whether the locale warning was shown,
  \<^verbatim>\<open>self.df\<close>, the professional combobox's values (as Tk shows them, each
  \<^verbatim>\<open>str\<close> of its cell; empty when the load did not reach them) and the form.\<close>

record app =
  app_locale :: time_locale
  app_warned :: bool
  app_df :: "dataframe option"
  app_profs :: "ustr list"
  app_form :: form

definition init_app :: "(string \<Rightarrow> bool) \<Rightarrow> ustr \<Rightarrow> dataframe option \<Rightarrow> cell list list option \<Rightarrow> app" where
  "init_app settable archivo main hidden =
     (case setup_locale settable of (loc, warned) \<Rightarrow>
      case load_excel_state archivo main hidden of (sdf, vals) \<Rightarrow>
        \<lparr>app_locale = loc, app_warned = warned, app_df = sdf,
         app_profs = (case vals of Some vs \<Rightarrow> map py_str vs | None \<Rightarrow> []),
         app_form = form_init\<rparr>)"

text \<open>
  The whole constructor: \<^verbatim>\<open>init_ui\<close> sets the window icon from
  \<^verbatim>\<open>resource_path("mi_icono.ico")\<close> before it builds the form and loads the
  workbook; when Tk cannot read that file, \<^verbatim>\<open>iconbitmap\<close> raises
  \<^verbatim>\<open>TclError\<close>, which escapes \<^verbatim>\<open>DocumentGenerator()\<close> and ends the program.
  \<open>icon_ok\<close> tells which paths hold a readable icon.
\<close>

definition start_app ::
  "string option \<Rightarrow> string \<Rightarrow> (string \<Rightarrow> bool) \<Rightarrow> (string \<Rightarrow> bool) \<Rightarrow> ustr \<Rightarrow> dataframe option \<Rightarrow>
   cell list list option \<Rightarrow> py_exc + app" where
  "start_app meipass cwd icon_ok settable archivo main hidden =
     (if icon_ok (resource_path meipass cwd ''mi_icono.ico'') then Inr (init_app settable archivo main hidden)
      else Inl TclError)"

text \<open>A directory as \<^verbatim>\<open>os.path.abspath\<close> returns it below a drive's root: not empty and
  not ending in a separator or a drive colon.\<close>

definition plain_dir :: "string \<Rightarrow> bool" where
  "plain_dir d = (d \<noteq> [] \<and> last d \<notin> {nt_sep, CHR ''/'', CHR '':''})"

section \<open>The main loop\<close>

text \<open>
  One event of the main loop: an edit of the form (\<open>form_step\<close>), or a press of the
  button, which runs \<^verbatim>\<open>generate_document\<close> with the operator's and the system's
  answers \<open>e\<close> and changes nothing in the window. The date of issue is printed under
  the locale set at start-up.
\<close>

datatype app_event = UserEdit | PressGenerar env outcome

inductive app_step :: "app \<Rightarrow> app_event \<Rightarrow> app \<Rightarrow> bool" where
  edit: "form_step (app_profs a) (app_form a) f \<Longrightarrow> app_step a UserEdit (a\<lparr>app_form := f\<rparr>)"
| generar: "env_locale e = app_locale a \<Longrightarrow>
    app_step a (PressGenerar e (generate_document e (app_df a) (app_form a))) a"

inductive app_reachable :: "app \<Rightarrow> app \<Rightarrow> bool" for a0 where
  start: "app_reachable a0 a0"
| step: "app_reachable a0 a \<Longrightarrow> app_step a ev b \<Longrightarrow> app_reachable a0 b"

inductive_cases app_step_generarE: "app_step a (PressGenerar e out) b"

section \<open>Example\<close>

text \<open>The window after start-up when the file dialog was cancelled, with a SIRIA number
  and the amount 50 typed in.\<close>

definition example_app_nofile :: app where
  "example_app_nofile = init_app (\<lambda>_. True) [] None None"

definition example_app_nofile_filled :: app where
  "example_app_nofile_filled = example_app_nofile\<lparr>app_form :=
     calculate_copago ((app_form example_app_nofile)\<lparr>numero_siria_entry := u ''1001''\<rparr>\<lparr>cuantia_entry := u ''50''\<rparr>)\<rparr>"

text \<open>The window after a successful load of the example workbook on a system with no
  Spanish locale, and the form filled for the minor \<^verbatim>\<open>2002\<close> with the code
  \<^verbatim>\<open>ATSANGA\<close>, the amount 50 and the professional \<^verbatim>\<open>Marta\<close>.\<close>

definition example_app_loaded :: app where
  "example_app_loaded = init_app (\<lambda>_. False) (u ''recibos.xlsx'') (Some example_frame) (Some example_oculta)"

definition example_app_minor :: app where
  "example_app_minor = example_app_loaded\<lparr>app_form :=
     (calculate_copago ((calculate_copago ((app_form example_app_loaded)\<lparr>numero_siria_entry := u ''2002''\<rparr>
        \<lparr>codigo_ayuda := ''ATSANGA''\<rparr>))\<lparr>cuantia_entry := u ''50''\<rparr>))\<lparr>profesional := u ''Marta''\<rparr>\<rparr>"

section \<open>Properties\<close>

lemma app_step_frame:
  "app_step a ev b \<Longrightarrow> app_df b = app_df a \<and> app_profs b = app_profs a \<and> app_locale b = app_locale a"
  by (induction rule: app_step.induct) simp_all

lemma app_reachable_frame:
  "app_reachable a0 a \<Longrightarrow> app_df a = app_df a0 \<and> app_profs a = app_profs a0 \<and> app_locale a = app_locale a0"
  by (induction rule: app_reachable.induct) (auto dest: app_step_frame)

lemma app_reachable_edit:
  "app_reachable a0 a \<Longrightarrow> form_step (app_profs a) (app_form a) f \<Longrightarrow> app_reachable a0 (a\<lparr>app_form := f\<rparr>)"
  by (rule app_reachable.step) (auto intro: app_step.edit)

lemma app_written_fecha:
  assumes "app_step a (PressGenerar e (Written fn ctx ok)) b"
  shows "ctx ''fecha_actual'' = Some (CStr (fmt_long (app_locale a) (fst (env_now e))))"
proof -
  from assms have g: "generate_document e (app_df a) (app_form a) = Written fn ctx ok"
    and l: "env_locale e = app_locale a"
    by (auto elim: app_step_generarE)
  obtain df where df: "app_df a = Some df"
    using g by (cases "app_df a") (auto simp: generate_document_def split: sum.splits)
  obtain minor fecha t ctx0 where "request_fields e (app_form a) ctx0 = Inr ctx"
    by (rule generate_document_WrittenE [OF g [unfolded df]])
  then show ?thesis using l by (simp add: request_fields_fecha)
qed

lemma generate_document_label:
  "generate_document e sdf (f\<lparr>copago_label := x\<rparr>) = generate_document e sdf f"
proof -
  have "validate_input (f\<lparr>copago_label := x\<rparr>) = validate_input f"
    "numero_siria (f\<lparr>copago_label := x\<rparr>) = numero_siria f"
    "\<And>ctx. request_fields e (f\<lparr>copago_label := x\<rparr>) ctx = request_fields e f ctx"
    by (simp_all add: validate_input_def numero_siria_def request_fields_def cuantia_final_def cuantia_str_def
        split: option.split)
  then show ?thesis by (simp add: generate_document_def Let_def split: sum.split option.split)
qed

lemma nt_join_plain_inj:
  "plain_dir a \<Longrightarrow> plain_dir b \<Longrightarrow> nt_join a r = nt_join b r \<longleftrightarrow> a = b"
  by (auto simp: nt_join_def plain_dir_def)

lemma load_excel_state_no_df:
  "archivo = [] \<or> main = None \<Longrightarrow> fst (load_excel_state archivo main hidden) = None"
  by (auto simp: load_excel_state_def)

lemma example_app_nofile_filled_reachable:
  "app_reachable (init_app (\<lambda>_. True) [] None None) example_app_nofile_filled"
proof -
  let ?a1 = "example_app_nofile\<lparr>app_form := (app_form example_app_nofile)\<lparr>numero_siria_entry := u ''1001''\<rparr>\<rparr>"
  have s1: "app_step example_app_nofile UserEdit ?a1"
    by (rule app_step.edit [OF form_step.type_siria])
  have s2: "app_step ?a1 UserEdit example_app_nofile_filled"
    using app_step.edit [OF form_step.type_cuantia, of ?a1 "u ''50''"]
    by (simp add: example_app_nofile_filled_def)
  show ?thesis
    unfolding example_app_nofile_def [symmetric]
    by (rule app_reachable.step [OF app_reachable.step [OF app_reachable.start s1] s2])
qed

text \<open>C17. When the file dialog is cancelled or the main sheet cannot be read,
  \<^verbatim>\<open>init_ui\<close> calls \<^verbatim>\<open>root.quit()\<close> before the main loop starts, which has no
  effect: the window runs with no frame, and in every state it reaches a press of
  \<^verbatim>\<open>Generar recib\<acute>i\<close> on valid input ends in an uncaught \<^verbatim>\<open>TypeError\<close>.\<close>

theorem app_failed_load_crash:
  assumes "archivo = [] \<or> main = None"
    and "app_reachable (init_app settable archivo main hidden) a"
    and "app_step a (PressGenerar e out) b" and "validate_input (app_form a) = Inr ()"
  shows "out = Crash TypeError"
proof -
  have "app_df a = None"
    using app_reachable_frame [OF assms(2)] load_excel_state_no_df [OF assms(1), of hidden]
    by (simp add: init_app_def split: prod.splits)
  with assms(3,4) show ?thesis
    by (auto elim: app_step_generarE simp: generate_document_def)
qed

theorem app_failed_load_crash_witness:
  "generate_document (example_env\<lparr>env_locale := LocaleEsUTF8\<rparr>) (app_df example_app_nofile_filled)
     (app_form example_app_nofile_filled) = Crash TypeError"
proof (rule app_failed_load_crash)
  show "[] = [] \<or> (None :: dataframe option) = None" by simp
  show "app_reachable (init_app (\<lambda>_. True) [] None None) example_app_nofile_filled"
    by (rule example_app_nofile_filled_reachable)
  show "app_step example_app_nofile_filled
      (PressGenerar (example_env\<lparr>env_locale := LocaleEsUTF8\<rparr>)
        (generate_document (example_env\<lparr>env_locale := LocaleEsUTF8\<rparr>) (app_df example_app_nofile_filled)
          (app_form example_app_nofile_filled))) example_app_nofile_filled"
    by (rule app_step.generar)
       (simp add: example_app_nofile_filled_def example_app_nofile_def init_app_def setup_locale_def
          load_excel_state_def)
  show "validate_input (app_form example_app_nofile_filled) = Inr ()"
    by (simp add: example_app_nofile_filled_def example_app_nofile_def init_app_def setup_locale_def
        load_excel_state_def form_init_def codigo_default_def codigo_values_eq codigos_ayuda_descripcion_def
        validate_input_def cuantia_str_def py_replace1_def py_float_eval py_gt_int_def maximo_def
        py_dict_def maximos_ayuda_def)
qed

text \<open>C18. On a system that accepts neither \<^verbatim>\<open>es_ES.UTF-8\<close> nor \<^verbatim>\<open>spanish\<close>, the
  start-up shows the locale warning and the application keeps running; every receipt it
  then writes dates itself with the English month name ("09 de November de 2025").\<close>

theorem app_receipt_date_locale:
  assumes "\<not> settable ''es_ES.UTF-8''" "\<not> settable ''spanish''"
    and "app_reachable (init_app settable archivo main hidden) a"
    and "app_step a (PressGenerar e (Written fn ctx ok)) b"
  shows "app_warned (init_app settable archivo main hidden) \<and>
         ctx ''fecha_actual'' = Some (CStr (fmt_long LocaleC (fst (env_now e))))"
proof -
  have l: "setup_locale settable = (LocaleC, True)" using assms(1,2) by (simp add: setup_locale_def)
  then have "app_locale (init_app settable archivo main hidden) = LocaleC \<and> app_warned (init_app settable archivo main hidden)"
    by (simp add: init_app_def split: prod.split)
  moreover have "app_locale a = app_locale (init_app settable archivo main hidden)"
    using app_reachable_frame [OF assms(3)] by simp
  ultimately show ?thesis using app_written_fecha [OF assms(4)] by simp
qed

theorem app_receipt_date_locale_witness:
  "\<exists>ctx. app_reachable example_app_loaded example_app_minor \<and>
     app_step example_app_minor (PressGenerar (example_env\<lparr>env_locale := LocaleC\<rparr>)
       (Written (u ''LU.PE_2002_2025.11.09.docx'') ctx True)) example_app_minor \<and>
     ctx ''fecha_actual'' = Some (CStr (u ''09 de November de 2025''))"
proof -
  let ?E = "example_env\<lparr>env_locale := LocaleC\<rparr>"
  have df: "astype_str_col SIRIA_BENEFICIARIA example_frame = Inr example_frame"
    by (simp add: astype_str_col_def example_frame_def example_columns_def py_str_def)
  have vs: "load_professional_values example_oculta = Inr [CStr (u ''Marta''), CStr (u ''Jose'')]"
    by (simp add: load_professional_values_def iloc_col_def example_oculta_def dropna_def pd_isna_def)
  have a0: "app_locale example_app_loaded = LocaleC" "app_df example_app_loaded = Some example_frame"
    "app_profs example_app_loaded = [u ''Marta'', u ''Jose'']" "app_form example_app_loaded = form_init"
    using df vs by (simp_all add: example_app_loaded_def init_app_def setup_locale_def load_excel_state_def py_str_def)
  let ?a1 = "example_app_loaded\<lparr>app_form := (app_form example_app_loaded)\<lparr>numero_siria_entry := u ''2002''\<rparr>\<rparr>"
  let ?a2 = "?a1\<lparr>app_form := calculate_copago ((app_form ?a1)\<lparr>codigo_ayuda := ''ATSANGA''\<rparr>)\<rparr>"
  let ?a3 = "?a2\<lparr>app_form := calculate_copago ((app_form ?a2)\<lparr>cuantia_entry := u ''50''\<rparr>)\<rparr>"
  let ?a4 = "?a3\<lparr>app_form := (app_form ?a3)\<lparr>profesional := u ''Marta''\<rparr>\<rparr>"
  have r1: "app_reachable example_app_loaded ?a1"
    by (rule app_reachable_edit [OF app_reachable.start form_step.type_siria])
  have r2: "app_reachable example_app_loaded ?a2"
    by (rule app_reachable_edit [OF r1 form_step.select_codigo])
       (simp add: codigo_values_eq codigos_ayuda_descripcion_def)
  have r3: "app_reachable example_app_loaded ?a3"
    by (rule app_reachable_edit [OF r2 form_step.type_cuantia])
  have r4: "app_reachable example_app_loaded ?a4"
    by (rule app_reachable_edit [OF r3 form_step.select_profesional]) (simp add: a0(3))
  have a4: "?a4 = example_app_minor" by (simp add: example_app_minor_def)
  have f: "(app_form example_app_minor)\<lparr>copago_label := []\<rparr> = example_form (u ''2002'')"
    by (simp add: example_app_minor_def a0(4) form_init_def calculate_copago_def example_form_def)
  obtain ctx where g: "generate_document ?E (Some example_frame) (example_form (u ''2002'')) =
      Written (u ''LU.PE_2002_2025.11.09.docx'') ctx True"
    using example_minor_written [of LocaleC] by blast
  have g': "generate_document ?E (app_df example_app_minor) (app_form example_app_minor) =
      Written (u ''LU.PE_2002_2025.11.09.docx'') ctx True"
    using g generate_document_label [of ?E "Some example_frame" "[]" "app_form example_app_minor"]
    unfolding f by (simp add: example_app_minor_def a0(2))
  have st: "app_step example_app_minor (PressGenerar ?E (Written (u ''LU.PE_2002_2025.11.09.docx'') ctx True))
      example_app_minor"
    using app_step.generar [of ?E example_app_minor] g'
    by (simp add: example_app_minor_def a0(1))
  have r: "app_reachable (init_app (\<lambda>_. False) (u ''recibos.xlsx'') (Some example_frame) (Some example_oculta)) example_app_minor"
  proof -
    have "app_reachable example_app_loaded example_app_minor" using r4 unfolding a4 .
    then show ?thesis unfolding example_app_loaded_def .
  qed
  have d: "fmt_long LocaleC (fst (env_now ?E)) = u ''09 de November de 2025''"
    by (simp add: example_env_def fmt_long_def month_name_def months_en_def zpad_def nat_str_def
        nat_digits.simps year_str_def)
  have "ctx ''fecha_actual'' = Some (CStr (u ''09 de November de 2025''))"
    using app_receipt_date_locale [OF _ _ r st] d by simp
  moreover have "app_reachable example_app_loaded example_app_minor" using r4 unfolding a4 .
  ultimately show ?thesis using st by blast
qed

text \<open>C19. Run as a script, the program looks for its icon in the working directory, not
  beside the script: started from any other directory, with the icon only beside the
  script, the constructor raises \<^verbatim>\<open>TclError\<close> and no window opens.\<close>

theorem start_app_script_cwd:
  assumes "plain_dir script_dir" "plain_dir cwd" "cwd \<noteq> script_dir"
  shows "start_app None cwd (\<lambda>p. p = nt_join script_dir ''mi_icono.ico'') settable archivo main hidden = Inl TclError"
  using nt_join_plain_inj [OF assms(2,1)] assms(3) by (simp add: start_app_def resource_path_def)

theorem start_app_script_cwd_witness:
  "start_app None (''C:'' @ nt_sep # ''Users'' @ nt_sep # ''ana'')
     (\<lambda>p. p = ''C:'' @ nt_sep # ''Apps'' @ nt_sep # ''recibos'' @ nt_sep # ''mi_icono.ico'') (\<lambda>_. True) [] None None
   = Inl TclError"
proof -
  have "nt_join (''C:'' @ nt_sep # ''Apps'' @ nt_sep # ''recibos'') ''mi_icono.ico'' =
      ''C:'' @ nt_sep # ''Apps'' @ nt_sep # ''recibos'' @ nt_sep # ''mi_icono.ico''"
    by (simp add: nt_join_def nt_sep_def)
  moreover have "start_app None (''C:'' @ nt_sep # ''Users'' @ nt_sep # ''ana'')
      (\<lambda>p. p = nt_join (''C:'' @ nt_sep # ''Apps'' @ nt_sep # ''recibos'') ''mi_icono.ico'') (\<lambda>_. True) [] None None
    = Inl TclError"
    by (rule start_app_script_cwd) (simp_all add: plain_dir_def nt_sep_def)
  ultimately show ?thesis by simp
qed

end
