(* ===== verification/DateParse.thy ===== *)
theory DateParse
  imports Repository PyFloat
begin

text \<open>
  \<^verbatim>\<open>pd.to_datetime\<close> on a birth date stored as text (lines 241 and 405), for the two
  forms pandas reads without falling back to \<^verbatim>\<open>dateutil\<close>: the ISO form
  \<^verbatim>\<open>YYYY-MM-DD[ HH:MM:SS]\<close>, and the delimited day/month forms of
  \<^verbatim>\<open>_parse_delimited_date\<close> (pandas \<^verbatim>\<open>tslibs/parsing.pyx\<close>), which read the
  first field as the month and swap day and month only when the first field exceeds 12
  (\<^verbatim>\<open>dayfirst=False\<close>, which the program does not change). The format pandas guesses
  from the string (\<^verbatim>\<open>guess_datetime_format\<close>) gives the same dates on these forms.
  \<open>pd_parse_known\<close> is \<open>None\<close> for every other string (the \<^verbatim>\<open>dateutil\<close> fallback
  is not modelled), \<open>Some None\<close> when pandas raises, \<open>Some (Some ts)\<close> for the
  timestamp. The model's parser parameter is \<open>pandas_compatible\<close> when it agrees with
  pandas on these forms.
\<close>

section \<open>Fields\<close>

definition is_digit_cp :: "nat \<Rightarrow> bool" where
  "is_digit_cp c \<longleftrightarrow> 48 \<le> c \<and> c \<le> 57"

text \<open>A fixed-width decimal field (\<^verbatim>\<open>_parse_2digit\<close>, \<^verbatim>\<open>_parse_4digit\<close>): \<open>None\<close>
  when a character is not a digit.\<close>

definition num_field :: "ustr \<Rightarrow> nat option" where
  "num_field s = (if s \<noteq> [] \<and> list_all is_digit_cp s then Some (digits_val (map (\<lambda>c. c - 48) s)) else None)"

text \<open>\<^verbatim>\<open>_is_delimiter\<close>: a space, \<^verbatim>\<open>/\<close>, \<^verbatim>\<open>-\<close> or \<^verbatim>\<open>.\<close>.\<close>

definition is_delim :: "nat \<Rightarrow> bool" where
  "is_delim c \<longleftrightarrow> c = 32 \<or> c = 47 \<or> c = 45 \<or> c = 46"

text \<open>The month, day and year fields of the five shapes pandas recognises, by length and
  delimiter positions, and whether day and month may be swapped (not for
  \<^verbatim>\<open>MM/YYYY\<close>, whose day is 1 and whose delimiter may not be a point).\<close>

definition delim_fields :: "ustr \<Rightarrow> (ustr \<times> ustr \<times> ustr \<times> bool) option" where
  "delim_fields s =
     (let n = length s in
      if n = 10 \<and> is_delim (s ! 2) \<and> is_delim (s ! 5) then Some (take 2 s, take 2 (drop 3 s), drop 6 s, True)
      else if n = 9 \<and> is_delim (s ! 1) \<and> is_delim (s ! 4) then Some (take 1 s, take 2 (drop 2 s), drop 5 s, True)
      else if n = 9 \<and> is_delim (s ! 2) \<and> is_delim (s ! 4) then Some (take 2 s, take 1 (drop 3 s), drop 5 s, True)
      else if n = 8 \<and> is_delim (s ! 1) \<and> is_delim (s ! 3) then Some (take 1 s, take 1 (drop 2 s), drop 4 s, True)
      else if n = 7 \<and> is_delim (s ! 2) \<and> s ! 2 \<noteq> 46 then Some (take 2 s, [49], drop 3 s, False)
      else None)"

text \<open>The range of a nanosecond \<^verbatim>\<open>pd.Timestamp\<close>, from
  \<^verbatim>\<open>1677-09-21 00:12:43.145224193\<close> to \<^verbatim>\<open>2262-04-11 23:47:16.854775807\<close>; a
  parsed date outside it raises \<^verbatim>\<open>OutOfBoundsDatetime\<close>.\<close>

definition ts_in_bounds :: "timestamp \<Rightarrow> bool" where
  "ts_in_bounds ts \<longleftrightarrow> ((1677, 9, 21), 763145224193) \<le> ts \<and> ts \<le> ((2262, 4, 11), 85636854775807)"

definition pd_delimited :: "ustr \<Rightarrow> timestamp option option" where
  "pd_delimited s =
     (case delim_fields s of
        None \<Rightarrow> None
      | Some (a, b, c, can_swap) \<Rightarrow>
          (case (num_field a, num_field b, num_field c) of
             (Some mo, Some dd, Some y) \<Rightarrow>
               if y < 1000 then None
               else if 1 \<le> mo \<and> mo \<le> 31 \<and> 1 \<le> dd \<and> dd \<le> 31 \<and> (mo \<le> 12 \<or> dd \<le> 12) then
                 (let md = (if 12 < mo \<and> can_swap then (dd, mo) else (mo, dd)) in
                  if valid_date (int y, fst md, snd md) \<and> ts_in_bounds ((int y, fst md, snd md), 0)
                  then Some (Some ((int y, fst md, snd md), 0))
                  else Some None)
               else Some None
           | _ \<Rightarrow> None))"

text \<open>The ISO form, with an optional time of day after a space or \<^verbatim>\<open>T\<close>.\<close>

definition pd_iso :: "ustr \<Rightarrow> timestamp option option" where
  "pd_iso s =
     (if (length s = 10 \<or> (length s = 19 \<and> (s ! 10 = 32 \<or> s ! 10 = 84) \<and> s ! 13 = 58 \<and> s ! 16 = 58))
         \<and> s ! 4 = 45 \<and> s ! 7 = 45 then
        (case (num_field (take 4 s), num_field (take 2 (drop 5 s)), num_field (take 2 (drop 8 s))) of
           (Some y, Some m, Some d) \<Rightarrow>
             (let tm = (if length s = 10 then Some (0, 0, 0)
                        else case (num_field (take 2 (drop 11 s)), num_field (take 2 (drop 14 s)),
                                   num_field (take 2 (drop 17 s))) of
                               (Some h, Some mi, Some sec) \<Rightarrow> Some (h, mi, sec)
                             | _ \<Rightarrow> None) in
              case tm of
                None \<Rightarrow> None
              | Some (h, mi, sec) \<Rightarrow>
                  if valid_date (int y, m, d) \<and> h < 24 \<and> mi < 60 \<and> sec < 60 \<and>
                     ts_in_bounds ((int y, m, d), ((h * 60 + mi) * 60 + sec) * 1000000000)
                  then Some (Some ((int y, m, d), ((h * 60 + mi) * 60 + sec) * 1000000000))
                  else Some None)
         | _ \<Rightarrow> None)
      else None)"

definition pd_parse_known :: "ustr \<Rightarrow> timestamp option option" where
  "pd_parse_known s = (case pd_iso s of Some r \<Rightarrow> Some r | None \<Rightarrow> pd_delimited s)"

text \<open>A parser for the model that agrees with pandas wherever \<open>pd_parse_known\<close> decides,
  and one such parser, which rejects the strings left to \<^verbatim>\<open>dateutil\<close>.\<close>

definition pandas_compatible :: "(ustr \<Rightarrow> timestamp option) \<Rightarrow> bool" where
  "pandas_compatible p \<longleftrightarrow> (\<forall>s r. pd_parse_known s = Some r \<longrightarrow> p s = r)"

definition pd_parse :: "ustr \<Rightarrow> timestamp option" where
  "pd_parse s = (case pd_parse_known s of Some r \<Rightarrow> r | None \<Rightarrow> None)"

section \<open>Example\<close>

text \<open>The example sheet with the minor's birth date typed as text, the Spanish way
  (\<^verbatim>\<open>12/10/2007\<close>, 12 October 2007).\<close>

definition example_frame_spanish_birth :: dataframe where
  "example_frame_spanish_birth = example_frame\<lparr>df_rows :=
     [df_rows example_frame ! 0, (df_rows example_frame ! 1)[8 := CStr (u ''12/10/2007'')]]\<rparr>"

section \<open>Properties\<close>

lemma pandas_compatible_pd_parse: "pandas_compatible pd_parse"
  by (simp add: pandas_compatible_def pd_parse_def)

lemma pandas_compatibleD: "pandas_compatible p \<Longrightarrow> pd_parse_known s = Some r \<Longrightarrow> p s = r"
  by (simp add: pandas_compatible_def)

lemma length_nat_digits_pow: "n < 10 ^ k \<Longrightarrow> 0 < k \<Longrightarrow> length (nat_digits n) \<le> k"
proof (induction n arbitrary: k rule: nat_digits.induct)
  case (1 n)
  show ?case
  proof (cases "n < 10")
    case True
    then show ?thesis using "1.prems" by (simp add: nat_digits.simps [of n])
  next
    case False
    then obtain k' where k: "k = Suc k'" using "1.prems" by (cases k) auto
    have "n div 10 < 10 ^ k'" using "1.prems" k by simp
    moreover have "0 < k'" using False "1.prems" k by (cases k') auto
    ultimately have "length (nat_digits (n div 10)) \<le> k'" using "1.IH" False by simp
    then show ?thesis using False k by (simp add: nat_digits.simps [of n])
  qed
qed

lemma zpad_shape:
  assumes "n < 10 ^ w" "0 < w"
  shows "length (zpad w n) = w" "list_all is_digit_cp (zpad w n)"
    "digits_val (map (\<lambda>c. c - 48) (zpad w n)) = n"
proof -
  have l: "length (nat_digits n) \<le> w" by (rule length_nat_digits_pow [OF assms])
  show "length (zpad w n) = w" using l by (simp add: zpad_def nat_str_def)
  show "list_all is_digit_cp (zpad w n)"
    by (auto simp: zpad_def list_all_iff is_digit_cp_def dest: nat_str_digit)
  have "map (\<lambda>c. c - 48) (zpad w n) = replicate (w - length (nat_str n)) 0 @ nat_digits n"
    by (simp add: zpad_def nat_str_def comp_def)
  then show "digits_val (map (\<lambda>c. c - 48) (zpad w n)) = n"
    by (simp add: digits_val_zeros digits_val_nat_digits)
qed

lemma num_field_zpad:
  "n < 10 ^ w \<Longrightarrow> 0 < w \<Longrightarrow> num_field (zpad w n) = Some n"
  using zpad_shape [of n w] by (auto simp: num_field_def)

lemma dmy_text_fields:
  assumes "valid_date (y, m, d)" "1000 \<le> y" "is_delim c"
  shows "pd_iso (zpad 2 d @ [c] @ zpad 2 m @ [c] @ zpad 4 (nat y)) = None"
    "delim_fields (zpad 2 d @ [c] @ zpad 2 m @ [c] @ zpad 4 (nat y)) = Some (zpad 2 d, zpad 2 m, zpad 4 (nat y), True)"
    "num_field (zpad 2 d) = Some d" "num_field (zpad 2 m) = Some m" "num_field (zpad 4 (nat y)) = Some (nat y)"
proof -
  have v: "1 \<le> m" "m \<le> 12" "1 \<le> d" "d \<le> 31" "y \<le> 9999"
    using assms(1) by (auto simp: valid_date_def days_in_month_def split: if_splits)
  have b: "d < 10 ^ 2" "m < 10 ^ 2" "nat y < 10 ^ 4" using v assms(2) by simp_all
  show "num_field (zpad 2 d) = Some d" "num_field (zpad 2 m) = Some m" "num_field (zpad 4 (nat y)) = Some (nat y)"
    using b by (simp_all add: num_field_zpad)
  obtain a1 a2 where a: "zpad 2 d = [a1, a2]"
    using zpad_shape [OF b(1)] by (auto simp: length_Suc_conv eval_nat_numeral)
  obtain b1 b2 where bb: "zpad 2 m = [b1, b2]" "is_digit_cp b2"
    using zpad_shape [OF b(2)] by (auto simp: length_Suc_conv eval_nat_numeral)
  obtain c1 c2 c3 c4 where c: "zpad 4 (nat y) = [c1, c2, c3, c4]"
    using zpad_shape [OF b(3)] by (auto simp: length_Suc_conv eval_nat_numeral)
  show "pd_iso (zpad 2 d @ [c] @ zpad 2 m @ [c] @ zpad 4 (nat y)) = None"
    using a bb c by (simp add: pd_iso_def is_digit_cp_def)
  show "delim_fields (zpad 2 d @ [c] @ zpad 2 m @ [c] @ zpad 4 (nat y)) = Some (zpad 2 d, zpad 2 m, zpad 4 (nat y), True)"
    using a bb(1) c assms(3) by (simp add: delim_fields_def)
qed

lemma ts_in_bounds_years: "1678 \<le> y \<Longrightarrow> y \<le> 2261 \<Longrightarrow> ts_in_bounds ((y, m, d), t)"
  by (simp add: ts_in_bounds_def)

lemma pd_parse_known_dmy:
  assumes "valid_date (y, m, d)" "1678 \<le> y" "y \<le> 2261" "is_delim c"
  shows "pd_parse_known (zpad 2 d @ [c] @ zpad 2 m @ [c] @ zpad 4 (nat y)) =
         Some (Some (if d \<le> 12 then ((y, d, m), 0) else ((y, m, d), 0)))"
proof -
  have y: "1000 \<le> y" using assms(2) by simp
  note f = dmy_text_fields [OF assms(1) y assms(4), simplified]
  have v: "1 \<le> m" "m \<le> 12" "1 \<le> d" "d \<le> 31"
    using assms by (auto simp: valid_date_def days_in_month_def split: if_splits)
  have b: "ts_in_bounds ((y, m, d), 0)" "ts_in_bounds ((y, d, m), 0)"
    using assms(2,3) by (simp_all add: ts_in_bounds_years)
  have "valid_date (y, d, m)" if "d \<le> 12" using v assms(2,3) that by (simp add: valid_date_def days_in_month_def)
  then show ?thesis
    using assms(1,2,3) v b by (simp add: pd_parse_known_def pd_delimited_def f Let_def)
qed

lemma is_minor_dmy_text:
  assumes "pandas_compatible p"
    and "df_find df n = Inr (Some r)"
    and "df_get df r FECHA_NACIMIENTO = Inr (CStr (zpad 2 d @ [47] @ zpad 2 m @ [47] @ zpad 4 (nat y)))"
    and "df_get df r SIRIA_TITULAR_UF = Inr tit"
    and "valid_date (y, m, d)" "1678 \<le> y" "y \<le> 2261" "d \<le> 12" "valid_ts now" "\<not> now < ((y, d, m), 0)"
  shows "is_minor now p df n =
         Inr (age_years now ((y, d, m), 0) < 18,
              Some (CStr (zpad 2 d @ [47] @ zpad 2 m @ [47] @ zpad 4 (nat y))), Some tit)"
proof -
  let ?s = "zpad 2 d @ [47] @ zpad 2 m @ [47] @ zpad 4 (nat y)"
  have "p ?s = Some ((y, d, m), 0)"
    using pandas_compatibleD [OF assms(1) pd_parse_known_dmy [OF assms(5-7), of 47]] assms(8)
    by (simp add: is_delim_def)
  moreover have "valid_date (fst ((y, d, m), 0::nat))"
    using assms(5,8) by (simp add: valid_date_def days_in_month_def)
  ultimately have "calculate_age now p (CStr ?s) = Some (age_years now ((y, d, m), 0))"
    using calculate_age_date [OF assms(9) _ assms(10), of p]
    by (simp add: calculate_age_def to_datetime_def pd_isna_def)
  then show ?thesis
    using is_minor_found [OF assms(2-4)] by (simp add: pd_isna_def EDAD_MAYORIA_def)
qed

text \<open>C10. A birth date typed as text the Spanish way, \<^verbatim>\<open>dd/mm/yyyy\<close> with a day of
  at most 12, is read by \<^verbatim>\<open>is_minor\<close> (\<^verbatim>\<open>pd.to_datetime\<close> without
  \<^verbatim>\<open>dayfirst=True\<close>, line 241) with day and month exchanged, and the minority
  decision is taken on the exchanged date.\<close>

theorem is_minor_text_birth:
  assumes "pandas_compatible p"
    and "df_find df n = Inr (Some r)"
    and "df_get df r FECHA_NACIMIENTO = Inr (CStr (zpad 2 d @ [47] @ zpad 2 m @ [47] @ zpad 4 (nat y)))"
    and "df_get df r SIRIA_TITULAR_UF = Inr tit"
    and "valid_date (y, m, d)" "1678 \<le> y" "y \<le> 2261" "d \<le> 12" "valid_ts now" "\<not> now < ((y, d, m), 0)"
  shows "is_minor now p df n =
         Inr (age_years now ((y, d, m), 0) < 18,
              Some (CStr (zpad 2 d @ [47] @ zpad 2 m @ [47] @ zpad 4 (nat y))), Some tit)"
  using assms by (rule is_minor_dmy_text)

lemma example_spanish_birth_cells:
  "df_find example_frame_spanish_birth (u ''2002'') = Inr (Some (df_rows example_frame_spanish_birth ! 1))"
  "df_get example_frame_spanish_birth (df_rows example_frame_spanish_birth ! 1) FECHA_NACIMIENTO =
     Inr (CStr (zpad 2 12 @ [47] @ zpad 2 10 @ [47] @ zpad 4 (nat 2007)))"
  "df_get example_frame_spanish_birth (df_rows example_frame_spanish_birth ! 1) SIRIA_TITULAR_UF = Inr (CStr (u ''1001''))"
  by (simp_all add: df_find_def df_get_def example_frame_spanish_birth_def example_frame_def example_columns_def
      zpad_def nat_str_def nat_digits.simps)

theorem is_minor_text_birth_witness:
  "is_minor ((2025, 11, 9), 0) pd_parse example_frame_spanish_birth (u ''2002'') =
     Inr (True, Some (CStr (u ''12/10/2007'')), Some (CStr (u ''1001''))) \<and>
   age_years ((2025, 11, 9), 0) ((2007, 10, 12), 0) = 18"
proof -
  have "is_minor ((2025, 11, 9), 0) pd_parse example_frame_spanish_birth (u ''2002'') =
     Inr (age_years ((2025, 11, 9), 0) ((2007, 12, 10), 0) < 18,
          Some (CStr (zpad 2 12 @ [47] @ zpad 2 10 @ [47] @ zpad 4 (nat 2007))), Some (CStr (u ''1001'')))"
    by (rule is_minor_text_birth [OF pandas_compatible_pd_parse example_spanish_birth_cells])
      (simp_all add: valid_date_def days_in_month_def valid_ts_def ns_per_day_def)
  then show ?thesis by (simp add: age_years_def zpad_def nat_str_def nat_digits.simps)
qed

end
