(* ===== verification/Spec2Isabelle.thy ===== *)
theory Spec2Isabelle
  imports App DateParse
begin

text \<open>
  \<^bold>\<open>A verification model of \<^verbatim>\<open>src/generar_recibi.py\<close>.\<close>

  The program is one Tk class, \<^verbatim>\<open>DocumentGenerator\<close>. At start it loads a spreadsheet
  of beneficiaries (\<^verbatim>\<open>load_excel_file\<close>, \<^verbatim>\<open>load_professional_values\<close>), then shows a
  form: SIRIA number, aid code, amount, professional, payment method, a
  \<^verbatim>\<open>M\<acute>aximo\<close> button and a copayment label (\<^verbatim>\<open>create_input_fields\<close>,
  \<^verbatim>\<open>calculate_copago\<close>, \<^verbatim>\<open>set_max_cuantia\<close>). The \<^verbatim>\<open>Generar recib\<acute>i\<close> button
  runs \<^verbatim>\<open>generate_document\<close>. That handler validates the form (\<^verbatim>\<open>validate_input\<close>)
  and decides minority from the birth date (\<^verbatim>\<open>is_minor\<close>, \<^verbatim>\<open>calculate_age\<close> with
  \<^verbatim>\<open>dateutil.relativedelta\<close>). For a minor it resolves the family-unit holder
  through two dialogs. It then builds the receipt context from one or two rows
  (\<^verbatim>\<open>get_person_data\<close>) and the static tables (\<^verbatim>\<open>setup_constants\<close>), deducts the
  copayment, names the file and renders a Word template.

  \<^bold>\<open>Theories and what they model.\<close>
  \<^item> \<open>Prelude\<close>: Python strings as lists of code points (\<open>ustr\<close>, the literal
    reader \<open>u\<close>), and the builtins the program calls: \<^verbatim>\<open>str.upper\<close> as
    \<open>py_upper\<close> over Latin-1, \<^verbatim>\<open>strip\<close>, \<^verbatim>\<open>replace\<close>, and \<^verbatim>\<open>str(int)\<close> as
    \<open>int_str\<close>. Dict literals are association lists read with "last key wins"
    (\<open>py_dict\<close>). Exceptions are the values of \<open>py_exc\<close>, sequenced by
    \<open>exc_bind\<close>.
  \<^item> \<open>Catalog\<close>: \<^verbatim>\<open>setup_constants\<close> (lines 38--207), the three tables copied
    entry by entry, with their lookups.
  \<^item> \<open>Dates\<close>: the calendar, and dateutil's \<^verbatim>\<open>relativedelta(now, birth).years\<close>
    as the library computes it. This covers \<^verbatim>\<open>_set_months\<close>, \<^verbatim>\<open>__add__\<close> with its
    day clipping, and the overshoot loop as the \<open>partial_function (option)\<close>
    \<open>rd_months_loop\<close>. It also holds pandas' conversion of numbers to timestamps
    and the three \<^verbatim>\<open>strftime\<close> formats; \<^verbatim>\<open>%B\<close> is \<open>month_name\<close>, Spanish
    under the two Spanish locales and English under the C locale.
  \<^item> \<open>Repository\<close>: cells and frames as pandas presents them to the program
    (\<open>cell\<close>, \<open>dataframe\<close>, \<open>df_get\<close>, \<open>df_find\<close>), and the operations
    \<open>load_excel_file\<close>, \<open>load_professional_values\<close>, \<open>calculate_age\<close>,
    \<open>is_minor\<close> and \<open>get_person_data\<close>, each with its \<^verbatim>\<open>KeyError\<close> and
    \<^verbatim>\<open>ValueError\<close> paths.
  \<^item> \<open>Binary64\<close>: the values of a Python \<^verbatim>\<open>float\<close> (\<open>pyfloat\<close>: a finite
    rational, the infinities, NaN) and IEEE 754 round-to-nearest-even as the
    executable \<open>round_b64\<close>. It finds the binade with \<open>log2_floor\<close> and the unit in
    the last place with \<open>b64_quantum\<close> (53 bits, subnormals below \<open>2\<^sup>-\<^sup>1\<^sup>0\<^sup>2\<^sup>2\<close>),
    and overflows to an infinity at \<open>2\<^sup>1\<^sup>0\<^sup>2\<^sup>4\<close>. Its lemmas: the rounding error
    (\<open>|r|/2\<^sup>5\<^sup>3\<close> plus half the smallest subnormal), exactness on representable
    values, monotonicity, idempotence, finiteness below \<open>2\<^sup>1\<^sup>0\<^sup>2\<^sup>3\<close>.
  \<^item> \<open>PyFloat\<close>: Python's \<^verbatim>\<open>float(str)\<close> grammar as \<open>py_float\<close> (sign,
    \<^verbatim>\<open>inf\<close>/\<^verbatim>\<open>nan\<close> words, digits with underscores, fraction, exponent), correctly
    rounded. It also holds the comparison with an int, \<^verbatim>\<open>*\<close> and \<^verbatim>\<open>-\<close> as
    \<open>py_mul\<close> and \<open>py_sub\<close>, and \<^verbatim>\<open>:.2f\<close> as \<open>format_2f\<close> on the exact binary value.
  \<^item> \<open>Form\<close>: the widget values as the record \<open>form\<close>, and the handlers
    \<open>validate_input\<close>, \<open>calculate_copago\<close>, \<open>set_max_cuantia\<close>,
    \<open>update_cuantia\<close> and \<open>cuantia_final\<close> (the copayment step of the handler).
    The user's actions with the handler each one fires form the step relation
    \<open>form_step\<close>; \<open>form_reachable\<close> is its closure from \<open>form_init\<close>.
  \<^item> \<open>Generate\<close>: \<^verbatim>\<open>generate_document\<close> in full as \<open>generate_document\<close>.
    Its pieces are \<open>numero_siria\<close>, \<open>resolve_titular\<close> (the \<^verbatim>\<open>askyesno\<close>
    dialog and \<^verbatim>\<open>prompt_for_titular\<close>, whose three exits are \<open>prompt_action\<close>
    and \<open>prompt_for_titular\<close>), \<open>person_context\<close>, \<open>request_fields\<close>,
    \<open>output_filename\<close> and \<open>write_document\<close>. What the user and the operating
    system answer is the record \<open>env\<close>, which also carries the time locale
    chosen at start-up. The result is an \<open>outcome\<close>: an error dialog, an uncaught
    exception, or a written file with its context. The specification's two-step
    holder protocol is the abstract relation \<open>titular_step\<close>.
  \<^item> \<open>App\<close>: the object as a whole. \<open>setup_locale\<close> is the locale fallback
    of \<^verbatim>\<open>__init__\<close> (lines 25--32), \<open>load_excel_state\<close> what
    \<^verbatim>\<open>load_excel_file\<close> leaves in \<^verbatim>\<open>self.df\<close> and \<^verbatim>\<open>self.valores_combined\<close>,
    \<open>init_app\<close> the start-up of \<^verbatim>\<open>__init__\<close>/\<^verbatim>\<open>init_ui\<close> (the
    \<^verbatim>\<open>root.quit()\<close> of a failed load has no effect before the main loop). The main
    loop is the step relation \<open>app_step\<close> over \<open>app_event\<close>s: a form edit
    (\<open>form_step\<close>) or a press of \<^verbatim>\<open>Generar recib\<acute>i\<close> with the dialogs'
    answers; \<open>app_reachable\<close> is its closure from the initial state.
    \<open>start_app\<close> adds the window icon, read through \<open>resource_path\<close> (lines
    13--21) with Windows' \<^verbatim>\<open>os.path.join\<close> as \<open>nt_join\<close>.
  \<^item> \<open>DateParse\<close>: what \<^verbatim>\<open>pd.to_datetime\<close> does with a birth date stored as
    text (lines 241 and 405), for the forms pandas parses itself: ISO
    \<^verbatim>\<open>YYYY-MM-DD[ HH:MM:SS]\<close> (\<open>pd_iso\<close>) and the delimited forms of
    \<^verbatim>\<open>_parse_delimited_date\<close> (\<open>delim_fields\<close>, \<open>pd_delimited\<close>), month first
    with \<^verbatim>\<open>dayfirst=False\<close>. A parser parameter is \<open>pandas_compatible\<close> when it
    agrees with \<open>pd_parse_known\<close>; \<open>pd_parse\<close> is one such parser.

  \<^bold>\<open>What is proved.\<close>
  \<^item> \<open>Generate\<close>: a receipt is written only for a minor, and then it carries both
    roles' fields, \<^verbatim>\<open>Hijo/a\<close>, the copayment amount, and the file name of the
    specified pattern (\<open>generate_document_written\<close>). For every adult that is
    found, the handler raises \<^verbatim>\<open>KeyError\<close> (\<open>generate_document_adult\<close>), so adults
    never get a receipt. Both are shown on an example frame: a minor's receipt
    \<^verbatim>\<open>LU.PE_2002_2025.11.09.docx\<close> with amount \<^verbatim>\<open>42.50\<close>, and the adult's crash.
  \<^item> \<open>Dates\<close>: the overshoot loop returns, after at most one correction. For a
    birth not after now the years it yields equal the calendar-aware age
    \<open>age_years\<close>, including a birth on 29 February; for a birth in the future they are
    minus the whole years until the birth date, in closed form
    (\<open>relativedelta_years_future\<close>).
  \<^item> \<open>Repository\<close>: \<open>is_minor\<close> compares that age with 18, and the 18th
    birthday is the boundary. A numeric birth cell is read as 1970 and gives an adult.
    \<open>get_person_data\<close> copies each field from the column the source's dict display
    names, and sets exactly one protection marker for a known category and none
    otherwise. \<open>load_excel_file\<close> converts exactly the identifier column to text
    (\<open>load_excel_file_cells\<close>), so every row is found by \<^verbatim>\<open>str\<close> of its identifier,
    a number included (\<open>load_excel_file_text_id\<close>).
  \<^item> \<open>PyFloat\<close>, \<open>Form\<close>: validation against the maximum accepts exactly the
    (rounded) amounts up to it; \<^verbatim>\<open>M\<acute>aximo\<close> always yields a valid form. For the
    two copay codes the receipt amount is exactly 85\% to the cent for whole amounts,
    and for every accepted amount it is within half a cent plus \<open>10\<^sup>-\<^sup>9\<close> of 85\% of
    the entry and never above 85\% of the maximum by more; for every other code it is
    the entry unchanged. Validation accepts \<^verbatim>\<open>nan\<close> and negative amounts. The form
    invariant holds in every reachable state, by rule induction over \<open>form_step\<close>.
    Three computed examples back findings without being general properties: at a
    half cent the amount follows float noise (\<^verbatim>\<open>0,70\<close> gives \<^verbatim>\<open>0.59\<close>,
    \<open>cuantia_final_half_cent\<close>), \<^verbatim>\<open>600.0000000000000001\<close> passes for a maximum of
    600 (\<open>validate_input_above_maximo\<close>), and \<^verbatim>\<open>nan\<close> is printed as the amount
    (\<open>cuantia_final_nan\<close>).
  \<^item> \<open>Generate\<close>, refinement: \<open>resolve_titular\<close> implements the holder
    protocol: the protocol can always end, and each ending yields its number.
  \<^item> \<open>App\<close>: after a failed load every press of the button on valid input raises
    \<^verbatim>\<open>TypeError\<close>; without a Spanish locale receipts carry English month names.
    Run as a script from another directory than its own, the program stops at start-up
    with \<^verbatim>\<open>TclError\<close>, because the icon is looked up in the working directory.
  \<^item> \<open>DateParse\<close>: a birth date typed as Spanish text \<^verbatim>\<open>dd/mm/yyyy\<close> with a day of
    at most 12 is read by \<open>is_minor\<close> with day and month exchanged, so
    \<^verbatim>\<open>12/10/2007\<close>, a person of 18 on 9 November 2025, is taken for a minor born on
    10 December 2007.
  \<^item> Across components (this theory): a receipt written for such a minor prints the
    exchanged date in \<^verbatim>\<open>menor_fecha_nacimiento\<close>
    (\<open>generate_document_spanish_birth\<close>), shown on the example sheet, whose receipt
    reads \<^verbatim>\<open>10-12-2007\<close> for a person born on 12 October 2007.

  \<^bold>\<open>Choices and bounds.\<close>
  \<^item> Floats are binary64 with round-to-nearest-even, as CPython computes them.
    The sign of zero is not kept. It shows in one place: for the amount entry
    \<^verbatim>\<open>-0\<close> the copayment label of \<^verbatim>\<open>calculate_copago\<close> (line 582) reads
    \<^verbatim>\<open>-0.00\<close> in Python and \<^verbatim>\<open>0.00\<close> in the model; no theorem is about that label
    for a negative entry. The receipt amount \<^verbatim>\<open>x - x * 0.15\<close> of a zero is
    \<open>+0.0\<close> in both. \<^verbatim>\<open>float()\<close> accepts ASCII digits only, where CPython also
    accepts other Unicode decimal digits; no theorem depends on them. Concrete
    roundings in the witnesses are evaluated by \<open>code_simp\<close>.
  \<^item> \<^verbatim>\<open>datetime.now()\<close> is called three times by the handler and is one timestamp
    \<open>env_now\<close> here.
  \<^item> pandas' text-date parser is a parameter (\<open>env_parse\<close>); the theorems about
    text dates assume it is \<open>pandas_compatible\<close>, which fixes it on the ISO and
    delimited forms and leaves it free elsewhere.
    Parsed dates outside the nanosecond \<^verbatim>\<open>pd.Timestamp\<close> range (1677--2262,
    \<open>ts_in_bounds\<close>) raise, so the text-date theorems assume years 1678--2261. In
    that range \<^verbatim>\<open>relativedelta\<close>'s own \<^verbatim>\<open>ValueError\<close> for years outside 1--9999
    cannot occur, and it is not modelled.
  \<^item> Every edit of the amount field is taken to fire its \<^verbatim>\<open>KeyRelease\<close> binding
    (\<open>form_step\<close>); a paste with the mouse would leave the copayment label stale.
  \<^item> The icon lookup of \<open>start_app\<close> compares path strings exactly, where Windows
    compares them ignoring case.
  \<^item> \<^verbatim>\<open>str.upper\<close> is exact for Latin-1 and the identity above it.
  \<^item> Years are printed with four digits, as glibc does for years 1000--9999.
  \<^item> No fuel is used. The one unbounded loop, dateutil's overshoot correction, is a
    \<open>partial_function (option)\<close>, and the theorem \<open>relativedelta_years_total\<close>
    shows that it always returns.

  \<^bold>\<open>Not modelled.\<close>
  \<^item> Widget layout (the rest of \<^verbatim>\<open>init_ui\<close>, \<^verbatim>\<open>create_input_fields\<close>,
    \<^verbatim>\<open>create_buttons\<close>, the geometry of \<^verbatim>\<open>prompt_for_titular\<close>): it places
    widgets and computes none of the data the theorems are about. The answers of the
    file dialog and of the other dialogs are inputs.
  \<^item> \<^verbatim>\<open>locale.setlocale\<close> itself: whether a locale name is accepted is the
    parameter of \<open>setup_locale\<close>.
  \<^item> \<^verbatim>\<open>pd.read_excel\<close>: the frames it returns are inputs of \<open>load_excel_file\<close>.
  \<^item> The \<^verbatim>\<open>dateutil\<close> fallback of \<^verbatim>\<open>pd.to_datetime\<close> (month names, other
    layouts of a text date): a general date-string grammar outside the program, left
    to the parser parameter.
  \<^item> Template rendering: the Word template \<^verbatim>\<open>plantilla_recibo.docx\<close> is not part of
    the sources, and Jinja rendering inside \<^verbatim>\<open>docxtpl\<close> is library code; the model
    stops at the context dictionary passed to \<^verbatim>\<open>render\<close>.
  \<^item> \<^verbatim>\<open>DocxTemplate.render\<close>/\<^verbatim>\<open>save\<close> and \<^verbatim>\<open>os.startfile\<close>: only whether they
    succeed matters.
\<close>

section \<open>Properties across components\<close>

lemma example_spanish_birth_parse:
  "pd_parse (zpad 2 12 @ [47] @ zpad 2 10 @ [47] @ zpad 4 (nat 2007)) = Some ((2007, 12, 10), 0)"
  using pandas_compatibleD [OF pandas_compatible_pd_parse pd_parse_known_dmy [of 2007 10 12 47]]
  by (simp add: valid_date_def days_in_month_def is_delim_def)

lemma example_spanish_person_data:
  "\<exists>dt. get_person_data pd_parse example_frame_spanish_birth (u ''1001'') True = Inr (Some dt)"
  "\<exists>dm. get_person_data pd_parse example_frame_spanish_birth (u ''2002'') False = Inr (Some dm) \<and>
      dm ''menor_nombre'' = Some (CStr (u ''Luis'')) \<and> dm ''menor_apellidos'' = Some (CStr (u ''Perez''))"
  using example_spanish_birth_parse
  by (simp_all add: get_person_data_def df_find_def df_get_def example_frame_spanish_birth_def example_frame_def
        example_columns_def person_columns_def to_datetime_def pd_isna_def py_dict_def map_add_def
        tipos_proteccion_def zpad_def nat_str_def nat_digits.simps Let_def)

text \<open>C11. The receipt of a minor whose birth date is typed as Spanish text
  \<^verbatim>\<open>dd/mm/yyyy\<close> with a day of at most 12 prints that date with day and month
  exchanged: \<^verbatim>\<open>get_person_data\<close> formats the timestamp pandas read month first.\<close>

theorem generate_document_spanish_birth:
  assumes "pandas_compatible (env_parse e)"
    and "generate_document e (Some df) f = Written fn ctx ok"
    and "df_find df (numero_siria f) = Inr (Some r)"
    and "df_get df r FECHA_NACIMIENTO = Inr (CStr (zpad 2 d @ [47] @ zpad 2 m @ [47] @ zpad 4 (nat y)))"
    and "valid_date (y, m, d)" "1678 \<le> y" "y \<le> 2261" "d \<le> 12"
  shows "ctx ''menor_fecha_nacimiento'' = Some (CStr (fmt_dmy (y, d, m)))"
proof -
  obtain fecha t ctx0 where "validate_input f = Inr ()"
    "is_minor (env_now e) (env_parse e) df (numero_siria f) = Inr (True, fecha, t)"
    and p: "person_context e df (numero_siria f) True t = Inr ctx0"
    and rq: "request_fields e f ctx0 = Inr ctx" "output_filename e (numero_siria f) ctx = Inr fn"
    "template_exists e" "render_save_ok e" "ok = startfile_ok e"
    by (rule generate_document_WrittenE_minor [OF assms(2)])
  obtain dt dm where "get_person_data (env_parse e) df (resolve_titular e t) True = Inr (Some dt)"
    and gm: "get_person_data (env_parse e) df (numero_siria f) False = Inr (Some dm)"
    and c: "ctx0 = (dt ++ dm)(''relacion_familiar'' \<mapsto> CStr (u ''Hijo/a''))"
    by (rule person_context_TrueE [OF p])
  have "env_parse e (zpad 2 d @ [47] @ zpad 2 m @ [47] @ zpad 4 (nat y)) = Some ((y, d, m), 0)"
    using pandas_compatibleD [OF assms(1) pd_parse_known_dmy [OF assms(5-7), of 47]] assms(8)
    by (simp add: is_delim_def)
  then have "\<not> pd_isna (CStr (zpad 2 d @ [47] @ zpad 2 m @ [47] @ zpad 4 (nat y)))"
    "to_datetime (env_parse e) (CStr (zpad 2 d @ [47] @ zpad 2 m @ [47] @ zpad 4 (nat y))) = Some ((y, d, m), 0)"
    by (simp_all add: pd_isna_def to_datetime_def)
  then have "dm ''menor_fecha_nacimiento'' = Some (CStr (fmt_dmy (y, d, m)))"
    using get_person_data_fecha [OF gm assms(3,4)] by simp
  moreover have "''menor_fecha_nacimiento'' \<notin> set request_keys" by (simp add: request_keys_def)
  ultimately show ?thesis using request_fields_Inr(1) [OF rq(1)] c by (simp add: map_add_def)
qed

theorem generate_document_spanish_birth_witness:
  "\<exists>fn ctx. generate_document (example_env\<lparr>env_parse := pd_parse\<rparr>) (Some example_frame_spanish_birth)
       (example_form (u ''2002'')) = Written fn ctx True \<and>
     ctx ''menor_fecha_nacimiento'' = Some (CStr (u ''10-12-2007''))"
proof -
  let ?e = "example_env\<lparr>env_parse := pd_parse\<rparr>" and ?f = "example_form (u ''2002'')"
  note cells = example_spanish_birth_cells
  have n: "numero_siria ?f = u ''2002''"
    by (simp add: numero_siria_def example_form_def py_strip_def py_isspace_def py_delete1_def)
  have m: "is_minor (env_now ?e) (env_parse ?e) example_frame_spanish_birth (numero_siria ?f) =
      Inr (age_years ((2025, 11, 9), 0) ((2007, 12, 10), 0) < 18,
           Some (CStr (zpad 2 12 @ [47] @ zpad 2 10 @ [47] @ zpad 4 (nat 2007))), Some (CStr (u ''1001'')))"
  proof -
    have en: "env_now ?e = ((2025, 11, 9), 0)" "env_parse ?e = pd_parse" by (simp_all add: example_env_def)
    show ?thesis unfolding n en by (rule is_minor_dmy_text [OF pandas_compatible_pd_parse cells])
      (simp_all add: valid_date_def days_in_month_def valid_ts_def ns_per_day_def)
  qed
  have m': "is_minor (env_now ?e) (env_parse ?e) example_frame_spanish_birth (numero_siria ?f) =
      Inr (True, Some (CStr (zpad 2 12 @ [47] @ zpad 2 10 @ [47] @ zpad 4 (nat 2007))), Some (CStr (u ''1001'')))"
    using m by (simp add: age_years_def)
  have rt: "resolve_titular ?e (Some (CStr (u ''1001''))) = u ''1001''"
    by (simp add: resolve_titular_def example_env_def pd_isna_def py_str_def)
  obtain dt where gt: "get_person_data (env_parse ?e) example_frame_spanish_birth (resolve_titular ?e (Some (CStr (u ''1001'')))) True = Inr (Some dt)"
    using example_spanish_person_data(1) rt by auto
  obtain dm where gm: "get_person_data (env_parse ?e) example_frame_spanish_birth (numero_siria ?f) False = Inr (Some dm)"
    and dn: "dm ''menor_nombre'' = Some (CStr (u ''Luis''))" and da: "dm ''menor_apellidos'' = Some (CStr (u ''Perez''))"
    using example_spanish_person_data(2) n by auto
  obtain fn ctx where w: "generate_document ?e (Some example_frame_spanish_birth) ?f = Written fn ctx (startfile_ok ?e)"
  proof -
    have "\<exists>fn ctx. generate_document ?e (Some example_frame_spanish_birth) ?f = Written fn ctx (startfile_ok ?e)"
    proof (rule generate_document_minor_writes [OF _ m' _ gt gm dn da])
      show "validate_input ?f = Inr ()" by (simp add: example_form_valid)
      show "resolve_titular ?e (Some (CStr (u ''1001''))) \<noteq> []" using rt by simp
      show "descripcion (codigo_ayuda ?f) \<noteq> None"
        by (simp add: example_form_def descripcion_def py_dict_def codigos_ayuda_descripcion_def)
    qed (simp_all add: example_env_def)
    then show ?thesis using that by blast
  qed
  have pc: "pandas_compatible (env_parse ?e)" by (simp add: pandas_compatible_pd_parse)
  have "ctx ''menor_fecha_nacimiento'' = Some (CStr (fmt_dmy (2007, 12, 10)))"
  proof (rule generate_document_spanish_birth [OF pc w])
    show "df_find example_frame_spanish_birth (numero_siria ?f) = Inr (Some (df_rows example_frame_spanish_birth ! 1))"
      unfolding n by (rule cells(1))
  qed (use cells(2) in \<open>simp_all add: valid_date_def days_in_month_def\<close>)
  moreover have "startfile_ok ?e" by (simp add: example_env_def)
  ultimately show ?thesis using w by (simp add: fmt_dmy_def year_str_def zpad_def nat_str_def nat_digits.simps)
qed

end
